(* ===== verification/Prelude.thy ===== *)
theory Prelude
  imports Main
begin

text \<open>
  Shared vocabulary of the development: the error values that the Go code passes around
  (the sentinel errors of the etcd client and opaque errors of every other collaborator),
  the clock used for lock TTLs and back-off, and the collections of rewrite rules that the
  component theories fill.
\<close>

named_theorems store_simps "evaluation rules of the distributed store operations"
named_theorems node_simps "evaluation rules of one coordinator step"

type_synonym time = nat

text \<open>
  Go's \<open>error\<close> is an interface value compared by identity with sentinels. The coordinator
  only distinguishes \<open>etcd.ErrKeyMissing\<close>; the other constructors are the remaining store
  failures and an opaque error raised by any other collaborator (a message).
\<close>

datatype error =
    ErrKeyMissing
  | ErrKeyExists
  | ErrUnavailable
  | ErrMsg string

text \<open>Go's \<open>err != nil\<close> on an \<open>error option\<close>.\<close>

abbreviation failed :: "error option \<Rightarrow> bool" where
  "failed r \<equiv> r \<noteq> None"

end
