(* ===== verification/Etcd.thy ===== *)
theory Etcd
  imports Prelude
begin

text \<open>
  The distributed key-value store as the coordinator uses it (\<open>etcd.Clienter\<close>: \<open>Get\<close>,
  \<open>GetOrCreateLock\<close>, \<open>PutTx\<close>, \<open>Delete\<close>). The client package \<open>pkg/etcd\<close> is not among
  the sources, so these operations follow the interface contract of the specification: a
  key may carry an expiry time (its TTL lease) after which it reads as absent;
  \<open>GetOrCreateLock\<close> atomically creates a TTL-bounded key if no live one exists and says
  whether this call created it; \<open>PutTx\<close> writes only a key that is absent; \<open>Delete\<close>
  removes a key. While the store is unreachable every operation fails with
  \<open>ErrUnavailable\<close> and changes nothing.
\<close>

record entry =
  data :: string
  expires :: "time option"

record store =
  kv :: "string \<rightharpoonup> entry"
  up :: bool

definition live :: "store \<Rightarrow> time \<Rightarrow> string \<Rightarrow> bool" where
  "live s now k =
     (case kv s k of
        None \<Rightarrow> False
      | Some e \<Rightarrow> (case expires e of None \<Rightarrow> True | Some t \<Rightarrow> now < t))"

definition etcd_get :: "store \<Rightarrow> time \<Rightarrow> string \<Rightarrow> error + string" where
  "etcd_get s now k =
     (if \<not> up s then Inl ErrUnavailable
      else if live s now k then Inr (data (the (kv s k)))
      else Inl ErrKeyMissing)"

definition etcd_get_or_create_lock ::
  "store \<Rightarrow> time \<Rightarrow> string \<Rightarrow> time \<Rightarrow> (error + bool) \<times> store" where
  "etcd_get_or_create_lock s now k ttl =
     (if \<not> up s then (Inl ErrUnavailable, s)
      else if live s now k then (Inr False, s)
      else (Inr True, s\<lparr>kv := (kv s)(k \<mapsto> \<lparr>data = '''', expires = Some (now + ttl)\<rparr>)\<rparr>))"

definition etcd_put_tx :: "store \<Rightarrow> time \<Rightarrow> string \<Rightarrow> string \<Rightarrow> error option \<times> store" where
  "etcd_put_tx s now k v =
     (if \<not> up s then (Some ErrUnavailable, s)
      else if live s now k then (Some ErrKeyExists, s)
      else (None, s\<lparr>kv := (kv s)(k \<mapsto> \<lparr>data = v, expires = None\<rparr>)\<rparr>))"

definition etcd_delete :: "store \<Rightarrow> string \<Rightarrow> error option \<times> store" where
  "etcd_delete s k =
     (if \<not> up s then (Some ErrUnavailable, s)
      else (None, s\<lparr>kv := (kv s)(k := None)\<rparr>))"

declare etcd_get_def [store_simps] etcd_get_or_create_lock_def [store_simps]
  etcd_put_tx_def [store_simps] etcd_delete_def [store_simps]

subsection \<open>Properties of the store operations\<close>

text \<open>Each operation touches only the key it names.\<close>

lemma kv_get_or_create_lock_other:
  "k' \<noteq> k \<Longrightarrow> kv (snd (etcd_get_or_create_lock s now k ttl)) k' = kv s k'"
  by (simp add: etcd_get_or_create_lock_def)

lemma kv_put_tx_other:
  "k' \<noteq> k \<Longrightarrow> kv (snd (etcd_put_tx s now k v)) k' = kv s k'"
  by (simp add: etcd_put_tx_def)

lemma kv_delete_other:
  "k' \<noteq> k \<Longrightarrow> kv (snd (etcd_delete s k)) k' = kv s k'"
  by (simp add: etcd_delete_def)

lemma up_ops [simp]:
  "up (snd (etcd_get_or_create_lock s now k ttl)) = up s"
  "up (snd (etcd_put_tx s now k v)) = up s"
  "up (snd (etcd_delete s k)) = up s"
  by (simp_all add: store_simps)

text \<open>\<open>PutTx\<close> never overwrites: on a live key it fails and leaves the store as it was.\<close>

lemma put_tx_live:
  "live s now k \<Longrightarrow> etcd_put_tx s now k v = (if up s then Some ErrKeyExists else Some ErrUnavailable, s)"
  by (simp add: etcd_put_tx_def)

lemma put_tx_success:
  "fst (etcd_put_tx s now k v) = None \<longleftrightarrow> up s \<and> \<not> live s now k"
  by (simp add: etcd_put_tx_def)

lemma put_tx_written:
  "fst (etcd_put_tx s now k v) = None \<Longrightarrow>
     kv (snd (etcd_put_tx s now k v)) k = Some \<lparr>data = v, expires = None\<rparr>"
  by (simp add: etcd_put_tx_def split: if_splits)

lemma put_tx_failed_unchanged:
  "fst (etcd_put_tx s now k v) \<noteq> None \<Longrightarrow> snd (etcd_put_tx s now k v) = s"
  by (simp add: etcd_put_tx_def split: if_splits)

text \<open>The lock is granted only when no live lock exists, and the granted lock lives for its TTL.\<close>

lemma lock_granted:
  "fst (etcd_get_or_create_lock s now k ttl) = Inr True \<longleftrightarrow> up s \<and> \<not> live s now k"
  by (simp add: etcd_get_or_create_lock_def)

lemma lock_granted_live:
  "fst (etcd_get_or_create_lock s now k ttl) = Inr True \<Longrightarrow> now' < now + ttl \<Longrightarrow>
     live (snd (etcd_get_or_create_lock s now k ttl)) now' k"
  by (simp add: etcd_get_or_create_lock_def live_def split: if_splits)

lemma lock_refused_unchanged:
  "fst (etcd_get_or_create_lock s now k ttl) \<noteq> Inr True \<Longrightarrow>
     snd (etcd_get_or_create_lock s now k ttl) = s"
  by (simp add: etcd_get_or_create_lock_def split: if_splits)

text \<open>A key written without a lease reads back its value at any later time.\<close>

lemma get_put_tx:
  "fst (etcd_put_tx s now k v) = None \<Longrightarrow> etcd_get (snd (etcd_put_tx s now k v)) now' k = Inr v"
  by (simp add: etcd_put_tx_def etcd_get_def live_def split: if_splits)

lemma get_missing_iff:
  "etcd_get s now k = Inl ErrKeyMissing \<longleftrightarrow> up s \<and> \<not> live s now k"
  by (simp add: etcd_get_def)

end
