(* ===== verification/Collaborators.thy ===== *)
theory Collaborators
  imports Prelude "HOL-Library.Sublist"
begin

text \<open>
  The coordinator reaches every external collaborator through two Go interfaces, introduced
  in the source so that tests can substitute mocks: \<open>kubeadm.Kubeadmer\<close>
  (\<open>Addons\<close>, \<open>CreateKubeConfig\<close>, \<open>CreatePKI\<close>, \<open>LoadAndSerializeAssets\<close>,
  \<open>SaveAssets\<close>, \<open>UpdateMasterRoleLabelsAndTaints\<close>, \<open>WriteManifests\<close>) and
  \<open>kmm.Interface\<close> (\<open>CopyKubeCa\<close>, \<open>InstallNetwork\<close>, \<open>TokensDeploy\<close>,
  \<open>UpdateCloudCfg\<close>, \<open>CreateAndStartKubelet\<close>; \<open>CleanUp\<close> is a store operation and is
  modelled with the coordinator). A call is a value of \<open>call\<close>; an implementation is a
  \<open>provider\<close>, which says for every call whether it fails and with which error, and which
  serialized bundle \<open>LoadAndSerializeAssets\<close> yields. \<open>run_seq\<close> is the Go idiom
  \<open>if err = f(); err != nil { return err }\<close> repeated over a sequence of calls: it makes the
  calls in order, stops at the first failure and returns the calls it made.
\<close>

datatype call =
    UpdateCloudCfg
  | CopyKubeCa
  | WriteManifests
  | CreatePKI
  | LoadAndSerializeAssets
  | CreateKubeConfig
  | CreateAndStartKubelet bool
  | Addons
  | InstallNetwork
  | TokensDeploy
  | SaveAssets string
  | UpdateMasterRoleLabelsAndTaints
  | WriteKetoTokenEnv

record provider =
  outcome :: "call \<Rightarrow> error option"
  serialized :: string

text \<open>
  \<open>LoadAndSerializeAssets\<close> returns \<open>(assets string, err error)\<close>; on every error path of
  its implementation (\<open>kubeadm.go\<close>, lines 85--124) the string is empty.
\<close>

definition load_and_serialize_assets :: "provider \<Rightarrow> string \<times> error option" where
  "load_and_serialize_assets p =
     (case outcome p LoadAndSerializeAssets of
        None \<Rightarrow> (serialized p, None)
      | Some e \<Rightarrow> ('''', Some e))"

fun run_seq :: "provider \<Rightarrow> call list \<Rightarrow> error option \<times> call list" where
  "run_seq p [] = (None, [])"
| "run_seq p (c # cs) =
     (case outcome p c of
        Some e \<Rightarrow> (Some e, [c])
      | None \<Rightarrow> (let (r, tr) = run_seq p cs in (r, c # tr)))"

text \<open>A provider whose every call succeeds (the happy path of a mock).\<close>

definition all_ok :: "string \<Rightarrow> provider" where
  "all_ok a = \<lparr>outcome = (\<lambda>_. None), serialized = a\<rparr>"

text \<open>A provider in which exactly one call fails.\<close>

definition failing_at :: "call \<Rightarrow> error \<Rightarrow> string \<Rightarrow> provider" where
  "failing_at c e a = \<lparr>outcome = (\<lambda>c'. if c' = c then Some e else None), serialized = a\<rparr>"

subsection \<open>Sequencing\<close>

lemma run_seq_success_iff:
  "fst (run_seq p cs) = None \<longleftrightarrow> (\<forall>c \<in> set cs. outcome p c = None)"
  by (induction cs) (auto split: option.splits prod.splits)

lemma run_seq_success_trace:
  "fst (run_seq p cs) = None \<Longrightarrow> snd (run_seq p cs) = cs"
  by (induction cs) (auto split: option.splits prod.splits)

lemma run_seq_all_ok:
  "(\<forall>c \<in> set cs. outcome p c = None) \<Longrightarrow> run_seq p cs = (None, cs)"
  by (metis prod.collapse run_seq_success_iff run_seq_success_trace)

text \<open>
  A failing sequence stops at its first failing call: the trace is a prefix of the sequence
  ending in that call, and every call before it succeeded.
\<close>

lemma run_seq_failure:
  assumes "run_seq p cs = (Some e, tr)"
  shows "\<exists>pre c. tr = pre @ [c] \<and> prefix tr cs \<and> outcome p c = Some e
                 \<and> (\<forall>c' \<in> set pre. outcome p c' = None)"
  using assms
proof (induction cs arbitrary: tr)
  case Nil
  then show ?case by simp
next
  case (Cons c cs)
  show ?case
  proof (cases "outcome p c")
    case (Some e')
    with Cons.prems show ?thesis by auto
  next
    case None
    with Cons.prems obtain tr' where tr: "run_seq p cs = (Some e, tr')" and "tr = c # tr'"
      by (auto split: prod.splits)
    from Cons.IH [OF tr] obtain pre c0 where
      "tr' = pre @ [c0]" "prefix tr' cs" "outcome p c0 = Some e" "\<forall>c' \<in> set pre. outcome p c' = None"
      by blast
    with None \<open>tr = c # tr'\<close> show ?thesis
      by (intro exI [of _ "c # pre"] exI [of _ c0]) auto
  qed
qed

lemma run_seq_trace_prefix: "prefix (snd (run_seq p cs)) cs"
  by (induction cs) (auto split: option.splits prod.splits)

lemma run_seq_trace_nonempty:
  "fst (run_seq p cs) \<noteq> None \<Longrightarrow> snd (run_seq p cs) \<noteq> []"
  by (induction cs) (auto split: option.splits prod.splits)

lemma run_seq_append:
  "run_seq p (xs @ ys) =
     (case run_seq p xs of
        (None, t) \<Rightarrow> (let (r, t') = run_seq p ys in (r, t @ t'))
      | (Some e, t) \<Rightarrow> (Some e, t))"
  by (induction xs) (auto split: option.splits prod.splits)

lemma load_and_serialize_assets_error:
  "snd (load_and_serialize_assets p) = outcome p LoadAndSerializeAssets"
  by (simp add: load_and_serialize_assets_def split: option.splits)

end
