(* ===== verification/Coordinator.thy ===== *)
theory Coordinator
  imports Etcd Collaborators
begin

text \<open>
  The election-and-asset-sharing coordinator of \<open>kmm.go\<close> (\<open>src/unnamed/part_000\<close>):
  the well-known keys and defaults, \<open>New\<close>, \<open>BootstrapOnce\<close> (primary path),
  \<open>BootstrapSecondaryMaster\<close> (secondary path), \<open>CleanUp\<close>, and the retry loop of
  \<open>CreateOrGetSharedAssets\<close>. The loop is cut at its store operations: \<open>node_step\<close>
  performs the code between two consecutive store operations (or one store operation) of
  one process, so that processes of several nodes can interleave at exactly those points
  (theory \<open>Cluster\<close>). Every step appends what it did to the node's log: each collaborator
  call with its result and each store operation with its result, stamped with the time.
  \<open>CreateOrGetSharedAssets\<close> runs one process against a store that no other process
  touches; the time only moves forward while it sleeps.
\<close>

definition assetKey :: string where
  "assetKey = ''kmm-asset-key''"

definition assetLockKey :: string where
  "assetLockKey = ''kmm-asset-lock''"

text \<open>Durations are in seconds: \<open>20 * time.Second\<close> and \<open>120 * time.Second\<close>.\<close>

definition defaultBackOff :: time where
  "defaultBackOff = 20"

definition defaultLockTTL :: time where
  "defaultLockTTL = 120"

lemma keys_distinct [simp]: "assetKey \<noteq> assetLockKey" "assetLockKey \<noteq> assetKey"
  by (simp_all add: assetKey_def assetLockKey_def)

text \<open>
  The part of \<open>ConfigType\<close> the coordinator reads: the completion switch, the back-off,
  and the implementations of \<open>Kubeadmer\<close> and \<open>Interface\<close> (one provider).
\<close>

record config =
  ExitOnCompletion :: bool
  MasterBackOffTime :: time
  prov :: provider

text \<open>\<open>New\<close> always overwrites the back-off with the default and wires the interfaces.\<close>

definition New :: "config \<Rightarrow> config" where
  "New cfg = cfg\<lparr>MasterBackOffTime := defaultBackOff\<rparr>"

datatype act =
    Ext call "error option"
  | StoreGet string "error + string"
  | StoreLock string "error + bool"
  | StorePut string string "error option"
  | StoreDelete string "error option"

type_synonym log = "(time \<times> act) list"

definition ext_log :: "time \<Rightarrow> provider \<Rightarrow> call list \<Rightarrow> log" where
  "ext_log now p tr = map (\<lambda>c. (now, Ext c (outcome p c))) tr"

subsection \<open>The primary and secondary sequences\<close>

text \<open>
  \<open>BootstrapOnce\<close>: the error of \<open>LoadAndSerializeAssets\<close> is assigned to \<open>err\<close> and
  overwritten by the next call before anyone reads it, so it is ignored here too.
\<close>

definition BootstrapOnce :: "provider \<Rightarrow> (error + string) \<times> call list" where
  "BootstrapOnce p =
     (case outcome p CreatePKI of
        Some e \<Rightarrow> (Inl e, [CreatePKI])
      | None \<Rightarrow>
          (let (assets, _) = load_and_serialize_assets p;
               (r, tr) = run_seq p [CreateKubeConfig, CreateAndStartKubelet True, Addons,
                                    InstallNetwork, TokensDeploy]
           in ((case r of Some e \<Rightarrow> Inl e | None \<Rightarrow> Inr assets),
               CreatePKI # LoadAndSerializeAssets # tr)))"

definition BootstrapSecondaryMaster :: "provider \<Rightarrow> string \<Rightarrow> error option \<times> call list" where
  "BootstrapSecondaryMaster p assets =
     run_seq p [SaveAssets assets, CreatePKI, CreateKubeConfig, CreateAndStartKubelet True,
                UpdateMasterRoleLabelsAndTaints]"

subsection \<open>Failure cleanup\<close>

definition delete_logged :: "time \<Rightarrow> string \<Rightarrow> store \<Rightarrow> error option \<times> store \<times> log" where
  "delete_logged now k s = (let (r, s') = etcd_delete s k in (r, s', [(now, StoreDelete k r)]))"

definition CleanUp :: "time \<Rightarrow> bool \<Rightarrow> bool \<Rightarrow> store \<Rightarrow> error option \<times> store \<times> log" where
  "CleanUp now releaseLock deleteAssets s =
     (let (r1, s1, l1) = (if releaseLock then delete_logged now assetLockKey s else (None, s, []))
      in if r1 \<noteq> None then (r1, s1, l1)
         else (let (r2, s2, l2) =
                     (if deleteAssets then delete_logged now assetKey s1 else (None, s1, []))
               in (r2, s2, l1 @ l2)))"

subsection \<open>The retry loop, one store operation at a time\<close>

datatype pc =
    Start
  | GetAssets
  | TryLock
  | Sleeping time
  | Bootstrapping
  | Publishing string
  | CleaningUp error
  | Secondary string
  | Bootstrapped
  | Parked
  | Returned "error option"

record node =
  pc :: pc
  log :: log

definition start_node :: node where
  "start_node = \<lparr>pc = Start, log = []\<rparr>"

definition node_step :: "config \<Rightarrow> time \<Rightarrow> node \<Rightarrow> store \<Rightarrow> node \<times> store" where
  "node_step cfg now n s =
     (case pc n of
        Start \<Rightarrow>
          (let (r, tr) = run_seq (prov cfg) [UpdateCloudCfg, CopyKubeCa, WriteManifests]
           in (n\<lparr>pc := (case r of Some e \<Rightarrow> Returned (Some e) | None \<Rightarrow> GetAssets),
                 log := log n @ ext_log now (prov cfg) tr\<rparr>, s))
      | GetAssets \<Rightarrow>
          (let r = etcd_get s now assetKey
           in (n\<lparr>pc := (case r of
                          Inl e \<Rightarrow> if e = ErrKeyMissing then TryLock else Returned (Some e)
                        | Inr assets \<Rightarrow> Secondary assets),
                 log := log n @ [(now, StoreGet assetKey r)]\<rparr>, s))
      | TryLock \<Rightarrow>
          (let (r, s') = etcd_get_or_create_lock s now assetLockKey defaultLockTTL
           in (n\<lparr>pc := (case r of
                          Inl e \<Rightarrow> Returned (Some e)
                        | Inr mylock \<Rightarrow>
                            if mylock then Bootstrapping else Sleeping (now + MasterBackOffTime cfg)),
                 log := log n @ [(now, StoreLock assetLockKey r)]\<rparr>, s'))
      | Sleeping w \<Rightarrow> (if w \<le> now then (n\<lparr>pc := GetAssets\<rparr>, s) else (n, s))
      | Bootstrapping \<Rightarrow>
          (let (r, tr) = BootstrapOnce (prov cfg)
           in (n\<lparr>pc := (case r of Inl e \<Rightarrow> CleaningUp e | Inr assets \<Rightarrow> Publishing assets),
                 log := log n @ ext_log now (prov cfg) tr\<rparr>, s))
      | Publishing assets \<Rightarrow>
          (let (r, s') = etcd_put_tx s now assetKey assets
           in (n\<lparr>pc := (case r of Some e \<Rightarrow> CleaningUp e | None \<Rightarrow> Bootstrapped),
                 log := log n @ [(now, StorePut assetKey assets r)]\<rparr>, s'))
      | CleaningUp e \<Rightarrow>
          (let (_, s', l) = CleanUp now True False s
           in (n\<lparr>pc := Returned (Some e), log := log n @ l\<rparr>, s'))
      | Secondary assets \<Rightarrow>
          (let (r, tr) = BootstrapSecondaryMaster (prov cfg) assets
           in (n\<lparr>pc := (case r of Some e \<Rightarrow> Returned (Some e) | None \<Rightarrow> Bootstrapped),
                 log := log n @ ext_log now (prov cfg) tr\<rparr>, s))
      | Bootstrapped \<Rightarrow>
          (n\<lparr>pc := (if ExitOnCompletion cfg then Returned None else Parked)\<rparr>, s)
      | Parked \<Rightarrow> (n, s)
      | Returned r \<Rightarrow> (n, s))"

text \<open>
  A step of a process is possible unless it has returned, is parked in the endless
  \<open>for true {}\<close> (whose steps change nothing), or is asleep before its wake-up time.
\<close>

definition node_enabled :: "time \<Rightarrow> node \<Rightarrow> bool" where
  "node_enabled now n =
     (case pc n of
        Sleeping w \<Rightarrow> w \<le> now
      | Parked \<Rightarrow> False
      | Returned _ \<Rightarrow> False
      | _ \<Rightarrow> True)"

text \<open>
  One process alone against the store: the loop runs until the process returns; while it
  sleeps the clock jumps to its wake-up time. \<open>None\<close> is a run that never returns.
\<close>

partial_function (option) CreateOrGetSharedAssets ::
  "config \<Rightarrow> time \<Rightarrow> node \<Rightarrow> store \<Rightarrow> (error option \<times> node \<times> store) option" where
  "CreateOrGetSharedAssets cfg now n s =
     (case pc n of
        Returned r \<Rightarrow> Some (r, n, s)
      | _ \<Rightarrow>
          (let now' = (case pc n of Sleeping w \<Rightarrow> max now w | _ \<Rightarrow> now);
               (n', s') = node_step cfg now' n s
           in CreateOrGetSharedAssets cfg now' n' s'))"

text \<open>The states in which a process has won the lock and not yet released it or returned.\<close>

fun in_primary :: "pc \<Rightarrow> bool" where
  "in_primary Bootstrapping = True"
| "in_primary (Publishing _) = True"
| "in_primary (CleaningUp _) = True"
| "in_primary _ = False"

subsection \<open>What one step can change\<close>

lemmas node_step_unfold =
  node_step_def CleanUp_def delete_logged_def split_def Let_def ext_log_def

lemma set_run_seq_trace: "c \<in> set (snd (run_seq p cs)) \<Longrightarrow> c \<in> set cs"
  using run_seq_trace_prefix [of p cs] by (auto dest: set_mono_prefix)

lemma set_BootstrapOnce_trace:
  "c \<in> set (snd (BootstrapOnce p)) \<Longrightarrow>
     c \<in> {CreatePKI, LoadAndSerializeAssets, CreateKubeConfig, CreateAndStartKubelet True, Addons,
          InstallNetwork, TokensDeploy}"
  by (auto simp: BootstrapOnce_def split_def split: option.splits dest!: set_run_seq_trace)

lemma node_step_up [simp]: "up (snd (node_step cfg now n s)) = up s"
  by (simp add: node_step_unfold split: pc.split)

text \<open>Only \<open>PutTx\<close> writes the asset key; only the lock attempt and the cleanup write the lock key.\<close>

lemma node_step_kv_asset:
  "kv (snd (node_step cfg now n s)) assetKey =
     (case pc n of
        Publishing a \<Rightarrow> kv (snd (etcd_put_tx s now assetKey a)) assetKey
      | _ \<Rightarrow> kv s assetKey)"
  by (simp add: node_step_unfold kv_get_or_create_lock_other kv_delete_other split: pc.split)

lemma node_step_kv_lock:
  "kv (snd (node_step cfg now n s)) assetLockKey =
     (case pc n of
        TryLock \<Rightarrow> kv (snd (etcd_get_or_create_lock s now assetLockKey defaultLockTTL)) assetLockKey
      | CleaningUp _ \<Rightarrow> kv (snd (etcd_delete s assetLockKey)) assetLockKey
      | _ \<Rightarrow> kv s assetLockKey)"
  by (simp add: node_step_unfold kv_put_tx_other split: pc.split)

lemma node_step_log_put:
  "(t, StorePut k a r) \<in> set (log (fst (node_step cfg now n s))) \<Longrightarrow>
     (t, StorePut k a r) \<in> set (log n)
     \<or> (pc n = Publishing a \<and> k = assetKey \<and> t = now \<and> r = fst (etcd_put_tx s now assetKey a))"
  by (auto simp: node_step_unfold split: pc.splits if_splits)

lemma node_step_log_save:
  "(t, Ext (SaveAssets a) r) \<in> set (log (fst (node_step cfg now n s))) \<Longrightarrow>
     (t, Ext (SaveAssets a) r) \<in> set (log n) \<or> pc n = Secondary a"
  by (auto simp del: run_seq.simps simp: node_step_unfold BootstrapSecondaryMaster_def
      split: pc.splits if_splits dest!: set_run_seq_trace set_BootstrapOnce_trace)

text \<open>A process reaches the secondary path only from a read that returned the record.\<close>

lemma node_step_enter_secondary:
  "pc (fst (node_step cfg now n s)) = Secondary a \<Longrightarrow>
     pc n = GetAssets \<and> etcd_get s now assetKey = Inr a"
  by (auto simp: node_step_unfold split: pc.splits if_splits sum.splits option.splits)

text \<open>A process enters the lock-holding states only through a granted lock.\<close>

lemma node_step_enter_primary:
  "in_primary (pc (fst (node_step cfg now n s))) \<Longrightarrow>
     (pc n = TryLock \<and> fst (etcd_get_or_create_lock s now assetLockKey defaultLockTTL) = Inr True)
     \<or> pc n = Bootstrapping \<or> (\<exists>a. pc n = Publishing a)"
  by (auto simp: node_step_unfold split: pc.splits if_splits sum.splits option.splits)


text \<open>A step only appends to the log.\<close>

lemma node_step_log_extends: "\<exists>new. log (fst (node_step cfg now n s)) = log n @ new"
  by (auto simp: node_step_unfold split: pc.split)

end
