(* ===== verification/Cluster.thy ===== *)
theory Cluster
  imports Coordinator
begin

text \<open>
  Several control-plane nodes run \<open>CreateOrGetSharedAssets\<close> at once against one store.
  A cluster state holds the global clock, the store and one process per node (a list, so
  the cluster has finitely many nodes). A step of the cluster is a step of one process
  whose step is enabled (\<open>node_step\<close> at the current time), the passing of time, or the
  store becoming unreachable or reachable again. Time may pass freely; with \<open>bounded\<close> set,
  it may not pass so far that the lease of a process still in its primary section runs
  out (the assumption "every \<open>BootstrapOnce\<close> ends within the lock TTL").
  A schedule (a list of \<open>sched\<close> events) is run by \<open>run_sched\<close>, which produces
  concrete reachable states for witnesses.
\<close>

record cluster =
  clock :: time
  store :: store
  nodes :: "node list"

definition lease_ok :: "cluster \<Rightarrow> time \<Rightarrow> bool" where
  "lease_ok c t = (\<forall>n \<in> set (nodes c). in_primary (pc n) \<longrightarrow> live (store c) t assetLockKey)"

inductive cstep :: "(nat \<Rightarrow> config) \<Rightarrow> bool \<Rightarrow> cluster \<Rightarrow> cluster \<Rightarrow> bool"
  for cfgs :: "nat \<Rightarrow> config" and bounded :: bool where
  run: "i < length (nodes c) \<Longrightarrow> node_enabled (clock c) (nodes c ! i) \<Longrightarrow>
        node_step (cfgs i) (clock c) (nodes c ! i) (store c) = (n', s') \<Longrightarrow>
        cstep cfgs bounded c (c\<lparr>store := s', nodes := (nodes c)[i := n']\<rparr>)"
| tick: "\<not> bounded \<or> lease_ok c (clock c + d) \<Longrightarrow>
        cstep cfgs bounded c (c\<lparr>clock := clock c + d\<rparr>)"
| outage: "cstep cfgs bounded c (c\<lparr>store := (store c)\<lparr>up := False\<rparr>\<rparr>)"
| recover: "cstep cfgs bounded c (c\<lparr>store := (store c)\<lparr>up := True\<rparr>\<rparr>)"

definition initial :: "store \<Rightarrow> time \<Rightarrow> nat \<Rightarrow> cluster" where
  "initial s t N = \<lparr>clock = t, store = s, nodes = replicate N start_node\<rparr>"

text \<open>
  A cluster starts with every process at the top of \<open>CreateOrGetSharedAssets\<close> and no
  asset record in the store; anything else may be in the store (for instance a stale lock
  of a crashed run).
\<close>

inductive reachable :: "(nat \<Rightarrow> config) \<Rightarrow> bool \<Rightarrow> cluster \<Rightarrow> bool"
  for cfgs :: "nat \<Rightarrow> config" and bounded :: bool where
  init: "kv s assetKey = None \<Longrightarrow> reachable cfgs bounded (initial s t N)"
| step: "reachable cfgs bounded c \<Longrightarrow> cstep cfgs bounded c c' \<Longrightarrow> reachable cfgs bounded c'"

subsection \<open>Schedules\<close>

datatype sched = Run nat | Tick time | Outage | Recover

fun sched_step :: "(nat \<Rightarrow> config) \<Rightarrow> bool \<Rightarrow> cluster \<Rightarrow> sched \<Rightarrow> cluster option" where
  "sched_step cfgs bounded c (Run i) =
     (if i < length (nodes c) \<and> node_enabled (clock c) (nodes c ! i)
      then (let (n', s') = node_step (cfgs i) (clock c) (nodes c ! i) (store c)
            in Some (c\<lparr>store := s', nodes := (nodes c)[i := n']\<rparr>))
      else None)"
| "sched_step cfgs bounded c (Tick d) =
     (if \<not> bounded \<or> lease_ok c (clock c + d) then Some (c\<lparr>clock := clock c + d\<rparr>) else None)"
| "sched_step cfgs bounded c Outage = Some (c\<lparr>store := (store c)\<lparr>up := False\<rparr>\<rparr>)"
| "sched_step cfgs bounded c Recover = Some (c\<lparr>store := (store c)\<lparr>up := True\<rparr>\<rparr>)"

fun run_sched :: "(nat \<Rightarrow> config) \<Rightarrow> bool \<Rightarrow> cluster \<Rightarrow> sched list \<Rightarrow> cluster option" where
  "run_sched cfgs bounded c [] = Some c"
| "run_sched cfgs bounded c (e # es) =
     (case sched_step cfgs bounded c e of
        None \<Rightarrow> None
      | Some c' \<Rightarrow> run_sched cfgs bounded c' es)"

lemma sched_step_cstep:
  assumes "sched_step cfgs bounded c e = Some c'"
  shows "cstep cfgs bounded c c'"
proof (cases e)
  case (Run i)
  with assms obtain n' s' where "node_step (cfgs i) (clock c) (nodes c ! i) (store c) = (n', s')"
    and "i < length (nodes c)" and "node_enabled (clock c) (nodes c ! i)"
    and "c' = c\<lparr>store := s', nodes := (nodes c)[i := n']\<rparr>"
    by (auto split: if_splits prod.splits)
  then show ?thesis by (auto intro: cstep.run)
qed (use assms in \<open>auto intro: cstep.intros split: if_splits\<close>)

lemma run_sched_reachable:
  "reachable cfgs bounded c \<Longrightarrow> run_sched cfgs bounded c es = Some c' \<Longrightarrow> reachable cfgs bounded c'"
proof (induction es arbitrary: c)
  case Nil
  then show ?case by simp
next
  case (Cons e es)
  then obtain c1 where c1: "sched_step cfgs bounded c e = Some c1"
    and rest: "run_sched cfgs bounded c1 es = Some c'"
    by (auto split: option.splits)
  from Cons.prems(1) sched_step_cstep [OF c1] have "reachable cfgs bounded c1"
    by (rule reachable.step)
  then show ?case using rest by (rule Cons.IH)
qed

text \<open>A schedule that runs to a state with property \<open>P\<close> proves such a state reachable.\<close>

lemma run_sched_exists:
  assumes "reachable cfgs bounded c0"
    and "(case run_sched cfgs bounded c0 es of None \<Rightarrow> False | Some c \<Rightarrow> P c)"
  shows "\<exists>c. reachable cfgs bounded c \<and> P c"
  using assms run_sched_reachable [OF assms(1)] by (auto split: option.splits)

subsection \<open>Safety invariants\<close>

lemma live_leaseless: "kv s k = Some e \<Longrightarrow> expires e = None \<Longrightarrow> live s now k"
  by (simp add: live_def)

text \<open>Steps of the environment change neither the processes nor the keys of the store.\<close>

lemma cstep_env_or_run:
  assumes "cstep cfgs bounded c c'"
  obtains (env) "nodes c' = nodes c" "kv (store c') = kv (store c)" "clock c \<le> clock c'"
  | (run) i n' s' where "i < length (nodes c)" "node_enabled (clock c) (nodes c ! i)"
      "node_step (cfgs i) (clock c) (nodes c ! i) (store c) = (n', s')"
      "c' = c\<lparr>store := s', nodes := (nodes c)[i := n']\<rparr>"
  using assms by (cases rule: cstep.cases) auto

lemma cstep_length: "cstep cfgs bounded c c' \<Longrightarrow> length (nodes c') = length (nodes c)"
  by (erule cstep_env_or_run) auto

lemma cstep_clock_mono: "cstep cfgs bounded c c' \<Longrightarrow> clock c \<le> clock c'"
  by (erule cstep_env_or_run) auto

lemma node_step_asset_kept:
  assumes "kv s assetKey = Some e" "expires e = None"
  shows "kv (snd (node_step cfg now n s)) assetKey = Some e"
  using assms by (simp add: node_step_kv_asset put_tx_live live_leaseless split: pc.split)

lemma cstep_asset_kept:
  assumes "cstep cfgs bounded c c'" "kv (store c) assetKey = Some e" "expires e = None"
  shows "kv (store c') assetKey = Some e"
  using assms(1)
proof (cases rule: cstep_env_or_run)
  case env
  with assms(2) show ?thesis by simp
next
  case (run i n' s')
  with node_step_asset_kept [OF assms(2,3), of "cfgs i" "clock c" "nodes c ! i"] show ?thesis
    by simp
qed


definition leaseless_asset :: "cluster \<Rightarrow> bool" where
  "leaseless_asset c \<longleftrightarrow> (\<forall>e. kv (store c) assetKey = Some e \<longrightarrow> expires e = None)"

lemma node_step_asset_written:
  "kv s assetKey = None \<Longrightarrow> kv (snd (node_step cfg now n s)) assetKey = Some e \<Longrightarrow> expires e = None"
  by (auto simp: node_step_kv_asset etcd_put_tx_def split: pc.splits if_splits)

lemma leaseless_asset_step:
  assumes "cstep cfgs bounded c c'" "leaseless_asset c"
  shows "leaseless_asset c'"
  using assms(1)
proof (cases rule: cstep_env_or_run)
  case env
  with assms(2) show ?thesis by (simp add: leaseless_asset_def)
next
  case (run i n' s')
  show ?thesis
  proof (cases "kv (store c) assetKey")
    case None
    with run node_step_asset_written [OF None, of "cfgs i" "clock c" "nodes c ! i"] show ?thesis
      by (simp add: leaseless_asset_def)
  next
    case (Some e)
    with assms(2) have "expires e = None" by (simp add: leaseless_asset_def)
    with Some run node_step_asset_kept [OF Some, of "cfgs i" "clock c" "nodes c ! i"] show ?thesis
      by (simp add: leaseless_asset_def)
  qed
qed
definition published :: "node \<Rightarrow> string \<Rightarrow> bool" where
  "published n a \<longleftrightarrow> StorePut assetKey a None \<in> snd ` set (log n)"

definition asset_is :: "store \<Rightarrow> string \<Rightarrow> bool" where
  "asset_is s a \<longleftrightarrow> kv s assetKey = Some \<lparr>data = a, expires = None\<rparr>"

definition writers_agree :: "cluster \<Rightarrow> bool" where
  "writers_agree c \<longleftrightarrow> (\<forall>n \<in> set (nodes c). \<forall>a. published n a \<longrightarrow> asset_is (store c) a)"

lemma published_step:
  "published (fst (node_step cfg now n s)) a \<Longrightarrow>
     published n a \<or> (pc n = Publishing a \<and> fst (etcd_put_tx s now assetKey a) = None)"
  unfolding published_def by (force dest: node_step_log_put)

lemma node_step_publish_written:
  "pc n = Publishing a \<Longrightarrow> fst (etcd_put_tx s now assetKey a) = None \<Longrightarrow>
     asset_is (snd (node_step cfg now n s)) a"
  by (simp add: node_step_kv_asset put_tx_written asset_is_def)

lemma node_step_asset_is_kept:
  "asset_is s a \<Longrightarrow> asset_is (snd (node_step cfg now n s)) a"
  unfolding asset_is_def by (rule node_step_asset_kept) simp_all

lemma set_nodes_run:
  "m \<in> set ((nodes c)[i := n']) \<Longrightarrow> m = n' \<or> m \<in> set (nodes c)"
  using set_update_subset_insert by fastforce

lemma writers_agree_step:
  assumes "cstep cfgs bounded c c'" "writers_agree c"
  shows "writers_agree c'"
  using assms(1)
proof (cases rule: cstep_env_or_run)
  case env
  with assms(2) show ?thesis by (simp add: writers_agree_def asset_is_def)
next
  case (run i n' s')
  let ?n = "nodes c ! i"
  have kept: "asset_is s' a" if "asset_is (store c) a" for a
    using node_step_asset_is_kept [OF that, of "cfgs i" "clock c" ?n] run(3) by simp
  have old: "asset_is s' a" if "m \<in> set (nodes c)" "published m a" for m a
    using that assms(2) kept by (auto simp: writers_agree_def)
  have new: "asset_is s' a" if "published n' a" for a
  proof -
    from published_step [of "cfgs i" "clock c" ?n "store c" a] that run(3)
    consider "published ?n a" | "pc ?n = Publishing a" "fst (etcd_put_tx (store c) (clock c) assetKey a) = None"
      by auto
    then show ?thesis
    proof cases
      case 1
      with run(1) show ?thesis by (intro old) auto
    next
      case 2
      from node_step_publish_written [OF 2, of "cfgs i"] run(3) show ?thesis by simp
    qed
  qed
  show ?thesis
    unfolding writers_agree_def
  proof (intro ballI allI impI)
    fix m a assume m: "m \<in> set (nodes c')" and p: "published m a"
    from m run(4) have "m = n' \<or> m \<in> set (nodes c)" by (auto dest: set_nodes_run)
    with p show "asset_is (store c') a" using old new run(4) by auto
  qed
qed
definition single_writer :: "cluster \<Rightarrow> bool" where
  "single_writer c \<longleftrightarrow>
     (\<forall>i < length (nodes c). \<forall>j < length (nodes c). \<forall>a b.
        published (nodes c ! i) a \<longrightarrow> published (nodes c ! j) b \<longrightarrow> i = j)"

text \<open>A successful \<open>PutTx\<close> of the asset happens only while no process has published.\<close>

lemma fresh_publication:
  assumes "leaseless_asset c" "writers_agree c" "m \<in> set (nodes c)"
    and "fst (etcd_put_tx (store c) now assetKey b) = None"
  shows "\<not> published m a"
proof
  assume "published m a"
  with assms(2,3) have "asset_is (store c) a" by (auto simp: writers_agree_def)
  then have "live (store c) now assetKey" by (simp add: asset_is_def live_def)
  with assms(4) show False by (simp add: put_tx_success)
qed

lemma single_writer_step:
  assumes "cstep cfgs bounded c c'" "leaseless_asset c" "writers_agree c" "single_writer c"
  shows "single_writer c'"
  using assms(1)
proof (cases rule: cstep_env_or_run)
  case env
  with assms(4) show ?thesis by (simp add: single_writer_def)
next
  case (run i n' s')
  let ?n = "nodes c ! i"
  have at: "nodes c' ! p = (if p = i then n' else nodes c ! p)" if "p < length (nodes c)" for p
    using that run(4) by simp
  have pub: "published (nodes c' ! p) a \<Longrightarrow> published (nodes c ! p) a
      \<or> (p = i \<and> (\<forall>m \<in> set (nodes c). \<forall>a'. \<not> published m a'))"
    if "p < length (nodes c)" for p a
  proof (cases "p = i")
    case True
    assume "published (nodes c' ! p) a"
    with True that at run(3) published_step [of "cfgs i" "clock c" ?n "store c" a]
    have "published ?n a \<or> fst (etcd_put_tx (store c) (clock c) assetKey a) = None" by auto
    with True fresh_publication [OF assms(2,3)] show ?thesis by blast
  next
    case False
    assume "published (nodes c' ! p) a"
    with False at that show ?thesis by simp
  qed
  show ?thesis
    unfolding single_writer_def
  proof (intro allI impI)
    fix p q a b
    assume p: "p < length (nodes c')" and q: "q < length (nodes c')"
      and pa: "published (nodes c' ! p) a" and qb: "published (nodes c' ! q) b"
    from p q run(4) have p': "p < length (nodes c)" and q': "q < length (nodes c)" by simp_all
    from pub [OF p' pa] pub [OF q' qb] assms(4) p' q' show "p = q"
      unfolding single_writer_def by (metis nth_mem)
  qed
qed
definition consumes :: "node \<Rightarrow> string \<Rightarrow> bool" where
  "consumes n a \<longleftrightarrow> pc n = Secondary a \<or> (\<exists>r. Ext (SaveAssets a) r \<in> snd ` set (log n))"

definition consumers_agree :: "cluster \<Rightarrow> bool" where
  "consumers_agree c \<longleftrightarrow> (\<forall>n \<in> set (nodes c). \<forall>a. consumes n a \<longrightarrow> asset_is (store c) a)"

lemma get_asset_is:
  "etcd_get s now assetKey = Inr a \<Longrightarrow> (\<forall>e. kv s assetKey = Some e \<longrightarrow> expires e = None) \<Longrightarrow>
     asset_is s a"
  by (auto simp: etcd_get_def live_def asset_is_def split: if_splits option.splits)

lemma consumes_step:
  "consumes (fst (node_step cfg now n s)) a \<Longrightarrow>
     consumes n a \<or> (pc n = GetAssets \<and> etcd_get s now assetKey = Inr a)"
  unfolding consumes_def by (force dest: node_step_log_save node_step_enter_secondary)

lemma consumers_agree_step:
  assumes "cstep cfgs bounded c c'" "leaseless_asset c" "consumers_agree c"
  shows "consumers_agree c'"
  using assms(1)
proof (cases rule: cstep_env_or_run)
  case env
  with assms(3) show ?thesis by (simp add: consumers_agree_def asset_is_def)
next
  case (run i n' s')
  let ?n = "nodes c ! i"
  have kept: "asset_is s' a" if "asset_is (store c) a" for a
    using node_step_asset_is_kept [OF that, of "cfgs i" "clock c" ?n] run(3) by simp
  have new: "asset_is (store c) a" if "consumes n' a" for a
  proof -
    from consumes_step [of "cfgs i" "clock c" ?n "store c" a] that run(3)
    consider "consumes ?n a" | "etcd_get (store c) (clock c) assetKey = Inr a" by auto
    then show ?thesis
    proof cases
      case 1
      with run(1) assms(3) show ?thesis by (auto simp: consumers_agree_def)
    next
      case 2
      with assms(2) show ?thesis by (auto simp: leaseless_asset_def intro: get_asset_is)
    qed
  qed
  show ?thesis
    unfolding consumers_agree_def
  proof (intro ballI allI impI)
    fix m a assume m: "m \<in> set (nodes c')" and p: "consumes m a"
    from m run(4) have "m = n' \<or> m \<in> set (nodes c)" by (auto dest: set_nodes_run)
    with p assms(3) new kept run(4) show "asset_is (store c') a"
      by (auto simp: consumers_agree_def)
  qed
qed

subsection \<open>Lock holders\<close>

definition lock_holders_ok :: "cluster \<Rightarrow> bool" where
  "lock_holders_ok c \<longleftrightarrow>
     (\<forall>n \<in> set (nodes c). in_primary (pc n) \<longrightarrow> live (store c) (clock c) assetLockKey)
     \<and> (\<forall>i < length (nodes c). \<forall>j < length (nodes c).
          in_primary (pc (nodes c ! i)) \<longrightarrow> in_primary (pc (nodes c ! j)) \<longrightarrow> i = j)"

lemma live_kv_cong: "kv s k = kv s' k \<Longrightarrow> live s now k = live s' now k"
  by (simp add: live_def)

lemma node_step_lock_kept:
  "pc n \<noteq> TryLock \<Longrightarrow> \<not> (\<exists>e. pc n = CleaningUp e) \<Longrightarrow>
     kv (snd (node_step cfg now n s)) assetLockKey = kv s assetLockKey"
  by (simp add: node_step_kv_lock split: pc.split)

lemma node_step_lock_refused:
  "pc n = TryLock \<Longrightarrow> fst (etcd_get_or_create_lock s now assetLockKey defaultLockTTL) \<noteq> Inr True \<Longrightarrow>
     kv (snd (node_step cfg now n s)) assetLockKey = kv s assetLockKey"
  by (simp add: node_step_kv_lock lock_refused_unchanged)

lemma node_step_lock_granted:
  assumes "pc n = TryLock" "fst (etcd_get_or_create_lock s now assetLockKey defaultLockTTL) = Inr True"
  shows "live (snd (node_step cfg now n s)) now assetLockKey"
proof -
  have eq: "kv (snd (node_step cfg now n s)) assetLockKey =
      kv (snd (etcd_get_or_create_lock s now assetLockKey defaultLockTTL)) assetLockKey"
    using assms(1) by (simp add: node_step_kv_lock)
  have "live (snd (etcd_get_or_create_lock s now assetLockKey defaultLockTTL)) now assetLockKey"
    using lock_granted_live [OF assms(2)] by (simp add: defaultLockTTL_def)
  then show ?thesis using eq by (simp add: live_def)
qed

lemma holder_blocks_grant:
  "lock_holders_ok c \<Longrightarrow> m \<in> set (nodes c) \<Longrightarrow> in_primary (pc m) \<Longrightarrow>
     fst (etcd_get_or_create_lock (store c) (clock c) assetLockKey ttl) \<noteq> Inr True"
  by (auto simp: lock_holders_ok_def lock_granted)

lemma lock_holders_step:
  assumes "cstep cfgs True c c'" "lock_holders_ok c"
  shows "lock_holders_ok c'"
  using assms(1)
proof (cases rule: cstep.cases)
  case (tick d)
  with assms(2) show ?thesis by (simp add: lock_holders_ok_def lease_ok_def)
next
  case outage
  with assms(2) show ?thesis by (simp add: lock_holders_ok_def live_def)
next
  case recover
  with assms(2) show ?thesis by (simp add: lock_holders_ok_def live_def)
next
  case (run i n' s')
  let ?n = "nodes c ! i" and ?grant = "fst (etcd_get_or_create_lock (store c) (clock c) assetLockKey defaultLockTTL)"
  from assms(2) have live_old: "live (store c) (clock c) assetLockKey"
    if "m \<in> set (nodes c)" "in_primary (pc m)" for m
    using that by (auto simp: lock_holders_ok_def)
  from assms(2) have uniq: "p = q" if "p < length (nodes c)" "q < length (nodes c)"
    "in_primary (pc (nodes c ! p))" "in_primary (pc (nodes c ! q))" for p q
    using that by (auto simp: lock_holders_ok_def)
  have at: "nodes c' ! p = (if p = i then n' else nodes c ! p)" if "p < length (nodes c)" for p
    using that run by simp
  text \<open>A holder other than the stepping process keeps its lock.\<close>
  have other: "live s' (clock c) assetLockKey \<and> \<not> in_primary (pc n')"
    if j: "j < length (nodes c)" "j \<noteq> i" "in_primary (pc (nodes c ! j))" for j
  proof -
    have nc: "\<not> (\<exists>e. pc ?n = CleaningUp e)"
      using uniq [OF run(2) j(1)] j by (metis in_primary.simps(3))
    have ng: "pc ?n = TryLock \<Longrightarrow> ?grant \<noteq> Inr True"
      using holder_blocks_grant [OF assms(2) nth_mem [OF j(1)] j(3)] by simp
    have "kv s' assetLockKey = kv (store c) assetLockKey"
      using run(4) nc ng node_step_lock_kept node_step_lock_refused by (metis snd_conv)
    then have l: "live s' (clock c) assetLockKey"
      using live_old [OF nth_mem [OF j(1)] j(3)] by (simp add: live_def)
    have "\<not> in_primary (pc n')"
    proof
      assume "in_primary (pc n')"
      with run(4) node_step_enter_primary [of "cfgs i" "clock c" ?n "store c"]
      consider "pc ?n = TryLock" "?grant = Inr True" | "in_primary (pc ?n)" by auto
      then show False
        using ng uniq [OF run(2) j(1)] j(2,3) by cases auto
    qed
    with l show ?thesis by simp
  qed
  text \<open>The stepping process holds a live lock whenever it is in its primary section.\<close>
  have self: "live s' (clock c) assetLockKey" if "in_primary (pc n')"
  proof -
    from that run(4) node_step_enter_primary [of "cfgs i" "clock c" ?n "store c"]
    consider "pc ?n = TryLock" "?grant = Inr True" | "pc ?n = Bootstrapping" | a where "pc ?n = Publishing a"
      by auto
    then show ?thesis
    proof cases
      case 1
      with run(4) node_step_lock_granted show ?thesis by (metis snd_conv)
    next
      case 2
      then have "kv s' assetLockKey = kv (store c) assetLockKey"
        using run(4) node_step_lock_kept [of ?n "cfgs i" "clock c" "store c"] by simp
      with 2 live_old [OF nth_mem [OF run(2)]] show ?thesis by (simp add: live_def)
    next
      case 3
      then have "kv s' assetLockKey = kv (store c) assetLockKey"
        using run(4) node_step_lock_kept [of ?n "cfgs i" "clock c" "store c"] by simp
      with 3 live_old [OF nth_mem [OF run(2)]] show ?thesis by (simp add: live_def)
    qed
  qed
  show ?thesis
    unfolding lock_holders_ok_def
  proof (intro conjI ballI allI impI)
    fix m assume m: "m \<in> set (nodes c')" and p: "in_primary (pc m)"
    from m run(1) obtain j where j: "j < length (nodes c)" "m = nodes c' ! j"
      by (auto simp: in_set_conv_nth)
    show "live (store c') (clock c') assetLockKey"
    proof (cases "j = i")
      case True
      with j p at self run(1) show ?thesis by simp
    next
      case False
      with j p at other [OF j(1) False] run(1) show ?thesis by simp
    qed
  next
    fix p q
    assume "p < length (nodes c')" "q < length (nodes c')"
      and pp: "in_primary (pc (nodes c' ! p))" and pq: "in_primary (pc (nodes c' ! q))"
    then have p': "p < length (nodes c)" and q': "q < length (nodes c)" using run(1) by simp_all
    show "p = q"
    proof (cases "p = i \<or> q = i")
      case True
      with pp pq at [OF p'] at [OF q'] other p' q' show ?thesis by (metis (full_types))
    next
      case False
      with pp pq at [OF p'] at [OF q'] uniq [OF p' q'] show ?thesis by simp
    qed
  qed
qed

definition record_has_writer :: "cluster \<Rightarrow> bool" where
  "record_has_writer c \<longleftrightarrow>
     (\<forall>e. kv (store c) assetKey = Some e \<longrightarrow> (\<exists>n \<in> set (nodes c). published n (data e)))"

lemma published_mono: "published n a \<Longrightarrow> published (fst (node_step cfg now n s)) a"
  using node_step_log_extends [of cfg now n s] by (auto simp: published_def)

lemma node_step_writes_record:
  assumes "kv s assetKey = None" "kv (snd (node_step cfg now n s)) assetKey = Some e"
  shows "published (fst (node_step cfg now n s)) (data e)"
proof -
  from assms obtain a where pa: "pc n = Publishing a"
    by (auto simp: node_step_kv_asset split: pc.splits)
  with assms have ok: "fst (etcd_put_tx s now assetKey a) = None" and e: "e = \<lparr>data = a, expires = None\<rparr>"
    by (auto simp: node_step_kv_asset etcd_put_tx_def split: if_splits)
  from pa ok show ?thesis
    by (auto simp: e published_def node_step_unfold image_iff)
qed

lemma record_has_writer_step:
  assumes "cstep cfgs bounded c c'" "leaseless_asset c" "record_has_writer c"
  shows "record_has_writer c'"
  using assms(1)
proof (cases rule: cstep_env_or_run)
  case env
  with assms(3) show ?thesis by (simp add: record_has_writer_def)
next
  case (run i n' s')
  let ?n = "nodes c ! i"
  have upd: "m \<in> set (nodes c) \<Longrightarrow> published m a \<Longrightarrow> \<exists>m' \<in> set (nodes c'). published m' a" for m a
  proof -
    assume m: "m \<in> set (nodes c)" and p: "published m a"
    then obtain j where j: "j < length (nodes c)" "m = nodes c ! j" by (auto simp: in_set_conv_nth)
    show ?thesis
    proof (cases "j = i")
      case True
      with j p run(3) published_mono [of ?n a "cfgs i" "clock c" "store c"] have "published n' a"
        by simp
      moreover from run have "n' \<in> set (nodes c')" by (simp add: set_update_memI)
      ultimately show ?thesis by blast
    next
      case False
      with j run(4) have "nodes c' ! j = m" and "j < length (nodes c')" by simp_all
      with p show ?thesis using nth_mem by blast
    qed
  qed
  show ?thesis
    unfolding record_has_writer_def
  proof (intro allI impI)
    fix e assume e: "kv (store c') assetKey = Some e"
    show "\<exists>m \<in> set (nodes c'). published m (data e)"
    proof (cases "kv (store c) assetKey")
      case None
      from e run have "kv (snd (node_step (cfgs i) (clock c) ?n (store c))) assetKey = Some e"
        by simp
      from node_step_writes_record [OF None this] run(3) have "published n' (data e)" by simp
      moreover from run have "n' \<in> set (nodes c')" by (simp add: set_update_memI)
      ultimately show ?thesis by blast
    next
      case (Some e0)
      with assms(2) have "expires e0 = None" by (simp add: leaseless_asset_def)
      with Some have "kv (store c') assetKey = Some e0" by (rule cstep_asset_kept [OF assms(1)])
      with e Some assms(3) upd show ?thesis by (auto simp: record_has_writer_def)
    qed
  qed
qed

subsection \<open>The invariants hold in every reachable state\<close>

definition safety_inv :: "cluster \<Rightarrow> bool" where
  "safety_inv c \<longleftrightarrow> leaseless_asset c \<and> writers_agree c \<and> single_writer c \<and> consumers_agree c
                      \<and> record_has_writer c"

lemma safety_inv_initial: "kv s assetKey = None \<Longrightarrow> safety_inv (initial s t N)"
  by (auto simp: safety_inv_def initial_def leaseless_asset_def writers_agree_def single_writer_def
      consumers_agree_def record_has_writer_def published_def consumes_def start_node_def)

lemma safety_inv_step: "cstep cfgs bounded c c' \<Longrightarrow> safety_inv c \<Longrightarrow> safety_inv c'"
  unfolding safety_inv_def
  by (blast intro: leaseless_asset_step writers_agree_step single_writer_step consumers_agree_step
      record_has_writer_step)

lemma reachable_safety_inv: "reachable cfgs bounded c \<Longrightarrow> safety_inv c"
  by (induction rule: reachable.induct) (auto intro: safety_inv_initial safety_inv_step)

lemma reachable_lock_holders_ok: "reachable cfgs True c \<Longrightarrow> lock_holders_ok c"
proof (induction rule: reachable.induct)
  case (init s t N)
  show ?case by (simp add: lock_holders_ok_def initial_def start_node_def)
next
  case (step c c')
  from step.hyps(2) step.IH show ?case by (rule lock_holders_step)
qed

end
