(* ===== verification/Scenarios.thy ===== *)
theory Scenarios
  imports Cluster
begin

text \<open>
  Concrete inputs for the example scenarios of the specification: two nodes whose
  collaborators all succeed (node 0 generates the bundle \<open>''A''\<close>, node 1 would generate
  \<open>''B''\<close>), an empty reachable store, and the schedule of the two-node race. The final
  state of the race is written out and checked by evaluation; witnesses of the safety
  theorems are taken at it.
\<close>

definition ok_cfgs :: "nat \<Rightarrow> config" where
  "ok_cfgs i = \<lparr>ExitOnCompletion = True, MasterBackOffTime = defaultBackOff,
                prov = all_ok (if i = 0 then ''A'' else ''B'')\<rparr>"

definition empty_store :: store where
  "empty_store = \<lparr>kv = Map.empty, up = True\<rparr>"

text \<open>
  Scenario 2 of the specification: both nodes read "missing", node 0 wins the lock, node 1
  is refused and sleeps for the back-off; node 0 bootstraps and publishes; node 1 wakes,
  reads the record and runs the secondary sequence.
\<close>

definition race_sched :: "sched list" where
  "race_sched = [Run 0, Run 1, Run 0, Run 1, Run 0, Run 1, Run 0, Run 0, Run 0, Tick 20,
                 Run 1, Run 1, Run 1, Run 1]"

definition primary_log :: "time \<Rightarrow> log" where
  "primary_log t =
     [(t, Ext CreatePKI None), (t, Ext LoadAndSerializeAssets None), (t, Ext CreateKubeConfig None),
      (t, Ext (CreateAndStartKubelet True) None), (t, Ext Addons None), (t, Ext InstallNetwork None),
      (t, Ext TokensDeploy None)]"

definition prelude_log :: log where
  "prelude_log = [(0, Ext UpdateCloudCfg None), (0, Ext CopyKubeCa None), (0, Ext WriteManifests None),
                  (0, StoreGet assetKey (Inl ErrKeyMissing))]"

definition race_state :: cluster where
  "race_state =
     \<lparr>clock = 20,
      store = \<lparr>kv = [assetLockKey \<mapsto> \<lparr>data = '''', expires = Some 120\<rparr>,
                     assetKey \<mapsto> \<lparr>data = ''A'', expires = None\<rparr>], up = True\<rparr>,
      nodes =
        [\<lparr>pc = Returned None,
          log = prelude_log @ [(0, StoreLock assetLockKey (Inr True))] @ primary_log 0
                @ [(0, StorePut assetKey ''A'' None)]\<rparr>,
         \<lparr>pc = Returned None,
          log = prelude_log @ [(0, StoreLock assetLockKey (Inr False)), (20, StoreGet assetKey (Inr ''A'')),
                (20, Ext (SaveAssets ''A'') None), (20, Ext CreatePKI None),
                (20, Ext CreateKubeConfig None), (20, Ext (CreateAndStartKubelet True) None),
                (20, Ext UpdateMasterRoleLabelsAndTaints None)]\<rparr>]\<rparr>"

lemmas scenario_simps = ok_cfgs_def empty_store_def initial_def start_node_def node_step_unfold
  all_ok_def BootstrapOnce_def BootstrapSecondaryMaster_def load_and_serialize_assets_def store_simps
  live_def node_enabled_def lease_ok_def defaultLockTTL_def defaultBackOff_def numeral_2_eq_2

lemma race_run:
  "run_sched ok_cfgs True (initial empty_store 0 2) race_sched = Some race_state"
  by (simp add: race_sched_def race_state_def primary_log_def prelude_log_def scenario_simps)

lemma race_reachable: "reachable ok_cfgs True race_state"
  by (rule run_sched_reachable [OF reachable.init race_run]) (simp add: empty_store_def)


text \<open>The race cut after six steps: node 0 holds the lock, node 1 sleeps.\<close>

definition holder_state :: cluster where
  "holder_state =
     \<lparr>clock = 0,
      store = \<lparr>kv = [assetLockKey \<mapsto> \<lparr>data = '''', expires = Some 120\<rparr>], up = True\<rparr>,
      nodes = [\<lparr>pc = Bootstrapping, log = prelude_log @ [(0, StoreLock assetLockKey (Inr True))]\<rparr>,
               \<lparr>pc = Sleeping 20, log = prelude_log @ [(0, StoreLock assetLockKey (Inr False))]\<rparr>]\<rparr>"

lemma holder_reachable: "reachable ok_cfgs True holder_state"
proof (rule run_sched_reachable [OF reachable.init])
  show "kv empty_store assetKey = None" by (simp add: empty_store_def)
  show "run_sched ok_cfgs True (initial empty_store 0 2) [Run 0, Run 1, Run 0, Run 1, Run 0, Run 1] =
        Some holder_state"
    by (simp add: holder_state_def prelude_log_def scenario_simps)
qed

end
