(* ===== verification/Process.thy ===== *)
theory Process
  imports Coordinator
begin

text \<open>
  One process running \<open>CreateOrGetSharedAssets\<close> alone against the store: equations that
  unfold the run one control point at a time, the facts that a parked process never returns
  and that success is only returned in one-shot mode, termination of the retry loop when
  the lock record carries a lease, and the behaviour of the error paths.
\<close>

subsection \<open>Unfolding the run\<close>

lemma run_returned:
  "pc n = Returned r \<Longrightarrow> CreateOrGetSharedAssets cfg now n s = Some (r, n, s)"
  by (simp add: CreateOrGetSharedAssets.simps)

lemma run_active:
  assumes "\<And>r. pc n \<noteq> Returned r" "\<And>w. pc n \<noteq> Sleeping w"
  shows "CreateOrGetSharedAssets cfg now n s =
           CreateOrGetSharedAssets cfg now (fst (node_step cfg now n s)) (snd (node_step cfg now n s))"
  using assms by (subst CreateOrGetSharedAssets.simps) (cases "pc n"; force simp: split_def Let_def)

lemma run_sleeping:
  "pc n = Sleeping w \<Longrightarrow>
     CreateOrGetSharedAssets cfg now n s = CreateOrGetSharedAssets cfg (max now w) (n\<lparr>pc := GetAssets\<rparr>) s"
  by (subst CreateOrGetSharedAssets.simps) (simp add: node_step_def Let_def)

text \<open>A run that returns success passed through \<open>Bootstrapped\<close> with the exit switch on.\<close>

lemma run_success_exits:
  assumes "CreateOrGetSharedAssets cfg now n s = Some (None, n', s')"
  shows "ExitOnCompletion cfg \<or> pc n = Returned None"
proof (rule CreateOrGetSharedAssets.raw_induct
    [where P = "\<lambda>cfg now n s res. fst res = None \<longrightarrow> ExitOnCompletion cfg \<or> pc n = Returned None",
     OF _ assms, simplified])
  fix f :: "config \<Rightarrow> time \<Rightarrow> node \<Rightarrow> store \<Rightarrow> (error option \<times> node \<times> store) option"
    and cfg now n s res
  assume IH: "\<And>cfg now n s res. f cfg now n s = Some res \<Longrightarrow>
                 fst res = None \<longrightarrow> ExitOnCompletion cfg \<or> pc n = Returned None"
    and eq: "(case pc n of Returned r \<Rightarrow> Some (r, n, s)
             | _ \<Rightarrow> let now' = (case pc n of Sleeping w \<Rightarrow> max now w | _ \<Rightarrow> now);
                        (n', s') = node_step cfg now' n s in f cfg now' n' s') = Some res"
  show "fst res = None \<longrightarrow> ExitOnCompletion cfg \<or> pc n = Returned None"
  proof (cases "pc n")
    case Bootstrapped
    with eq IH show ?thesis
      by (auto simp: node_step_def split: if_splits dest!: IH)
  qed (use eq IH in \<open>auto simp: node_step_unfold split: if_splits option.splits sum.splits dest!: IH\<close>)
qed


text \<open>A parked process never returns: \<open>for true {}\<close> is the value \<open>None\<close>.\<close>

lemma run_parked:
  assumes "pc n = Parked"
  shows "CreateOrGetSharedAssets cfg now n s = None"
proof (rule ccontr)
  assume "CreateOrGetSharedAssets cfg now n s \<noteq> None"
  then obtain res where ret: "CreateOrGetSharedAssets cfg now n s = Some res" by blast
  have "pc n \<noteq> Parked"
  proof (rule CreateOrGetSharedAssets.raw_induct [where P = "\<lambda>cfg now n s res. pc n \<noteq> Parked", OF _ ret])
    fix f :: "config \<Rightarrow> time \<Rightarrow> node \<Rightarrow> store \<Rightarrow> (error option \<times> node \<times> store) option"
      and cfg now n s res
    assume IH: "\<And>cfg now n s res. f cfg now n s = Some res \<Longrightarrow> pc n \<noteq> Parked"
      and eq: "(case pc n of Returned r \<Rightarrow> Some (r, n, s)
               | _ \<Rightarrow> let now' = (case pc n of Sleeping w \<Rightarrow> max now w | _ \<Rightarrow> now);
                          (n', s') = node_step cfg now' n s in f cfg now' n' s') = Some res"
    show "pc n \<noteq> Parked"
    proof
      assume p: "pc n = Parked"
      with eq have "f cfg now n s = Some res" by (simp add: node_step_def)
      with IH p show False by blast
    qed
  qed
  with assms show False by simp
qed

subsection \<open>Finishing from each control point\<close>

lemma run_bootstrapped_exit:
  "ExitOnCompletion cfg \<Longrightarrow> pc n = Bootstrapped \<Longrightarrow>
     CreateOrGetSharedAssets cfg now n s = Some (None, n\<lparr>pc := Returned None\<rparr>, s)"
  by (simp add: run_active run_returned node_step_def)

lemma run_cleaning:
  "pc n = CleaningUp e \<Longrightarrow>
     CreateOrGetSharedAssets cfg now n s =
       Some (Some e, n\<lparr>pc := Returned (Some e),
                       log := log n @ [(now, StoreDelete assetLockKey (fst (etcd_delete s assetLockKey)))]\<rparr>,
             snd (etcd_delete s assetLockKey))"
  by (simp add: run_active run_returned node_step_unfold)

text \<open>One step of an active process, with its successor named.\<close>

lemma run_via:
  assumes "\<exists>res. CreateOrGetSharedAssets cfg now (fst (node_step cfg now n s)) (snd (node_step cfg now n s))
               = Some res"
    and "\<And>r. pc n \<noteq> Returned r" "\<And>w. pc n \<noteq> Sleeping w"
  shows "\<exists>res. CreateOrGetSharedAssets cfg now n s = Some res"
  using run_active [OF assms(2,3)] assms(1) by simp

lemma run_secondary_finishes:
  assumes "ExitOnCompletion cfg" "pc n = Secondary a"
  shows "\<exists>res. CreateOrGetSharedAssets cfg now n s = Some res"
proof (cases "fst (BootstrapSecondaryMaster (prov cfg) a)")
  case None
  with assms(2) have "pc (fst (node_step cfg now n s)) = Bootstrapped"
    by (simp add: node_step_def split_def)
  with assms(1) have "\<exists>res. CreateOrGetSharedAssets cfg now (fst (node_step cfg now n s))
                          (snd (node_step cfg now n s)) = Some res"
    by (simp add: run_bootstrapped_exit)
  then show ?thesis by (rule run_via) (simp_all add: assms(2))
next
  case (Some e)
  with assms(2) have "pc (fst (node_step cfg now n s)) = Returned (Some e)"
    by (simp add: node_step_def split_def)
  then have "\<exists>res. CreateOrGetSharedAssets cfg now (fst (node_step cfg now n s))
                          (snd (node_step cfg now n s)) = Some res"
    by (simp add: run_returned)
  then show ?thesis by (rule run_via) (simp_all add: assms(2))
qed

lemma run_publishing_finishes:
  assumes "ExitOnCompletion cfg" "pc n = Publishing a"
  shows "\<exists>res. CreateOrGetSharedAssets cfg now n s = Some res"
proof (cases "fst (etcd_put_tx s now assetKey a)")
  case None
  with assms(2) have "pc (fst (node_step cfg now n s)) = Bootstrapped"
    by (simp add: node_step_def split_def)
  with assms(1) have "\<exists>res. CreateOrGetSharedAssets cfg now (fst (node_step cfg now n s))
                          (snd (node_step cfg now n s)) = Some res"
    by (simp add: run_bootstrapped_exit)
  then show ?thesis by (rule run_via) (simp_all add: assms(2))
next
  case (Some e)
  with assms(2) have "pc (fst (node_step cfg now n s)) = CleaningUp e"
    by (simp add: node_step_def split_def)
  then have "\<exists>res. CreateOrGetSharedAssets cfg now (fst (node_step cfg now n s))
                          (snd (node_step cfg now n s)) = Some res"
    by (simp add: run_cleaning)
  then show ?thesis by (rule run_via) (simp_all add: assms(2))
qed

lemma run_bootstrapping_finishes:
  assumes "ExitOnCompletion cfg" "pc n = Bootstrapping"
  shows "\<exists>res. CreateOrGetSharedAssets cfg now n s = Some res"
proof (cases "fst (BootstrapOnce (prov cfg))")
  case (Inl e)
  with assms(2) have "pc (fst (node_step cfg now n s)) = CleaningUp e"
    by (simp add: node_step_def split_def)
  then have "\<exists>res. CreateOrGetSharedAssets cfg now (fst (node_step cfg now n s))
                          (snd (node_step cfg now n s)) = Some res"
    by (simp add: run_cleaning)
  then show ?thesis by (rule run_via) (simp_all add: assms(2))
next
  case (Inr a)
  with assms(2) have "pc (fst (node_step cfg now n s)) = Publishing a"
    by (simp add: node_step_def split_def)
  with assms(1) have "\<exists>res. CreateOrGetSharedAssets cfg now (fst (node_step cfg now n s))
                          (snd (node_step cfg now n s)) = Some res"
    by (rule run_publishing_finishes)
  then show ?thesis by (rule run_via) (simp_all add: assms(2))
qed

text \<open>
  The lock record, if there is one, carries a lease; \<open>lease_end\<close> is when it runs out (0 when
  there is none).
\<close>

definition lock_leased :: "store \<Rightarrow> bool" where
  "lock_leased s = (case kv s assetLockKey of None \<Rightarrow> True | Some e \<Rightarrow> expires e \<noteq> None)"

definition lease_end :: "store \<Rightarrow> time" where
  "lease_end s = (case kv s assetLockKey of None \<Rightarrow> 0 | Some e \<Rightarrow> (case expires e of None \<Rightarrow> 0 | Some t \<Rightarrow> t))"

lemma live_before_lease_end:
  "lock_leased s \<Longrightarrow> live s now assetLockKey \<Longrightarrow> now < lease_end s"
  by (auto simp: lock_leased_def lease_end_def live_def split: option.splits)

text \<open>
  From the read of the asset key, a lone process returns: each refused lock attempt sleeps
  for the back-off, so after at most \<open>lease_end s - now\<close> divided by the back-off rounds the
  lease has run out and the lock is granted.
\<close>

lemma run_get_assets_finishes:
  assumes "ExitOnCompletion cfg" "0 < MasterBackOffTime cfg" "up s" "lock_leased s"
  shows "pc n = GetAssets \<Longrightarrow> \<exists>res. CreateOrGetSharedAssets cfg now n s = Some res"
proof (induction "lease_end s - now" arbitrary: now n rule: less_induct)
  case less
  let ?b = "MasterBackOffTime cfg"
  let ?n1 = "fst (node_step cfg now n s)"
  have s1: "snd (node_step cfg now n s) = s"
    using less.prems by (simp add: node_step_def Let_def)
  have "\<exists>res. CreateOrGetSharedAssets cfg now ?n1 s = Some res"
  proof (cases "live s now assetKey")
    case True
    then have "pc ?n1 = Secondary (data (the (kv s assetKey)))"
      using less.prems assms(3) by (simp add: node_step_def etcd_get_def)
    with assms(1) show ?thesis by (rule run_secondary_finishes)
  next
    case False
    then have n1: "pc ?n1 = TryLock"
      using less.prems assms(3) by (simp add: node_step_def etcd_get_def)
    let ?n2 = "fst (node_step cfg now ?n1 s)"
    have "\<exists>res. CreateOrGetSharedAssets cfg now ?n2 (snd (node_step cfg now ?n1 s)) = Some res"
    proof (cases "live s now assetLockKey")
      case True
      then have n2: "pc ?n2 = Sleeping (now + ?b)" "snd (node_step cfg now ?n1 s) = s"
        using n1 assms(3) by (simp_all add: node_step_def split_def etcd_get_or_create_lock_def)
      have "lease_end s - (now + ?b) < lease_end s - now"
        using live_before_lease_end [OF assms(4) True] assms(2) by arith
      then have "\<exists>res. CreateOrGetSharedAssets cfg (now + ?b) (?n2\<lparr>pc := GetAssets\<rparr>) s = Some res"
        by (intro less.hyps) simp_all
      with n2 show ?thesis by (simp add: run_sleeping)
    next
      case False
      then have "pc ?n2 = Bootstrapping"
        using n1 assms(3) by (simp add: node_step_def split_def etcd_get_or_create_lock_def)
      with assms(1) show ?thesis by (rule run_bootstrapping_finishes)
    qed
    then show ?thesis by (rule run_via) (simp_all add: n1)
  qed
  with s1 have "\<exists>res. CreateOrGetSharedAssets cfg now ?n1 (snd (node_step cfg now n s)) = Some res"
    by simp
  then show ?case by (rule run_via) (simp_all add: less.prems)
qed


lemma run_bootstrapped_parks:
  assumes "\<not> ExitOnCompletion cfg" "pc n = Bootstrapped"
  shows "CreateOrGetSharedAssets cfg now n s = None"
proof -
  have "CreateOrGetSharedAssets cfg now n s =
          CreateOrGetSharedAssets cfg now (fst (node_step cfg now n s)) (snd (node_step cfg now n s))"
    by (rule run_active) (simp_all add: assms(2))
  also have "\<dots> = None"
    by (rule run_parked) (simp add: assms node_step_def)
  finally show ?thesis .
qed

lemma run_start_step:
  "pc n = Start \<Longrightarrow> snd (node_step cfg now n s) = s \<and>
     pc (fst (node_step cfg now n s)) \<in> {GetAssets} \<union> range (Returned \<circ> Some)"
  by (auto simp: node_step_def split_def split: option.split)

subsection \<open>Properties of one process\<close>

text \<open>
  C7. Termination of a lone process: a process configured by \<open>New\<close> in one-shot mode, whose
  store is reachable and whose lock record (if a crashed run left one) carries a lease,
  returns from \<open>CreateOrGetSharedAssets\<close>: the retry loop sleeps the back-off between lock
  attempts until the stale lease has run out.
\<close>

theorem lone_process_terminates:
  assumes "ExitOnCompletion cfg" "up s" "lock_leased s"
  shows "\<exists>res. CreateOrGetSharedAssets (New cfg) now start_node s = Some res"
proof -
  let ?c = "New cfg"
  let ?n1 = "fst (node_step ?c now start_node s)"
  have c: "ExitOnCompletion ?c" "0 < MasterBackOffTime ?c"
    using assms(1) by (simp_all add: New_def defaultBackOff_def)
  from run_start_step [of start_node ?c now s]
  have s1: "snd (node_step ?c now start_node s) = s"
    and p1: "pc ?n1 = GetAssets \<or> (\<exists>e. pc ?n1 = Returned (Some e))"
    by (auto simp: start_node_def)
  have "\<exists>res. CreateOrGetSharedAssets ?c now ?n1 s = Some res"
    using p1 run_get_assets_finishes [OF c assms(2,3)] run_returned by blast
  with s1 have "\<exists>res. CreateOrGetSharedAssets ?c now ?n1 (snd (node_step ?c now start_node s)) = Some res"
    by simp
  then show ?thesis by (rule run_via) (simp_all add: start_node_def)
qed

theorem lone_process_terminates_witness:
  "\<exists>res. CreateOrGetSharedAssets (New \<lparr>ExitOnCompletion = True, MasterBackOffTime = 0, prov = all_ok ''A''\<rparr>)
          0 start_node \<lparr>kv = [assetLockKey \<mapsto> \<lparr>data = '''', expires = Some 500\<rparr>], up = True\<rparr> = Some res"
  by (rule lone_process_terminates) (simp_all add: lock_leased_def)

text \<open>
  C8. Completion gate: with \<open>ExitOnCompletion\<close> off, \<open>CreateOrGetSharedAssets\<close> never
  returns success (only errors come back), and once a node has bootstrapped the run never
  returns at all: the endless loop \<open>for true {}\<close> is a run with no result.
\<close>

theorem completion_gate_blocks:
  assumes "\<not> ExitOnCompletion cfg"
  shows "(pc n = Start \<longrightarrow> CreateOrGetSharedAssets cfg now n s \<noteq> Some (None, n', s'))
         \<and> (pc n = Bootstrapped \<longrightarrow> CreateOrGetSharedAssets cfg now n s = None)"
  using assms run_success_exits [of cfg now n s n' s'] run_bootstrapped_parks [of cfg n now s]
  by auto

theorem completion_gate_blocks_witness:
  "CreateOrGetSharedAssets \<lparr>ExitOnCompletion = False, MasterBackOffTime = 20, prov = all_ok ''A''\<rparr> 0
     \<lparr>pc = Bootstrapped, log = []\<rparr> \<lparr>kv = Map.empty, up = True\<rparr> = None"
  using completion_gate_blocks [of "\<lparr>ExitOnCompletion = False, MasterBackOffTime = 20, prov = all_ok ''A''\<rparr>"
      "\<lparr>pc = Bootstrapped, log = []\<rparr>"] by simp

text \<open>
  C9. Cleanup on failure: when \<open>BootstrapOnce\<close> fails after the lock was won, the process
  returns the error of the failing step (not the cleanup's), deletes the lock as its last
  action before returning (\<open>CleanUp(true, false)\<close>), and leaves the asset key as it was.
\<close>

theorem cleanup_on_failure:
  assumes "pc n = Bootstrapping" "fst (BootstrapOnce (prov cfg)) = Inl e"
  shows "\<exists>n' s'. CreateOrGetSharedAssets cfg now n s = Some (Some e, n', s')
           \<and> kv s' assetKey = kv s assetKey
           \<and> (up s \<longrightarrow> kv s' assetLockKey = None)
           \<and> last (log n') = (now, StoreDelete assetLockKey (if up s then None else Some ErrUnavailable))"
proof -
  let ?n1 = "fst (node_step cfg now n s)"
  have n1: "pc ?n1 = CleaningUp e" "snd (node_step cfg now n s) = s"
    using assms by (simp_all add: node_step_def split_def)
  have "CreateOrGetSharedAssets cfg now n s = CreateOrGetSharedAssets cfg now ?n1 s"
    using run_active [of n cfg now s] assms(1) n1(2) by simp
  also have "\<dots> = Some (Some e, ?n1\<lparr>pc := Returned (Some e),
                       log := log ?n1 @ [(now, StoreDelete assetLockKey (fst (etcd_delete s assetLockKey)))]\<rparr>,
                     snd (etcd_delete s assetLockKey))"
    by (rule run_cleaning [OF n1(1)])
  finally show ?thesis by (simp add: etcd_delete_def)
qed

theorem cleanup_on_failure_witness:
  "\<exists>n' s'. CreateOrGetSharedAssets
              \<lparr>ExitOnCompletion = True, MasterBackOffTime = 20, prov = failing_at CreatePKI (ErrMsg ''pki'') ''A''\<rparr>
              7 \<lparr>pc = Bootstrapping, log = []\<rparr>
              \<lparr>kv = [assetLockKey \<mapsto> \<lparr>data = '''', expires = Some 127\<rparr>], up = True\<rparr>
            = Some (Some (ErrMsg ''pki''), n', s')
         \<and> kv s' assetKey = None \<and> kv s' assetLockKey = None
         \<and> last (log n') = (7, StoreDelete assetLockKey None)"
proof -
  have f: "fst (BootstrapOnce (prov \<lparr>ExitOnCompletion = True, MasterBackOffTime = 20,
             prov = failing_at CreatePKI (ErrMsg ''pki'') ''A''\<rparr>)) = Inl (ErrMsg ''pki'')"
    by (simp add: BootstrapOnce_def failing_at_def)
  from cleanup_on_failure [OF _ f, of "\<lparr>pc = Bootstrapping, log = []\<rparr>" 7
      "\<lparr>kv = [assetLockKey \<mapsto> \<lparr>data = '''', expires = Some 127\<rparr>], up = True\<rparr>"]
  show ?thesis by simp
qed

text \<open>
  C10. Terminal store errors: a read of the asset key that fails with anything but
  \<open>ErrKeyMissing\<close> makes the process return that error at once, with no lock attempt, no
  back-off and no change to the store.
\<close>

theorem get_error_terminal:
  assumes "pc n = GetAssets" "etcd_get s now assetKey = Inl err" "err \<noteq> ErrKeyMissing"
  shows "CreateOrGetSharedAssets cfg now n s =
           Some (Some err, n\<lparr>pc := Returned (Some err), log := log n @ [(now, StoreGet assetKey (Inl err))]\<rparr>, s)"
proof -
  have "node_step cfg now n s =
          (n\<lparr>pc := Returned (Some err), log := log n @ [(now, StoreGet assetKey (Inl err))]\<rparr>, s)"
    using assms by (simp add: node_step_def)
  with assms(1) show ?thesis by (simp add: run_active run_returned)
qed

theorem get_error_terminal_witness:
  "CreateOrGetSharedAssets \<lparr>ExitOnCompletion = True, MasterBackOffTime = 20, prov = all_ok ''A''\<rparr> 3
     \<lparr>pc = GetAssets, log = []\<rparr> \<lparr>kv = Map.empty, up = False\<rparr>
   = Some (Some ErrUnavailable, \<lparr>pc = Returned (Some ErrUnavailable),
                                 log = [(3, StoreGet assetKey (Inl ErrUnavailable))]\<rparr>,
           \<lparr>kv = Map.empty, up = False\<rparr>)"
  using get_error_terminal [of "\<lparr>pc = GetAssets, log = []\<rparr>" "\<lparr>kv = Map.empty, up = False\<rparr>" 3 ErrUnavailable]
  by (simp add: etcd_get_def)

text \<open>
  C11. \<open>BootstrapOnce\<close> ignores a failure of \<open>LoadAndSerializeAssets\<close>: when loading or
  validating the shared assets fails (a key missing on disk, a front-proxy certificate that
  is not a CA) and the later steps succeed, the sequence still succeeds and returns the empty
  string as the bundle to publish.
\<close>

theorem bootstrap_once_ignores_load_error:
  assumes "outcome p LoadAndSerializeAssets = Some e"
    and "\<forall>c \<in> {CreatePKI, CreateKubeConfig, CreateAndStartKubelet True, Addons, InstallNetwork,
               TokensDeploy}. outcome p c = None"
  shows "fst (BootstrapOnce p) = Inr ''''"
  using assms by (simp add: BootstrapOnce_def load_and_serialize_assets_def)

theorem bootstrap_once_ignores_load_error_witness:
  "fst (BootstrapOnce (failing_at LoadAndSerializeAssets (ErrMsg ''not a CA'') ''A'')) = Inr ''''"
  by (rule bootstrap_once_ignores_load_error) (simp_all add: failing_at_def)

text \<open>
  C12. Scenario 1 of the specification: on an empty reachable store, a single one-shot node
  whose collaborators all succeed reads "missing", wins the lock, runs the primary sequence
  in order, publishes its bundle with \<open>PutTx\<close> and returns success; the lock is left to
  expire (it is not released on success).
\<close>

theorem fresh_store_single_primary:
  "\<exists>n'. CreateOrGetSharedAssets \<lparr>ExitOnCompletion = True, MasterBackOffTime = b, prov = all_ok a\<rparr> now
           start_node \<lparr>kv = Map.empty, up = True\<rparr>
         = Some (None, n', \<lparr>kv = [assetLockKey \<mapsto> \<lparr>data = '''', expires = Some (now + defaultLockTTL)\<rparr>,
                                 assetKey \<mapsto> \<lparr>data = a, expires = None\<rparr>], up = True\<rparr>)
       \<and> map snd (log n') =
           [Ext UpdateCloudCfg None, Ext CopyKubeCa None, Ext WriteManifests None,
            StoreGet assetKey (Inl ErrKeyMissing), StoreLock assetLockKey (Inr True),
            Ext CreatePKI None, Ext LoadAndSerializeAssets None, Ext CreateKubeConfig None,
            Ext (CreateAndStartKubelet True) None, Ext Addons None, Ext InstallNetwork None,
            Ext TokensDeploy None, StorePut assetKey a None]"
  by (simp add: CreateOrGetSharedAssets.simps start_node_def node_step_unfold all_ok_def
      BootstrapOnce_def load_and_serialize_assets_def store_simps live_def)

end
