(* ===== verification/Node_Logs.thy ===== *)
theory Node_Logs
  imports Cluster
begin

text \<open>
  Properties of the order of one node's actions, read off its log in every reachable
  cluster state: a per-node invariant that each of the node's own steps keeps, and that the
  passing of time does not break, holds for every node of every reachable cluster.
\<close>

subsection \<open>Per-node invariants\<close>

lemma node_local_step:
  assumes "cstep cfgs bounded c c'"
    and "\<forall>i < length (nodes c). P (cfgs i) (clock c) (nodes c ! i)"
    and step: "\<And>cfg clk n s. P cfg clk n \<Longrightarrow> node_enabled clk n \<Longrightarrow> P cfg clk (fst (node_step cfg clk n s))"
    and mono: "\<And>cfg clk clk' n. P cfg clk n \<Longrightarrow> clk \<le> clk' \<Longrightarrow> P cfg clk' n"
  shows "\<forall>i < length (nodes c'). P (cfgs i) (clock c') (nodes c' ! i)"
  using assms(1)
proof (cases rule: cstep_env_or_run)
  case env
  with assms(2) mono show ?thesis by auto
next
  case (run i n' s')
  have "P (cfgs j) (clock c) (nodes c' ! j)" if "j < length (nodes c)" for j
  proof (cases "j = i")
    case True
    from run(3) have "n' = fst (node_step (cfgs i) (clock c) (nodes c ! i) (store c))" by simp
    moreover from run(1,2) assms(2) have "P (cfgs i) (clock c) (nodes c ! i)"
      and "node_enabled (clock c) (nodes c ! i)" by simp_all
    ultimately have "P (cfgs i) (clock c) n'" using step by blast
    with True run(4) that show ?thesis by simp
  next
    case False
    with run assms(2) that show ?thesis by simp
  qed
  with run show ?thesis by simp
qed

lemma node_local_reachable:
  assumes "reachable cfgs bounded c"
    and start: "\<And>cfg clk. P cfg clk start_node"
    and kept: "\<And>cfg clk n s. P cfg clk n \<Longrightarrow> node_enabled clk n \<Longrightarrow> P cfg clk (fst (node_step cfg clk n s))"
    and later: "\<And>cfg clk clk' n. P cfg clk n \<Longrightarrow> clk \<le> clk' \<Longrightarrow> P cfg clk' n"
  shows "\<forall>i < length (nodes c). P (cfgs i) (clock c) (nodes c ! i)"
  using assms(1)
proof (induction rule: reachable.induct)
  case (init s t N)
  show ?case by (simp add: initial_def start)
next
  case (step c c')
  from step.hyps(2) step.IH kept later show ?case by (rule node_local_step)
qed

subsection \<open>What one step appends\<close>

definition new_entries :: "config \<Rightarrow> time \<Rightarrow> node \<Rightarrow> store \<Rightarrow> log" where
  "new_entries cfg now n s = drop (length (log n)) (log (fst (node_step cfg now n s)))"

lemma log_node_step: "log (fst (node_step cfg now n s)) = log n @ new_entries cfg now n s"
  using node_step_log_extends [of cfg now n s] by (auto simp: new_entries_def)

lemma new_entries_time: "x \<in> set (new_entries cfg now n s) \<Longrightarrow> fst x = now"
  by (auto simp: new_entries_def node_step_unfold split: pc.splits if_splits)

lemma new_entries_sleeping: "pc n = Sleeping w \<Longrightarrow> new_entries cfg now n s = []"
  by (simp add: new_entries_def node_step_def)

definition refused :: "act \<Rightarrow> bool" where
  "refused a \<longleftrightarrow> a = StoreLock assetLockKey (Inr False)"

lemma new_entries_refused:
  assumes "x \<in> set (new_entries cfg now n s)" "refused (snd x)"
  shows "pc n = TryLock \<and> new_entries cfg now n s = [(now, StoreLock assetLockKey (Inr False))]
         \<and> pc (fst (node_step cfg now n s)) = Sleeping (now + MasterBackOffTime cfg)"
  using assms by (auto simp: new_entries_def node_step_unfold refused_def split: pc.splits if_splits sum.splits)


subsection \<open>Back-off\<close>

definition is_get :: "act \<Rightarrow> bool" where
  "is_get a \<longleftrightarrow> (case a of StoreGet _ _ \<Rightarrow> True | _ \<Rightarrow> False)"

text \<open>
  \<open>bo_ok b lim l\<close>: scanning the log, every read of the store happens no earlier than
  \<open>lim\<close>, and a refused lock attempt at time \<open>t\<close> moves \<open>lim\<close> to \<open>t + b\<close>.
\<close>

fun bo_ok :: "time \<Rightarrow> time \<Rightarrow> log \<Rightarrow> bool" where
  "bo_ok b lim [] = True"
| "bo_ok b lim ((t, a) # rest) = ((is_get a \<longrightarrow> lim \<le> t) \<and> bo_ok b (if refused a then t + b else lim) rest)"

fun lim_after :: "time \<Rightarrow> time \<Rightarrow> log \<Rightarrow> time" where
  "lim_after b lim [] = lim"
| "lim_after b lim ((t, a) # rest) = lim_after b (if refused a then t + b else lim) rest"

lemma bo_ok_append: "bo_ok b lim (xs @ ys) \<longleftrightarrow> bo_ok b lim xs \<and> bo_ok b (lim_after b lim xs) ys"
  by (induction b lim xs rule: bo_ok.induct) auto

lemma lim_after_append: "lim_after b lim (xs @ ys) = lim_after b (lim_after b lim xs) ys"
  by (induction b lim xs rule: lim_after.induct) auto

lemma bo_ok_no_refusal:
  "\<forall>x \<in> set xs. fst x = clk \<and> \<not> refused (snd x) \<Longrightarrow> lim \<le> clk \<Longrightarrow>
     bo_ok b lim xs \<and> lim_after b lim xs = lim"
  by (induction xs) auto

lemma sorted_same_time: "\<forall>x \<in> set xs. fst x = t \<Longrightarrow> sorted (map fst xs)"
  by (induction xs) auto

definition bo_inv :: "config \<Rightarrow> time \<Rightarrow> node \<Rightarrow> bool" where
  "bo_inv cfg clk n \<longleftrightarrow>
     sorted (map fst (log n)) \<and> (\<forall>x \<in> set (log n). fst x \<le> clk)
     \<and> bo_ok (MasterBackOffTime cfg) 0 (log n)
     \<and> (lim_after (MasterBackOffTime cfg) 0 (log n) \<le> clk
        \<or> pc n = Sleeping (lim_after (MasterBackOffTime cfg) 0 (log n)))"

lemma bo_inv_step:
  assumes inv: "bo_inv cfg clk n" and en: "node_enabled clk n"
  shows "bo_inv cfg clk (fst (node_step cfg clk n s))"
proof -
  let ?b = "MasterBackOffTime cfg" and ?new = "new_entries cfg clk n s"
  let ?L = "lim_after ?b 0 (log n)"
  have log': "log (fst (node_step cfg clk n s)) = log n @ ?new" by (rule log_node_step)
  have times: "\<forall>x \<in> set ?new. fst x = clk" using new_entries_time by blast
  from inv times have sorted: "sorted (map fst (log n @ ?new))"
    by (auto simp: bo_inv_def sorted_append intro: sorted_same_time)
  from inv times have le: "\<forall>x \<in> set (log n @ ?new). fst x \<le> clk"
    by (auto simp: bo_inv_def)
  show ?thesis
  proof (cases "\<exists>w. pc n = Sleeping w")
    case True
    then obtain w where w: "pc n = Sleeping w" by blast
    with en have "w \<le> clk" by (simp add: node_enabled_def)
    moreover have "pc (fst (node_step cfg clk n s)) = GetAssets" using w \<open>w \<le> clk\<close> by (simp add: node_step_def)
    ultimately show ?thesis
      using inv sorted le w new_entries_sleeping [OF w] log' by (auto simp: bo_inv_def)
  next
    case False
    with inv have L: "?L \<le> clk" by (auto simp: bo_inv_def)
    show ?thesis
    proof (cases "\<exists>x \<in> set ?new. refused (snd x)")
      case True
      then obtain x where "x \<in> set ?new" "refused (snd x)" by blast
      from new_entries_refused [OF this]
      have new: "?new = [(clk, StoreLock assetLockKey (Inr False))]"
        and p': "pc (fst (node_step cfg clk n s)) = Sleeping (clk + ?b)" by simp_all
      from inv L show ?thesis
        using sorted le by (simp add: bo_inv_def log' new bo_ok_append lim_after_append p' refused_def is_get_def)
    next
      case False
      with times have "\<forall>x \<in> set ?new. fst x = clk \<and> \<not> refused (snd x)" by blast
      from bo_ok_no_refusal [OF this L] inv L show ?thesis
        using sorted le by (simp add: bo_inv_def log' bo_ok_append lim_after_append)
    qed
  qed
qed

lemma bo_inv_later: "bo_inv cfg clk n \<Longrightarrow> clk \<le> clk' \<Longrightarrow> bo_inv cfg clk' n"
  by (auto simp: bo_inv_def)

lemma bo_ok_gets:
  "bo_ok b L ys \<Longrightarrow> sorted (map fst ys) \<Longrightarrow> \<forall>x \<in> set ys. L \<le> fst x + b \<Longrightarrow>
     (t', g) \<in> set ys \<Longrightarrow> is_get g \<Longrightarrow> L \<le> t'"
proof (induction b L ys rule: bo_ok.induct)
  case (1 b lim)
  then show ?case by simp
next
  case (2 b lim t a rest)
  let ?L' = "if refused a then t + b else lim"
  show ?case
  proof (cases "(t', g) = (t, a)")
    case True
    with "2.prems" show ?thesis by simp
  next
    case False
    with "2.prems" have mem: "(t', g) \<in> set rest" by auto
    from "2.prems" have "\<forall>x \<in> set rest. ?L' \<le> fst x + b" by auto
    with "2.prems" mem have "?L' \<le> t'" by (intro "2.IH") auto
    moreover from "2.prems" have "lim \<le> ?L'" by auto
    ultimately show ?thesis by linarith
  qed
qed

lemma reachable_bo_inv:
  assumes "reachable cfgs bounded c"
  shows "\<forall>i < length (nodes c). bo_inv (cfgs i) (clock c) (nodes c ! i)"
  using assms
proof (rule node_local_reachable)
  show "bo_inv cfg clk start_node" for cfg clk by (simp add: bo_inv_def start_node_def)
qed (auto intro: bo_inv_step bo_inv_later)


subsection \<open>Publication follows the whole primary sequence\<close>

definition primary_seq :: "call list" where
  "primary_seq = [CreatePKI, LoadAndSerializeAssets, CreateKubeConfig, CreateAndStartKubelet True, Addons,
                  InstallNetwork, TokensDeploy]"

lemma BootstrapOnce_success:
  assumes "fst (BootstrapOnce p) = Inr a"
  shows "snd (BootstrapOnce p) = primary_seq \<and> a = fst (load_and_serialize_assets p)
         \<and> (\<forall>c \<in> set primary_seq - {LoadAndSerializeAssets}. outcome p c = None)"
proof -
  let ?cs = "[CreateKubeConfig, CreateAndStartKubelet True, Addons, InstallNetwork, TokensDeploy]"
  from assms have pki: "outcome p CreatePKI = None"
    by (auto simp: BootstrapOnce_def split: option.splits)
  with assms have ok: "fst (run_seq p ?cs) = None" and a: "a = fst (load_and_serialize_assets p)"
    by (auto simp: BootstrapOnce_def split_def split: option.splits)
  from ok have tr: "snd (run_seq p ?cs) = ?cs" by (rule run_seq_success_trace)
  from ok have all: "\<forall>c \<in> set ?cs. outcome p c = None" by (simp only: run_seq_success_iff)
  from pki a ok tr all show ?thesis
    by (auto simp del: run_seq.simps simp: BootstrapOnce_def split_def primary_seq_def)
qed

lemma node_step_enter_publishing:
  "pc (fst (node_step cfg now n s)) = Publishing a \<Longrightarrow>
     pc n = Bootstrapping \<and> fst (BootstrapOnce (prov cfg)) = Inr a
     \<and> new_entries cfg now n s = ext_log now (prov cfg) (snd (BootstrapOnce (prov cfg)))"
  by (auto simp: new_entries_def node_step_def split_def ext_log_def Let_def
      split: pc.splits if_splits sum.splits option.splits)

lemma new_entries_publish:
  "pc n = Publishing a \<Longrightarrow> fst (etcd_put_tx s now assetKey a) = None \<Longrightarrow>
     new_entries cfg now n s = [(now, StorePut assetKey a None)]"
  by (simp add: new_entries_def node_step_def split_def)

definition pub_inv :: "config \<Rightarrow> time \<Rightarrow> node \<Rightarrow> bool" where
  "pub_inv cfg clk n \<longleftrightarrow>
     (\<forall>a. pc n = Publishing a \<longrightarrow>
        (\<exists>pre t. t \<le> clk \<and> log n = pre @ ext_log t (prov cfg) primary_seq)
        \<and> fst (BootstrapOnce (prov cfg)) = Inr a)
     \<and> (\<forall>a. published n a \<longrightarrow>
        (\<exists>pre t1 t2 post. t1 \<le> t2
           \<and> log n = pre @ ext_log t1 (prov cfg) primary_seq @ [(t2, StorePut assetKey a None)] @ post)
        \<and> fst (BootstrapOnce (prov cfg)) = Inr a)"

lemma pub_inv_step:
  assumes inv: "pub_inv cfg clk n"
  shows "pub_inv cfg clk (fst (node_step cfg clk n s))"
proof -
  let ?n' = "fst (node_step cfg clk n s)" and ?new = "new_entries cfg clk n s"
  have log': "log ?n' = log n @ ?new" by (rule log_node_step)
  have pub: "(\<exists>pre t. t \<le> clk \<and> log ?n' = pre @ ext_log t (prov cfg) primary_seq)
             \<and> fst (BootstrapOnce (prov cfg)) = Inr a" if "pc ?n' = Publishing a" for a
  proof -
    from node_step_enter_publishing [OF that] BootstrapOnce_success
    have "fst (BootstrapOnce (prov cfg)) = Inr a" "?new = ext_log clk (prov cfg) primary_seq" by auto
    with log' show ?thesis by auto
  qed
  have put: "(\<exists>pre t1 t2 post. t1 \<le> t2
               \<and> log ?n' = pre @ ext_log t1 (prov cfg) primary_seq @ [(t2, StorePut assetKey a None)] @ post)
             \<and> fst (BootstrapOnce (prov cfg)) = Inr a" if "published ?n' a" for a
  proof -
    from published_step [OF that]
    consider "published n a" | "pc n = Publishing a" "fst (etcd_put_tx s clk assetKey a) = None"
      by auto
    then show ?thesis
    proof cases
      case 1
      with inv obtain pre t1 t2 post where "t1 \<le> t2"
        "log n = pre @ ext_log t1 (prov cfg) primary_seq @ [(t2, StorePut assetKey a None)] @ post"
        "fst (BootstrapOnce (prov cfg)) = Inr a"
        unfolding pub_inv_def by blast
      moreover from this(2) log' have "log ?n' = pre @ ext_log t1 (prov cfg) primary_seq
          @ [(t2, StorePut assetKey a None)] @ (post @ ?new)" by simp
      ultimately show ?thesis by blast
    next
      case 2
      with inv obtain pre t where "t \<le> clk" "log n = pre @ ext_log t (prov cfg) primary_seq"
        "fst (BootstrapOnce (prov cfg)) = Inr a"
        unfolding pub_inv_def by blast
      moreover from this(2) log' new_entries_publish [OF 2] have "log ?n' = pre @ ext_log t (prov cfg) primary_seq
          @ [(clk, StorePut assetKey a None)] @ []" by simp
      ultimately show ?thesis by blast
    qed
  qed
  from pub put show ?thesis unfolding pub_inv_def by blast
qed

lemma pub_inv_later: "pub_inv cfg clk n \<Longrightarrow> clk \<le> clk' \<Longrightarrow> pub_inv cfg clk' n"
  unfolding pub_inv_def by (meson order_trans)

lemma reachable_pub_inv:
  assumes "reachable cfgs bounded c"
  shows "\<forall>i < length (nodes c). pub_inv (cfgs i) (clock c) (nodes c ! i)"
  using assms
proof (rule node_local_reachable)
  show "pub_inv cfg clk start_node" for cfg clk
    by (simp add: pub_inv_def start_node_def published_def)
qed (auto intro: pub_inv_step pub_inv_later)

end
