(* ===== verification/Json.thy ===== *)
theory Json
  imports Prelude
begin

text \<open>
  The part of Go's \<open>encoding/json\<close> that the shared-asset codec relies on. The package is
  not part of the repository; the definitions follow its documented behaviour. Strings are
  byte lists. \<open>json_quote\<close> is \<open>encodeState.string\<close> with HTML escaping on (as
  \<open>json.Marshal\<close> uses it) for ASCII bytes: \<open>"\<close> and \<open>\\\<close> are backslash-escaped,
  newline, carriage return and tab get their short escapes, the other control bytes and
  \<open><\<close>, \<open>>\<close>, \<open>&\<close> become \<open>\u00XX\<close> with lower-case hex digits; bytes of 0x80
  and above are copied (the UTF-8 validation of Go is not modelled). The decoder follows
  the JSON grammar that \<open>json.Unmarshal\<close> accepts: whitespace, literals, numbers, strings
  with every escape (a \<open>\u\<close> surrogate pair combines, a lone surrogate becomes U+FFFD),
  arrays and objects; a parse of a value spends one unit of fuel per nested call.
  The lemmas show that each parser consumes input (\<open>parse_shorter\<close>), that a parse that
  succeeds with some fuel gives the same result with any fuel of at least \<open>2 n + 1\<close> for an
  input of length \<open>n\<close> (\<open>parse_fuel_bound\<close>), so that \<open>json_fuel\<close> never cuts a parse
  short (\<open>json_fuel_adequate\<close>), and that the encoding of a struct of ASCII strings
  parses back to its fields (\<open>json_parse_struct\<close>).
\<close>

subsection \<open>Encoding\<close>

definition hexdig :: "nat \<Rightarrow> char" where
  "hexdig n = ''0123456789abcdef'' ! (n mod 16)"

definition json_escape_char :: "char \<Rightarrow> string" where
  "json_escape_char c =
     (if c = CHR 0x22 then [CHR 0x5C, CHR 0x22]
      else if c = CHR 0x5C then [CHR 0x5C, CHR 0x5C]
      else if c = CHR 0x0A then [CHR 0x5C, CHR ''n'']
      else if c = CHR 0x0D then [CHR 0x5C, CHR ''r'']
      else if c = CHR 0x09 then [CHR 0x5C, CHR ''t'']
      else if of_char c < (32::nat) \<or> c = CHR ''<'' \<or> c = CHR ''>'' \<or> c = CHR ''&''
      then [CHR 0x5C, CHR ''u'', CHR ''0'', CHR ''0'', hexdig (of_char c div 16), hexdig (of_char c)]
      else [c])"

definition json_quote :: "string \<Rightarrow> string" where
  "json_quote s = CHR 0x22 # concat (map json_escape_char s) @ [CHR 0x22]"

subsection \<open>Decoding strings\<close>

definition is_ws :: "char \<Rightarrow> bool" where
  "is_ws c \<longleftrightarrow> c = CHR '' '' \<or> c = CHR 0x09 \<or> c = CHR 0x0A \<or> c = CHR 0x0D"

definition skip_ws :: "string \<Rightarrow> string" where
  "skip_ws s = dropWhile is_ws s"

definition hex_val :: "char \<Rightarrow> nat option" where
  "hex_val c =
     (let n = of_char c :: nat in
      if 48 \<le> n \<and> n \<le> 57 then Some (n - 48)
      else if 97 \<le> n \<and> n \<le> 102 then Some (n - 87)
      else if 65 \<le> n \<and> n \<le> 70 then Some (n - 55)
      else None)"

definition hex4 :: "string \<Rightarrow> nat option" where
  "hex4 s =
     (case map hex_val (take 4 s) of
        [Some a, Some b, Some c, Some d] \<Rightarrow> Some (((a * 16 + b) * 16 + c) * 16 + d)
      | _ \<Rightarrow> None)"

text \<open>UTF-8 encoding of a code point (\<open>utf8.EncodeRune\<close>).\<close>

definition utf8_bytes :: "nat \<Rightarrow> string" where
  "utf8_bytes cp =
     (if cp < 128 then [char_of cp]
      else if cp < 2048 then [char_of (192 + cp div 64), char_of (128 + cp mod 64)]
      else if cp < 65536 then
        [char_of (224 + cp div 4096), char_of (128 + cp div 64 mod 64), char_of (128 + cp mod 64)]
      else [char_of (240 + cp div 262144), char_of (128 + cp div 4096 mod 64),
            char_of (128 + cp div 64 mod 64), char_of (128 + cp mod 64)])"

text \<open>The single-character escapes of a JSON string.\<close>

definition simple_escape :: "char \<Rightarrow> char option" where
  "simple_escape e =
     (if e = CHR 0x22 \<or> e = CHR 0x5C \<or> e = CHR ''/'' then Some e
      else if e = CHR ''b'' then Some (CHR 0x08)
      else if e = CHR ''f'' then Some (CHR 0x0C)
      else if e = CHR ''n'' then Some (CHR 0x0A)
      else if e = CHR ''r'' then Some (CHR 0x0D)
      else if e = CHR ''t'' then Some (CHR 0x09)
      else None)"

text \<open>
  A \<open>\uXXXX\<close> high surrogate followed by a \<open>\uXXXX\<close> low surrogate is one code point
  (\<open>utf16.DecodeRune\<close>); \<open>low_pair cp rest\<close> is that low half, \<open>rest\<close> being the input
  after the first four hex digits' start.
\<close>

definition low_pair :: "nat \<Rightarrow> string \<Rightarrow> nat option" where
  "low_pair cp rest =
     (if 55296 \<le> cp \<and> cp < 56320 \<and> take 2 (drop 4 rest) = [CHR 0x5C, CHR ''u'']
      then (case hex4 (drop 6 rest) of
              Some lo \<Rightarrow> if 56320 \<le> lo \<and> lo < 57344 then Some lo else None
            | None \<Rightarrow> None)
      else None)"

definition prepend :: "string \<Rightarrow> string \<times> string \<Rightarrow> string \<times> string" where
  "prepend p vr = (p @ fst vr, snd vr)"

text \<open>The body of a string literal after its opening quote: the decoded bytes and the rest.\<close>

fun pstr :: "string \<Rightarrow> (string \<times> string) option" where
  "pstr [] = None"
| "pstr (c # cs) =
     (if c = CHR 0x22 then Some ([], cs)
      else if c = CHR 0x5C then
        (case cs of
           [] \<Rightarrow> None
         | e # rest \<Rightarrow>
             (case simple_escape e of
                Some d \<Rightarrow> map_option (prepend [d]) (pstr rest)
              | None \<Rightarrow>
                  if e = CHR ''u'' then
                    (case hex4 rest of
                       None \<Rightarrow> None
                     | Some cp \<Rightarrow>
                         (case low_pair cp rest of
                            Some lo \<Rightarrow>
                              map_option (prepend (utf8_bytes (65536 + (cp - 55296) * 1024 + (lo - 56320))))
                                (pstr (drop 10 rest))
                          | None \<Rightarrow>
                              map_option
                                (prepend (utf8_bytes (if 55296 \<le> cp \<and> cp < 57344 then 65533 else cp)))
                                (pstr (drop 4 rest))))
                  else None))
      else if of_char c < (32::nat) then None
      else map_option (prepend [c]) (pstr cs))"

subsection \<open>Decoding values\<close>

datatype json = JNull | JBool bool | JNumber string | JString string
  | JArray "json list" | JObject "(string \<times> json) list"

definition is_digit :: "char \<Rightarrow> bool" where
  "is_digit c \<longleftrightarrow> (48::nat) \<le> of_char c \<and> of_char c \<le> (57::nat)"

text \<open>A run of at least one digit, split off the input.\<close>

definition digits1 :: "string \<Rightarrow> (string \<times> string) option" where
  "digits1 s = (if s \<noteq> [] \<and> is_digit (hd s) then Some (takeWhile is_digit s, dropWhile is_digit s) else None)"

text \<open>The number grammar: \<open>-? (0 | [1-9][0-9]* ) (. [0-9]+)? ([eE] [+-]? [0-9]+)?\<close>; the
  lexeme is kept as text, as \<open>json.Number\<close> does.\<close>

definition pfrac :: "string \<Rightarrow> (string \<times> string) option" where
  "pfrac s = (case s of
       c # r \<Rightarrow> if c = CHR ''.'' then map_option (\<lambda>(d, t). (c # d, t)) (digits1 r) else Some ([], s)
     | [] \<Rightarrow> Some ([], []))"

definition pexp :: "string \<Rightarrow> (string \<times> string) option" where
  "pexp s = (case s of
       c # r \<Rightarrow>
         if c = CHR ''e'' \<or> c = CHR ''E'' then
           (case r of
              g # r' \<Rightarrow> if g = CHR ''+'' \<or> g = CHR ''-'' then map_option (\<lambda>(d, t). (c # g # d, t)) (digits1 r')
                         else map_option (\<lambda>(d, t). (c # d, t)) (digits1 r)
            | [] \<Rightarrow> None)
         else Some ([], s)
     | [] \<Rightarrow> Some ([], []))"

definition pint :: "string \<Rightarrow> (string \<times> string) option" where
  "pint s = (case s of
       c # r \<Rightarrow> if c = CHR ''0'' then Some ([c], r) else digits1 s
     | [] \<Rightarrow> None)"

definition pnumber :: "string \<Rightarrow> (string \<times> string) option" where
  "pnumber s =
     (let (sg, s1) = (if s \<noteq> [] \<and> hd s = CHR ''-'' then ([CHR ''-''], tl s) else ([], s)) in
      case pint s1 of
        None \<Rightarrow> None
      | Some (i, s2) \<Rightarrow>
          (case pfrac s2 of
             None \<Rightarrow> None
           | Some (f, s3) \<Rightarrow>
               (case pexp s3 of
                  None \<Rightarrow> None
                | Some (e, s4) \<Rightarrow> Some (sg @ i @ f @ e, s4))))"

text \<open>
  \<open>pvalue f s\<close> parses one value after optional whitespace; \<open>parr\<close> the elements of an
  array after its \<open>[\<close> (which is not empty), \<open>pobj\<close> the members of an object after its
  \<open>{\<close>. Every call spends one unit of fuel \<open>f\<close>; \<open>json_fuel\<close> below is always enough.
\<close>

fun pvalue :: "nat \<Rightarrow> string \<Rightarrow> (json \<times> string) option"
and parr :: "nat \<Rightarrow> string \<Rightarrow> (json list \<times> string) option"
and pobj :: "nat \<Rightarrow> string \<Rightarrow> ((string \<times> json) list \<times> string) option" where
  "pvalue 0 s = None"
| "pvalue (Suc f) s =
     (case skip_ws s of
        [] \<Rightarrow> None
      | c # r \<Rightarrow>
          if c = CHR ''{'' then
            (case skip_ws r of
               d # r' \<Rightarrow> if d = CHR ''}'' then Some (JObject [], r')
                         else map_option (apfst JObject) (pobj f r)
             | [] \<Rightarrow> None)
          else if c = CHR ''['' then
            (case skip_ws r of
               d # r' \<Rightarrow> if d = CHR '']'' then Some (JArray [], r')
                         else map_option (apfst JArray) (parr f r)
             | [] \<Rightarrow> None)
          else if c = CHR 0x22 then map_option (apfst JString) (pstr r)
          else if c = CHR ''t'' \<and> take 3 r = ''rue'' then Some (JBool True, drop 3 r)
          else if c = CHR ''f'' \<and> take 4 r = ''alse'' then Some (JBool False, drop 4 r)
          else if c = CHR ''n'' \<and> take 3 r = ''ull'' then Some (JNull, drop 3 r)
          else map_option (apfst JNumber) (pnumber (c # r)))"
| "parr 0 s = None"
| "parr (Suc f) s =
     (case pvalue f s of
        None \<Rightarrow> None
      | Some (v, r) \<Rightarrow>
          (case skip_ws r of
             d # r' \<Rightarrow>
               if d = CHR '','' then map_option (apfst (Cons v)) (parr f r')
               else if d = CHR '']'' then Some ([v], r')
               else None
           | [] \<Rightarrow> None))"
| "pobj 0 s = None"
| "pobj (Suc f) s =
     (case skip_ws s of
        q # r \<Rightarrow>
          if q \<noteq> CHR 0x22 then None
          else
            (case pstr r of
               None \<Rightarrow> None
             | Some (k, r1) \<Rightarrow>
                 (case skip_ws r1 of
                    d # r2 \<Rightarrow>
                      if d \<noteq> CHR '':'' then None
                      else
                        (case pvalue f r2 of
                           None \<Rightarrow> None
                         | Some (v, r3) \<Rightarrow>
                             (case skip_ws r3 of
                                e # r4 \<Rightarrow>
                                  if e = CHR '','' then map_option (apfst (Cons (k, v))) (pobj f r4)
                                  else if e = CHR ''}'' then Some ([(k, v)], r4)
                                  else None
                              | [] \<Rightarrow> None))
                  | [] \<Rightarrow> None))
      | [] \<Rightarrow> None)"

definition json_fuel :: "string \<Rightarrow> nat" where
  "json_fuel s = 2 * length s + 2"

text \<open>A document is one value followed only by whitespace (\<open>checkValid\<close>).\<close>

definition json_parse :: "string \<Rightarrow> json option" where
  "json_parse s =
     (case pvalue (json_fuel s) s of
        Some (v, r) \<Rightarrow> if skip_ws r = [] then Some v else None
      | None \<Rightarrow> None)"

subsection \<open>Encoding a struct of strings\<close>

definition ascii :: "string \<Rightarrow> bool" where
  "ascii s \<longleftrightarrow> (\<forall>c\<in>set s. of_char c < (128::nat))"

definition json_field :: "string \<times> string \<Rightarrow> string" where
  "json_field kv = json_quote (fst kv) @ CHR '':'' # json_quote (snd kv)"

text \<open>The fields of a struct, comma-separated in declaration order (\<open>structEncoder.encode\<close>).\<close>

fun json_fields :: "(string \<times> string) list \<Rightarrow> string" where
  "json_fields [] = []"
| "json_fields [kv] = json_field kv"
| "json_fields (kv # kvs) = json_field kv @ CHR '','' # json_fields kvs"

definition json_struct :: "(string \<times> string) list \<Rightarrow> string" where
  "json_struct kvs = CHR ''{'' # json_fields kvs @ ''}''"

subsection \<open>Decoder lemmas\<close>

lemma hex_val_hexdig: "hex_val (hexdig n) = Some (n mod 16)"
proof -
  have "n mod 16 < 16" by simp
  moreover have "\<And>m. m < 16 \<Longrightarrow> hex_val (''0123456789abcdef'' ! m) = Some m"
    by (simp add: less_Suc_eq numeral_eq_Suc) (auto simp: hex_val_def)
  ultimately show ?thesis by (simp add: hexdig_def)
qed

lemma pstr_escape_char:
  assumes "of_char c < (128::nat)"
  shows "pstr (json_escape_char c @ t) = map_option (prepend [c]) (pstr t)"
proof -
  consider "c = CHR 0x22 \<or> c = CHR 0x5C \<or> c = CHR 0x0A \<or> c = CHR 0x0D \<or> c = CHR 0x09"
    | "\<not> (c = CHR 0x22 \<or> c = CHR 0x5C \<or> c = CHR 0x0A \<or> c = CHR 0x0D \<or> c = CHR 0x09)"
      "of_char c < (32::nat) \<or> c = CHR ''<'' \<or> c = CHR ''>'' \<or> c = CHR ''&''"
    | "\<not> (c = CHR 0x22 \<or> c = CHR 0x5C \<or> c = CHR 0x0A \<or> c = CHR 0x0D \<or> c = CHR 0x09)"
      "\<not> (of_char c < (32::nat) \<or> c = CHR ''<'' \<or> c = CHR ''>'' \<or> c = CHR ''&'')"
    by blast
  then show ?thesis
  proof cases
    case 1
    then show ?thesis by (auto simp: json_escape_char_def simple_escape_def)
  next
    case 2
    let ?n = "of_char c :: nat"
    have hx: "hex4 (CHR ''0'' # CHR ''0'' # hexdig (?n div 16) # hexdig ?n # t) = Some ?n"
      proof -
      have "hex_val (CHR ''0'') = Some 0" by (simp add: hex_val_def)
      with assms show ?thesis by (simp add: hex4_def hex_val_hexdig)
    qed
    have "low_pair ?n (CHR ''0'' # CHR ''0'' # hexdig (?n div 16) # hexdig ?n # t) = None"
      using assms by (simp add: low_pair_def)
    with 2 hx assms show ?thesis
      by (simp add: json_escape_char_def simple_escape_def utf8_bytes_def)
  next
    case 3
    then show ?thesis by (simp add: json_escape_char_def)
  qed
qed

lemma length_skip_ws: "length (skip_ws s) \<le> length s"
  by (simp add: skip_ws_def length_dropWhile_le)

lemma pstr_shorter: "pstr s = Some (v, r) \<Longrightarrow> length r < length s"
proof (induction s arbitrary: v rule: pstr.induct)
  case 1
  then show ?case by simp
next
  case (2 c cs)
  then show ?case
    by (auto simp: prepend_def split: if_splits list.splits option.splits)
       (fastforce+)
qed

lemma digits1_shorter: "digits1 s = Some (v, r) \<Longrightarrow> length r < length s"
  by (cases s) (auto simp: digits1_def length_dropWhile_le le_imp_less_Suc split: if_splits)

lemma pint_shorter: "pint s = Some (v, r) \<Longrightarrow> length r < length s"
  by (cases s) (auto simp: pint_def dest: digits1_shorter split: if_splits)

lemma pfrac_shorter: "pfrac s = Some (v, r) \<Longrightarrow> length r \<le> length s"
  by (cases s) (auto simp: pfrac_def dest!: digits1_shorter split: if_splits)

lemma pexp_shorter: "pexp s = Some (v, r) \<Longrightarrow> length r \<le> length s"
  by (auto simp: pexp_def dest!: digits1_shorter split: if_splits list.splits)

lemma pnumber_shorter: "pnumber s = Some (v, r) \<Longrightarrow> length r < length s"
  by (fastforce simp: pnumber_def split: if_splits option.splits prod.splits
        dest!: pint_shorter pfrac_shorter pexp_shorter)

lemma skip_ws_cons_shorter: "skip_ws s = c # r \<Longrightarrow> length r < length s"
  using length_skip_ws [of s] by simp

lemma parse_shorter:
  "pvalue f s = Some (v, r) \<Longrightarrow> length r < length s"
  "parr f s = Some (vs, r) \<Longrightarrow> length r < length s"
  "pobj f s = Some (ms, r) \<Longrightarrow> length r < length s"
proof (induction f s and f s and f s arbitrary: v r and vs r and ms r rule: pvalue_parr_pobj.induct)
  case (2 f s)
  then show ?case
    by (auto split: list.splits if_splits option.splits
          dest!: skip_ws_cons_shorter pstr_shorter pnumber_shorter) fastforce+
next
  case (4 f s)
  then show ?case
    by (fastforce split: list.splits if_splits option.splits dest!: skip_ws_cons_shorter)
next
  case (6 f s)
  then show ?case
    by (fastforce split: list.splits if_splits option.splits dest!: skip_ws_cons_shorter pstr_shorter)
qed simp_all

text \<open>The body of \<open>pvalue\<close> after its whitespace: calls beyond the first character.\<close>

lemma pvalue_Suc_cases:
  assumes "skip_ws s = c # r"
  obtains (obj) "c = CHR ''{''" "\<And>f. pvalue (Suc f) s =
      (case skip_ws r of [] \<Rightarrow> None | d # r' \<Rightarrow> if d = CHR ''}'' then Some (JObject [], r')
       else map_option (apfst JObject) (pobj f r))"
  | (arr) "c = CHR ''[''" "\<And>f. pvalue (Suc f) s =
      (case skip_ws r of [] \<Rightarrow> None | d # r' \<Rightarrow> if d = CHR '']'' then Some (JArray [], r')
       else map_option (apfst JArray) (parr f r))"
  | (scalar) "\<And>f g. pvalue (Suc f) s = pvalue (Suc g) s"
  using assms by (cases "c = CHR ''{''"; cases "c = CHR ''[''") auto

lemma pvalue_Suc_cong:
  assumes "\<And>r. length r < length s \<Longrightarrow> pobj f r \<noteq> None \<Longrightarrow> pobj g r = pobj f r"
    and "\<And>r. length r < length s \<Longrightarrow> parr f r \<noteq> None \<Longrightarrow> parr g r = parr f r"
    and "pvalue (Suc f) s \<noteq> None"
  shows "pvalue (Suc g) s = pvalue (Suc f) s"
proof (cases "skip_ws s")
  case Nil
  then show ?thesis by simp
next
  case (Cons c r)
  then have len: "length r < length s" by (rule skip_ws_cons_shorter)
  from Cons show ?thesis
  proof (cases rule: pvalue_Suc_cases)
    case obj
    with assms(3) show ?thesis
      by (cases "skip_ws r") (auto simp del: pvalue.simps pobj.simps simp: assms(1) [OF len])
  next
    case arr
    with assms(3) show ?thesis
      by (cases "skip_ws r") (auto simp del: pvalue.simps parr.simps simp: assms(2) [OF len])
  qed
qed

lemma parr_Suc_cong:
  assumes "pvalue f s \<noteq> None \<Longrightarrow> pvalue g s = pvalue f s"
    and "\<And>r. length r < length s \<Longrightarrow> parr f r \<noteq> None \<Longrightarrow> parr g r = parr f r"
    and ok: "parr (Suc f) s \<noteq> None"
  shows "parr (Suc g) s = parr (Suc f) s"
proof -
  from ok obtain v r where v: "pvalue f s = Some (v, r)"
    by (auto split: option.splits)
  with assms(1) have g: "pvalue g s = Some (v, r)" by simp
  from v have len: "length r < length s" by (rule parse_shorter(1))
  show ?thesis
  proof (cases "skip_ws r")
    case Nil
    with v g show ?thesis by simp
  next
    case (Cons d r')
    with len have "length r' < length s" using skip_ws_cons_shorter by fastforce
    with Cons v g ok assms(2) show ?thesis by auto
  qed
qed

lemma pobj_Suc_cong:
  assumes pv: "\<And>r. length r < length s \<Longrightarrow> pvalue f r \<noteq> None \<Longrightarrow> pvalue g r = pvalue f r"
    and po: "\<And>r. length r < length s \<Longrightarrow> pobj f r \<noteq> None \<Longrightarrow> pobj g r = pobj f r"
    and ok: "pobj (Suc f) s \<noteq> None"
  shows "pobj (Suc g) s = pobj (Suc f) s"
proof -
  from ok obtain r k r1 r2 v r3 e r4 where
    s1: "skip_ws s = CHR 0x22 # r" and s2: "pstr r = Some (k, r1)"
    and s3: "skip_ws r1 = CHR '':'' # r2" and s4: "pvalue f r2 = Some (v, r3)"
    and s5: "skip_ws r3 = e # r4"
    by (auto split: list.splits option.splits if_splits)
  from s1 s2 s3 have "length r2 < length s"
    by (fastforce dest!: skip_ws_cons_shorter pstr_shorter)
  with pv s4 have g4: "pvalue g r2 = Some (v, r3)" by simp
  from s4 s5 \<open>length r2 < length s\<close> have "length r4 < length s"
    by (fastforce dest!: skip_ws_cons_shorter parse_shorter(1))
  with s1 s2 s3 s4 s5 g4 ok po show ?thesis by auto
qed

lemma parse_fuel_bound:
  "pvalue f s \<noteq> None \<Longrightarrow> 2 * length s + 1 \<le> g \<Longrightarrow> pvalue g s = pvalue f s"
  "parr f s \<noteq> None \<Longrightarrow> 2 * length s + 2 \<le> g \<Longrightarrow> parr g s = parr f s"
  "pobj f s \<noteq> None \<Longrightarrow> 2 * length s + 1 \<le> g \<Longrightarrow> pobj g s = pobj f s"
proof (induction f arbitrary: s g)
  case 0
  {
    case 1
    then show ?case by simp
  next
    case 2
    then show ?case by simp
  next
    case 3
    then show ?case by simp
  }
next
  case (Suc f)
  {
    case 1
    then obtain g' where g: "g = Suc g'" and "2 * length s \<le> g'" by (cases g) auto
    then have "pvalue (Suc g') s = pvalue (Suc f) s"
      using 1 by (intro pvalue_Suc_cong) (auto intro!: Suc.IH(2,3))
    with g show ?case by simp
  next
    case 2
    then obtain g' where g: "g = Suc g'" and "2 * length s + 1 \<le> g'" by (cases g) auto
    then have "parr (Suc g') s = parr (Suc f) s"
      using 2 by (intro parr_Suc_cong) (auto intro!: Suc.IH(1,2))
    with g show ?case by simp
  next
    case 3
    then obtain g' where g: "g = Suc g'" and "2 * length s \<le> g'" by (cases g) auto
    then have "pobj (Suc g') s = pobj (Suc f) s"
      using 3 by (intro pobj_Suc_cong) (auto intro!: Suc.IH(1,3))
    with g show ?case by simp
  }
qed

lemma json_fuel_adequate:
  assumes "json_fuel s \<le> g"
  shows "pvalue g s = pvalue (json_fuel s) s"
proof -
  have le: "2 * length s + 1 \<le> json_fuel s" by (simp add: json_fuel_def)
  show ?thesis
  proof (cases "pvalue g s = None")
    case True
    show ?thesis
    proof (cases "pvalue (json_fuel s) s = None")
      case False
      from le assms have "2 * length s + 1 \<le> g" by simp
      from parse_fuel_bound(1) [OF False this] show ?thesis .
    qed (use True in simp)
  next
    case False
    from parse_fuel_bound(1) [OF False le] show ?thesis by (rule sym)
  qed
qed

lemma pstr_escape:
  "ascii s \<Longrightarrow> pstr (concat (map json_escape_char s) @ CHR 0x22 # t) = Some (s, t)"
  by (induction s) (auto simp: ascii_def pstr_escape_char prepend_def)

lemma skip_ws_nonws [simp]: "\<not> is_ws c \<Longrightarrow> skip_ws (c # t) = c # t"
  by (simp add: skip_ws_def)

lemma json_quote_append:
  "json_quote s @ t = CHR 0x22 # concat (map json_escape_char s) @ CHR 0x22 # t"
  by (simp add: json_quote_def)

lemma pvalue_quote:
  "ascii s \<Longrightarrow> pvalue (Suc f) (json_quote s @ t) = Some (JString s, t)"
  by (simp add: json_quote_append pstr_escape is_ws_def)

lemma pobj_field:
  assumes "ascii (fst kv)" "ascii (snd kv)"
  shows "pobj (Suc (Suc f)) (json_field kv @ t) =
    (case skip_ws t of
       e # r4 \<Rightarrow>
         if e = CHR '','' then map_option (apfst (Cons (fst kv, JString (snd kv)))) (pobj (Suc f) r4)
         else if e = CHR ''}'' then Some ([(fst kv, JString (snd kv))], r4)
         else None
     | [] \<Rightarrow> None)"
proof -
  have "json_field kv @ t =
      CHR 0x22 # concat (map json_escape_char (fst kv)) @ CHR 0x22 # CHR '':'' # json_quote (snd kv) @ t"
    by (simp add: json_field_def json_quote_def)
  moreover have "pvalue (Suc f) (json_quote (snd kv) @ t) = Some (JString (snd kv), t)"
    using assms(2) by (rule pvalue_quote)
  ultimately show ?thesis
    using assms(1) by (simp add: pstr_escape is_ws_def del: pvalue.simps(2))
qed

lemma pobj_struct:
  assumes "kvs \<noteq> []" "\<forall>kv\<in>set kvs. ascii (fst kv) \<and> ascii (snd kv)" "length kvs \<le> f"
  shows "pobj (Suc f) (json_fields kvs @ CHR ''}'' # t)
           = Some (map (\<lambda>kv. (fst kv, JString (snd kv))) kvs, t)"
  using assms
proof (induction kvs arbitrary: f rule: induct_list012)
  case (2 kv)
  then obtain f' where "f = Suc f'" by (cases f) auto
  with 2 show ?case by (simp add: pobj_field is_ws_def del: pobj.simps(2))
next
  case (3 kv kv' kvs)
  then obtain f' where "f = Suc f'" by (cases f) auto
  with 3 show ?case by (simp add: pobj_field is_ws_def del: pobj.simps(2))
qed simp

lemma json_fields_quote: "kvs \<noteq> [] \<Longrightarrow> \<exists>r. json_fields kvs = CHR 0x22 # r"
  by (induction kvs rule: json_fields.induct) (auto simp: json_field_def json_quote_def)

lemma json_parse_struct:
  assumes "kvs \<noteq> []" "\<forall>kv\<in>set kvs. ascii (fst kv) \<and> ascii (snd kv)"
  shows "json_parse (json_struct kvs) = Some (JObject (map (\<lambda>kv. (fst kv, JString (snd kv))) kvs))"
proof -
  let ?s = "json_struct kvs"
  obtain r where r: "json_fields kvs = CHR 0x22 # r" using json_fields_quote [OF assms(1)] by blast
  have ob: "pobj (Suc (length kvs)) (json_fields kvs @ CHR ''}'' # [])
      = Some (map (\<lambda>kv. (fst kv, JString (snd kv))) kvs, [])"
    using assms by (intro pobj_struct) simp_all
  have pv: "pvalue (Suc (Suc (length kvs))) ?s = Some (JObject (map (\<lambda>kv. (fst kv, JString (snd kv))) kvs), [])"
    using ob r by (simp add: json_struct_def is_ws_def del: pobj.simps(2))
  then have "pvalue (json_fuel ?s) ?s = pvalue (Suc (Suc (length kvs))) ?s"
    by (intro parse_fuel_bound(1)) (simp_all add: json_fuel_def)
  with pv show ?thesis by (simp add: json_parse_def skip_ws_def)
qed

end
