(* ===== verification/Assets.thy ===== *)
theory Assets
  imports Json Collaborators
begin

text \<open>
  The shared-asset codec of \<open>src/unnamed/part_001\<close> (package kubeadm): the struct
  \<open>SharedAssets\<close> of four PEM texts, \<open>LoadAndSerializeAssets\<close>, which loads the keys and
  the front-proxy CA from the PKI directory, checks them and marshals the struct to JSON,
  and \<open>SaveAssets\<close>, which unmarshals a bundle and writes the four files. The PEM
  decoding and re-encoding of the key material (pkiutil, certutil) is abstracted: the disk
  \<open>pki_disk\<close> holds what each loader yields, the re-encoded PEM text or a load failure.
  File writes are attempts against an oracle that says which path fails.
  \<open>kubeadm_provider\<close> plugs these routines into the collaborator record of the coordinator.
\<close>

subsection \<open>The struct and its JSON form\<close>

record SharedAssets =
  FrontProxyCa :: string
  FrontProxyCaKey :: string
  SaPub :: string
  SaKey :: string

definition empty_assets :: SharedAssets where
  "empty_assets = \<lparr>FrontProxyCa = [], FrontProxyCaKey = [], SaPub = [], SaKey = []\<rparr>"

text \<open>The exported fields in declaration order, named by their Go names (no json tags).\<close>

definition asset_fields :: "SharedAssets \<Rightarrow> (string \<times> string) list" where
  "asset_fields a =
     [(''FrontProxyCa'', FrontProxyCa a), (''FrontProxyCaKey'', FrontProxyCaKey a),
      (''SaPub'', SaPub a), (''SaKey'', SaKey a)]"

text \<open>\<open>json.Marshal(sharedAssets)\<close>.\<close>

definition marshal_assets :: "SharedAssets \<Rightarrow> string" where
  "marshal_assets a = json_struct (asset_fields a)"

text \<open>ASCII case folding, as \<open>encoding/json\<close> matches a key against a field name when no
  name matches exactly.\<close>

definition lower :: "char \<Rightarrow> char" where
  "lower c = (let n = of_char c :: nat in if 65 \<le> n \<and> n \<le> 90 then char_of (n + 32) else c)"

definition fold_eq :: "string \<Rightarrow> string \<Rightarrow> bool" where
  "fold_eq a b \<longleftrightarrow> map lower a = map lower b"

text \<open>The field a key selects: exact match first, then a case-insensitive one. The four
  names are pairwise distinct under folding, so the first fold match is the only one.\<close>

definition field_of :: "string \<Rightarrow> nat option" where
  "field_of k =
     (if fold_eq k ''FrontProxyCa'' then Some 0
      else if fold_eq k ''FrontProxyCaKey'' then Some 1
      else if fold_eq k ''SaPub'' then Some 2
      else if fold_eq k ''SaKey'' then Some 3
      else None)"

definition set_field :: "nat \<Rightarrow> string \<Rightarrow> SharedAssets \<Rightarrow> SharedAssets" where
  "set_field i v a =
     (if i = 0 then a\<lparr>FrontProxyCa := v\<rparr>
      else if i = 1 then a\<lparr>FrontProxyCaKey := v\<rparr>
      else if i = 2 then a\<lparr>SaPub := v\<rparr>
      else a\<lparr>SaKey := v\<rparr>)"

definition json_type_error :: error where
  "json_type_error = ErrMsg ''json: cannot unmarshal into Go struct field of type string''"

definition json_syntax_error :: error where
  "json_syntax_error = ErrMsg ''json: invalid character''"

text \<open>One member of the object (\<open>decodeState.object\<close>): a string value is stored in the
  field, \<open>null\<close> leaves it alone, any other value for a known field records the first
  type error and decoding goes on; unknown keys are skipped.\<close>

definition unmarshal_member ::
  "string \<times> json \<Rightarrow> SharedAssets \<times> error option \<Rightarrow> SharedAssets \<times> error option" where
  "unmarshal_member m st =
     (case field_of (fst m) of
        None \<Rightarrow> st
      | Some i \<Rightarrow>
          (case snd m of
             JString v \<Rightarrow> (set_field i v (fst st), snd st)
           | JNull \<Rightarrow> st
           | _ \<Rightarrow> (fst st, case snd st of None \<Rightarrow> Some json_type_error | Some e \<Rightarrow> Some e)))"

text \<open>\<open>json.Unmarshal(data, &a)\<close>: the whole input is checked first, a syntax error leaves
  the struct untouched; a top-level \<open>null\<close> is a no-op; an object is decoded member by
  member, a later duplicate key overwriting an earlier one.\<close>

definition unmarshal_assets :: "string \<Rightarrow> SharedAssets \<Rightarrow> SharedAssets \<times> error option" where
  "unmarshal_assets s a =
     (case json_parse s of
        None \<Rightarrow> (a, Some json_syntax_error)
      | Some JNull \<Rightarrow> (a, None)
      | Some (JObject ms) \<Rightarrow> fold unmarshal_member ms (a, None)
      | Some _ \<Rightarrow> (a, Some json_type_error))"

text \<open>PEM files are ASCII text; the codec's round trip is stated for such fields.\<close>

definition pem_text :: "SharedAssets \<Rightarrow> bool" where
  "pem_text a \<longleftrightarrow> (\<forall>kv\<in>set (asset_fields a). ascii (snd kv))"

subsection \<open>Loading the bundle (\<open>LoadAndSerializeAssets\<close>)\<close>

text \<open>What the three pkiutil loaders return for the PKI directory: the service-account
  private and public key as the PEM text \<open>certutil\<close> re-encodes them to, and the
  front-proxy CA certificate and key with the certificate's \<open>IsCA\<close> flag; \<open>None\<close> is a
  load error (for the front proxy also a nil certificate or key).\<close>

record pki_disk =
  sa_key :: "string option"
  sa_pub :: "string option"
  front_proxy :: "(string \<times> string \<times> bool) option"

definition kubeadm_LoadAndSerializeAssets :: "pki_disk \<Rightarrow> string \<times> error option" where
  "kubeadm_LoadAndSerializeAssets d =
     (case sa_key d of
        None \<Rightarrow> ([], Some (ErrMsg ''SA private key could not be loaded properly''))
      | Some k \<Rightarrow>
          (case sa_pub d of
             None \<Rightarrow> ([], Some (ErrMsg ''SA public key could not be loaded properly''))
           | Some p \<Rightarrow>
               (case front_proxy d of
                  None \<Rightarrow> ([], Some (ErrMsg
                    ''Front proxy certificate and/or key existed but they could not be loaded properly''))
                | Some (crt, ck, is_ca) \<Rightarrow>
                    if \<not> is_ca then
                      ([], Some (ErrMsg ''certificate and key could be loaded but the certificate is not a CA''))
                    else
                      (marshal_assets \<lparr>FrontProxyCa = crt, FrontProxyCaKey = ck, SaPub = p, SaKey = k\<rparr>,
                       None))))"

subsection \<open>Saving the bundle (\<open>SaveAssets\<close>)\<close>

text \<open>The kubeadm constants the paths are built from.\<close>

definition KubernetesDir :: string where "KubernetesDir = ''/etc/kubernetes''"

definition PkiDir :: string where "PkiDir = KubernetesDir @ ''/pki''"

record write_op =
  wpath :: string
  wdata :: string
  wperm :: nat

text \<open>\<open>ioutil.WriteFile\<close> calls in order, each followed by \<open>if err != nil { return ... }\<close>;
  \<open>wr\<close> says which paths fail. The result is the error and the writes attempted, the
  failing one included.\<close>

fun write_files :: "(string \<Rightarrow> error option) \<Rightarrow> (write_op \<times> string) list \<Rightarrow> error option \<times> write_op list" where
  "write_files wr [] = (None, [])"
| "write_files wr ((w, msg) # ws) =
     (case wr (wpath w) of
        Some e \<Rightarrow> (Some (ErrMsg msg), [w])
      | None \<Rightarrow> (let (r, t) = write_files wr ws in (r, w # t)))"

definition save_plan :: "SharedAssets \<Rightarrow> (write_op \<times> string) list" where
  "save_plan sa =
     [(\<lparr>wpath = PkiDir @ ''/sa.pub'', wdata = SaPub sa, wperm = 420\<rparr>,
       ''Service Account public key could not saved''),
      (\<lparr>wpath = PkiDir @ ''/sa.key'', wdata = SaKey sa, wperm = 384\<rparr>,
       ''Service Account private key could not saved''),
      (\<lparr>wpath = PkiDir @ ''/front-proxy-ca.crt'', wdata = FrontProxyCa sa, wperm = 420\<rparr>,
       ''Front proxy public ca cert could not saved''),
      (\<lparr>wpath = PkiDir @ ''/front-proxy-ca.key'', wdata = FrontProxyCaKey sa, wperm = 384\<rparr>,
       ''Front proxy private key could not saved'')]"

text \<open>The error of \<open>json.Unmarshal\<close> is discarded, as in the source.\<close>

definition kubeadm_SaveAssets :: "(string \<Rightarrow> error option) \<Rightarrow> string \<Rightarrow> error option \<times> write_op list" where
  "kubeadm_SaveAssets wr assets =
     (let sa = fst (unmarshal_assets assets empty_assets) in write_files wr (save_plan sa))"

subsection \<open>The kubeadm implementation behind the collaborator interface\<close>

text \<open>The provider of \<open>Collaborators\<close> whose \<open>LoadAndSerializeAssets\<close> and \<open>SaveAssets\<close>
  are the routines above, every other call answered by \<open>p\<close>.\<close>

definition kubeadm_provider :: "pki_disk \<Rightarrow> (string \<Rightarrow> error option) \<Rightarrow> provider \<Rightarrow> provider" where
  "kubeadm_provider d wr p =
     \<lparr>outcome = (\<lambda>c. case c of
                        LoadAndSerializeAssets \<Rightarrow> snd (kubeadm_LoadAndSerializeAssets d)
                      | SaveAssets s \<Rightarrow> fst (kubeadm_SaveAssets wr s)
                      | _ \<Rightarrow> outcome p c),
      serialized = fst (kubeadm_LoadAndSerializeAssets d)\<rparr>"

subsection \<open>Lemmas\<close>

lemma field_of_names [simp]:
  "field_of ''FrontProxyCa'' = Some 0" "field_of ''FrontProxyCaKey'' = Some 1"
  "field_of ''SaPub'' = Some 2" "field_of ''SaKey'' = Some 3"
  by (simp_all add: field_of_def fold_eq_def lower_def)

lemma json_parse_marshal:
  "pem_text a \<Longrightarrow>
   json_parse (marshal_assets a) = Some (JObject (map (\<lambda>kv. (fst kv, JString (snd kv))) (asset_fields a)))"
  unfolding marshal_assets_def
  by (rule json_parse_struct) (auto simp: pem_text_def asset_fields_def ascii_def)

lemma write_files_ok:
  "(\<forall>w\<in>set (map fst plan). wr (wpath w) = None) \<Longrightarrow> write_files wr plan = (None, map fst plan)"
  by (induction wr plan rule: write_files.induct) auto


lemma write_files_result:
  "(fst (write_files wr plan) = None \<longleftrightarrow> (\<forall>w\<in>set (map fst plan). wr (wpath w) = None))
   \<and> prefix (snd (write_files wr plan)) (map fst plan)
   \<and> (fst (write_files wr plan) \<noteq> None \<longrightarrow> snd (write_files wr plan) \<noteq> []
        \<and> wr (wpath (last (snd (write_files wr plan)))) \<noteq> None
        \<and> (\<forall>w\<in>set (butlast (snd (write_files wr plan))). wr (wpath w) = None))"
proof (induction wr plan rule: write_files.induct)
  case (2 wr w msg ws)
  then show ?case
    by (cases "wr (wpath w)") (auto simp: split_def)
qed simp

lemma unmarshal_members:
  "pem_text a \<Longrightarrow> unmarshal_assets (marshal_assets a) z = (a, None)"
  by (simp add: unmarshal_assets_def json_parse_marshal asset_fields_def unmarshal_member_def set_field_def)

lemma save_malformed:
  assumes "json_parse s = None" "\<forall>path. wr path = None"
  shows "kubeadm_SaveAssets wr s = (None, map fst (save_plan empty_assets))"
  using assms by (simp add: kubeadm_SaveAssets_def unmarshal_assets_def write_files_ok)

subsection \<open>Properties of the codec\<close>

text \<open>
  C15. Round trip: unmarshalling what \<open>json.Marshal\<close> produced for a bundle of PEM (ASCII)
  texts gives back the bundle field for field, byte for byte, with no error, whatever the
  struct held before.
\<close>

theorem codec_roundtrip:
  assumes "pem_text a"
  shows "unmarshal_assets (marshal_assets a) z = (a, None)"
  using assms by (rule unmarshal_members)

theorem codec_roundtrip_witness:
  "pem_text \<lparr>FrontProxyCa = ''C'', FrontProxyCaKey = ''K<&>'', SaPub = ''P/'', SaKey = ''S''\<rparr>
   \<and> unmarshal_assets (marshal_assets \<lparr>FrontProxyCa = ''C'', FrontProxyCaKey = ''K<&>'', SaPub = ''P/'', SaKey = ''S''\<rparr>)
       empty_assets = (\<lparr>FrontProxyCa = ''C'', FrontProxyCaKey = ''K<&>'', SaPub = ''P/'', SaKey = ''S''\<rparr>, None)"
proof -
  have p: "pem_text \<lparr>FrontProxyCa = ''C'', FrontProxyCaKey = ''K<&>'', SaPub = ''P/'', SaKey = ''S''\<rparr>"
    by (simp add: pem_text_def asset_fields_def ascii_def)
  show ?thesis using codec_roundtrip [OF p] p by simp
qed



text \<open>
  C17. Error behaviour of \<open>LoadAndSerializeAssets\<close>: it succeeds exactly when the service
  account private and public key load and the front-proxy certificate and key load with a
  certificate that is a CA; otherwise it returns an error and the empty bundle.
\<close>

theorem load_assets_error_iff:
  "(snd (kubeadm_LoadAndSerializeAssets d) = None \<longleftrightarrow>
     (\<exists>k p c ck. sa_key d = Some k \<and> sa_pub d = Some p \<and> front_proxy d = Some (c, ck, True)))
   \<and> (snd (kubeadm_LoadAndSerializeAssets d) \<noteq> None \<longrightarrow> fst (kubeadm_LoadAndSerializeAssets d) = [])"
  by (auto simp: kubeadm_LoadAndSerializeAssets_def split: option.splits prod.splits)

theorem load_assets_error_iff_witness:
  "snd (kubeadm_LoadAndSerializeAssets
       \<lparr>sa_key = Some ''SK'', sa_pub = Some ''SP'', front_proxy = Some (''FC'', ''FK'', False)\<rparr>) \<noteq> None
   \<and> fst (kubeadm_LoadAndSerializeAssets
       \<lparr>sa_key = Some ''SK'', sa_pub = Some ''SP'', front_proxy = Some (''FC'', ''FK'', False)\<rparr>) = []"
  using load_assets_error_iff [of "\<lparr>sa_key = Some ''SK'', sa_pub = Some ''SP'', front_proxy = Some (''FC'', ''FK'', False)\<rparr>"]
  by simp

text \<open>
  C18. Error behaviour of \<open>SaveAssets\<close>: it reports success exactly when none of the four
  writes fails; the writes attempted are a prefix of the four in the source's order, and a
  failure stops at the first failing write, which is the last one attempted.
\<close>

theorem save_assets_error_iff:
  "(fst (kubeadm_SaveAssets wr s) = None \<longleftrightarrow>
     (\<forall>w\<in>set (map fst (save_plan (fst (unmarshal_assets s empty_assets)))). wr (wpath w) = None))
   \<and> prefix (snd (kubeadm_SaveAssets wr s)) (map fst (save_plan (fst (unmarshal_assets s empty_assets))))
   \<and> (fst (kubeadm_SaveAssets wr s) \<noteq> None \<longrightarrow> snd (kubeadm_SaveAssets wr s) \<noteq> []
        \<and> wr (wpath (last (snd (kubeadm_SaveAssets wr s)))) \<noteq> None
        \<and> (\<forall>w\<in>set (butlast (snd (kubeadm_SaveAssets wr s))). wr (wpath w) = None))"
  unfolding kubeadm_SaveAssets_def Let_def by (rule write_files_result)

theorem save_assets_error_iff_witness:
  "snd (kubeadm_SaveAssets (\<lambda>_. Some ErrUnavailable) ''x'') \<noteq> []
   \<and> prefix (snd (kubeadm_SaveAssets (\<lambda>_. Some ErrUnavailable) ''x''))
       (map fst (save_plan (fst (unmarshal_assets ''x'' empty_assets))))"
proof -
  have "fst (kubeadm_SaveAssets (\<lambda>_. Some ErrUnavailable) ''x'') \<noteq> None"
    by (simp add: kubeadm_SaveAssets_def save_plan_def)
  with save_assets_error_iff [of "\<lambda>_. Some ErrUnavailable" "''x''"] show ?thesis by blast
qed

end
