(* ===== verification/Kubeadm.thy ===== *)
theory Kubeadm
  imports Assets "HOL-Library.Word"
begin

text \<open>
  The kubeadm wrapper of \<open>src/unnamed/part_001\<close> and \<open>src/pkg/kubeadm/manifests.go\<close>:
  the package configuration \<open>Config\<close>, \<open>getHost\<close>, \<open>GetKubeadmCfg\<close> (with the API port
  parsed by \<open>strconv.ParseInt(port, 10, 32)\<close> and stored in an \<open>int32\<close>, here a
  \<open>32 word\<close>), \<open>CreatePKI\<close>, \<open>createAKubeCfg\<close>, \<open>CreateKubeConfig\<close> and
  \<open>WriteManifests\<close>. The kubeadm binary, \<open>os.Hostname\<close>, file writes and
  \<open>master.WriteStaticPodManifests\<close> are oracles of an environment record. That record
  also holds the constants package's networking defaults. The model records the commands
  run and the files written. The library functions used
  (\<open>url.URL.Port\<close> and \<open>String\<close>, \<open>net.SplitHostPort\<close>, \<open>strconv.ParseInt\<close>,
  \<open>strings.Split\<close>) are modelled after the Go sources of the release the code was built
  with (Go 1.8).
\<close>

subsection \<open>String helpers of the Go library\<close>

text \<open>\<open>strings.IndexByte\<close> and \<open>strings.LastIndexByte\<close>.\<close>

fun idx :: "char \<Rightarrow> string \<Rightarrow> nat option" where
  "idx c [] = None"
| "idx c (x # xs) = (if x = c then Some 0 else map_option Suc (idx c xs))"

definition lidx :: "char \<Rightarrow> string \<Rightarrow> nat option" where
  "lidx c s = map_option (\<lambda>j. length s - 1 - j) (idx c (rev s))"

text \<open>\<open>strings.Index\<close> for a pattern.\<close>

fun sidx :: "string \<Rightarrow> string \<Rightarrow> nat option" where
  "sidx p [] = (if p = [] then Some 0 else None)"
| "sidx p (x # xs) = (if take (length p) (x # xs) = p then Some 0 else map_option Suc (sidx p xs))"

text \<open>\<open>strings.Split(s, sep)\<close> for a one-character separator.\<close>

fun split_on :: "char \<Rightarrow> string \<Rightarrow> string list" where
  "split_on c [] = [[]]"
| "split_on c (x # xs) =
     (if x = c then [] # split_on c xs
      else (case split_on c xs of [] \<Rightarrow> [[x]] | w # ws \<Rightarrow> (x # w) # ws))"

subsection \<open>URLs and host:port strings\<close>

text \<open>The parts of \<open>url.URL\<close> the wrapper reads.\<close>

record url =
  Scheme :: string
  Host :: string
  Path :: string

definition url_String :: "url \<Rightarrow> string" where
  "url_String u = Scheme u @ ''://'' @ Host u @ Path u"

text \<open>\<open>URL.Port\<close> (\<open>portOnly\<close> of Go 1.8).\<close>

definition portOnly :: "string \<Rightarrow> string" where
  "portOnly hp =
     (case idx CHR '':'' hp of
        None \<Rightarrow> []
      | Some colon \<Rightarrow>
          (case sidx '']:'' hp of
             Some i \<Rightarrow> drop (i + 2) hp
           | None \<Rightarrow> if CHR '']'' \<in> set hp then [] else drop (colon + 1) hp))"

definition addr_err :: "string \<Rightarrow> string \<Rightarrow> error" where
  "addr_err hp why = ErrMsg (''address '' @ hp @ '': '' @ why)"

definition quoted :: "char \<Rightarrow> string" where
  "quoted c = [CHR 0x27, c, CHR 0x27]"

text \<open>\<open>net.SplitHostPort\<close>: the port follows the last colon; a bracketed host must close
  just before it; the host of an unbracketed address has no colon.\<close>

definition SplitHostPort :: "string \<Rightarrow> error + string \<times> string" where
  "SplitHostPort hp =
     (case lidx CHR '':'' hp of
        None \<Rightarrow> Inl (addr_err hp ''missing port in address'')
      | Some i \<Rightarrow>
          (let r =
             (if hp \<noteq> [] \<and> hd hp = CHR ''['' then
                (case idx CHR '']'' hp of
                   None \<Rightarrow> Inl (''missing '' @ quoted CHR '']'' @ '' in address'')
                 | Some e \<Rightarrow>
                     if e + 1 = length hp then Inl ''missing port in address''
                     else if e + 1 = i then Inr (take (e - 1) (drop 1 hp), 1, e + 1)
                     else if hp ! (e + 1) = CHR '':'' then Inl ''too many colons in address''
                     else Inl ''missing port in address'')
              else if CHR '':'' \<in> set (take i hp) then Inl ''too many colons in address''
              else Inr (take i hp, 0, 0))
           in case r of
                Inl why \<Rightarrow> Inl (addr_err hp why)
              | Inr (host, j, k) \<Rightarrow>
                  if CHR ''['' \<in> set (drop j hp) then
                    Inl (addr_err hp (''unexpected '' @ quoted CHR ''['' @ '' in address''))
                  else if CHR '']'' \<in> set (drop k hp) then
                    Inl (addr_err hp (''unexpected '' @ quoted CHR '']'' @ '' in address''))
                  else Inr (host, drop (i + 1) hp)))"

text \<open>\<open>getHost\<close> (lines 268-279): the host part of the API server URL.\<close>

definition getHost :: "url \<Rightarrow> error + string" where
  "getHost u =
     (if portOnly (Host u) \<noteq> [] then
        (case SplitHostPort (Host u) of Inl e \<Rightarrow> Inl e | Inr (h, p) \<Rightarrow> Inr h)
      else Inr (Host u))"

subsection \<open>Parsing the port: \<open>strconv.ParseInt(port, 10, 32)\<close>\<close>

definition num_error :: "string \<Rightarrow> string \<Rightarrow> error" where
  "num_error s why = ErrMsg (''strconv.ParseInt: parsing '' @ s @ '': '' @ why)"

text \<open>The digit loop of \<open>ParseUint\<close> for base 10 and bit size 32: a non-digit is a syntax
  error, a value above \<open>2^32 - 1\<close> a range error, whichever comes first. \<open>ParseInt\<close>
  reports either with the whole input; a range error of \<open>ParseUint\<close> is one of
  \<open>ParseInt\<close> as well, since the saturated value is beyond the int32 cut-off.\<close>

fun parse_uint32 :: "nat \<Rightarrow> string \<Rightarrow> string + nat" where
  "parse_uint32 n [] = Inr n"
| "parse_uint32 n (c # cs) =
     (if \<not> is_digit c then Inl ''invalid syntax''
      else (let n' = n * 10 + (of_char c - 48) in
            if n' > 2 ^ 32 - 1 then Inl ''value out of range'' else parse_uint32 n' cs))"

definition ParseInt32 :: "string \<Rightarrow> error + int" where
  "ParseInt32 s =
     (if s = [] then Inl (num_error s ''invalid syntax'')
      else
        (let (neg, t) = (if hd s = CHR ''+'' then (False, tl s)
                         else if hd s = CHR ''-'' then (True, tl s) else (False, s)) in
         if t = [] then Inl (num_error s ''invalid syntax'')
         else
           (case parse_uint32 0 t of
              Inl why \<Rightarrow> Inl (num_error s why)
            | Inr un \<Rightarrow>
                if \<not> neg \<and> un \<ge> 2 ^ 31 then Inl (num_error s ''value out of range'')
                else if neg \<and> un > 2 ^ 31 then Inl (num_error s ''value out of range'')
                else Inr (if neg then - int un else int un))))"

subsection \<open>The package configuration and \<open>GetKubeadmCfg\<close>\<close>

text \<open>\<open>kubeadm.Config\<close> (lines 46-59); the etcd client configuration is flattened to the
  four fields \<open>GetKubeadmCfg\<close> reads.\<close>

record kcfg =
  EtcdEndpoints :: string
  EtcdCaFileName :: string
  EtcdClientCertFileName :: string
  EtcdClientKeyFileName :: string
  CaCert :: string
  CaKey :: string
  APIServer :: url
  KubeletID :: string
  CloudProvider :: string
  KubeVersion :: string
  MasterCount :: nat
  PodNetworkCidr :: string
  APIServerExtraArgs :: "string \<rightharpoonup> string"
  ControllerManagerExtraArgs :: "string \<rightharpoonup> string"
  SchedulerExtraArgs :: "string \<rightharpoonup> string"

text \<open>The two networking defaults of the keto-k8 constants package
  (\<open>constants.DefaultServiceDNSDomain\<close>, \<open>constants.DefaultServicesSubnet\<close>). That package
  is not part of the sources, so their values are a parameter of the wrapper.\<close>

record netconsts =
  DefaultServiceDNSDomain :: string
  DefaultServicesSubnet :: string

text \<open>The fields of \<open>kubeadmapi.MasterConfiguration\<close> that \<open>GetKubeadmCfg\<close> sets, with the
  zero values of \<open>&kubeadmapi.MasterConfiguration{}\<close>.\<close>

record master_cfg =
  mc_BindPort :: "32 word"
  mc_AdvertiseAddress :: string
  mc_EtcdEndpoints :: "string list"
  mc_EtcdCAFile :: string
  mc_EtcdCertFile :: string
  mc_EtcdKeyFile :: string
  mc_KubernetesVersion :: string
  mc_CertificatesDir :: string
  mc_CloudProvider :: string
  mc_DNSDomain :: string
  mc_ServiceSubnet :: string
  mc_PodSubnet :: string
  mc_APIServerExtraArgs :: "string \<rightharpoonup> string"
  mc_ControllerManagerExtraArgs :: "string \<rightharpoonup> string"
  mc_SchedulerExtraArgs :: "string \<rightharpoonup> string"

definition empty_master_cfg :: master_cfg where
  "empty_master_cfg =
     \<lparr>mc_BindPort = 0, mc_AdvertiseAddress = [], mc_EtcdEndpoints = [], mc_EtcdCAFile = [],
      mc_EtcdCertFile = [], mc_EtcdKeyFile = [], mc_KubernetesVersion = [], mc_CertificatesDir = [],
      mc_CloudProvider = [], mc_DNSDomain = [], mc_ServiceSubnet = [], mc_PodSubnet = [], mc_APIServerExtraArgs = Map.empty,
      mc_ControllerManagerExtraArgs = Map.empty, mc_SchedulerExtraArgs = Map.empty\<rparr>"

text \<open>\<open>GetKubeadmCfg\<close> (lines 198-234). Like the source it returns the configuration built
  so far together with the error.\<close>

definition GetKubeadmCfg :: "netconsts \<Rightarrow> kcfg \<Rightarrow> master_cfg \<times> error option" where
  "GetKubeadmCfg nc k =
     (let port = portOnly (Host (APIServer k)) in
      case (if port = [] then Inr 443 else ParseInt32 port) of
        Inl e \<Rightarrow> (empty_master_cfg, Some e)
      | Inr i64 \<Rightarrow>
          (let c1 = empty_master_cfg\<lparr>mc_BindPort := word_of_int i64\<rparr> in
           case getHost (APIServer k) of
             Inl e \<Rightarrow> (c1, Some e)
           | Inr h \<Rightarrow>
               (let c2 = c1\<lparr>mc_AdvertiseAddress := h\<rparr>;
                    c3 = (if EtcdEndpoints k \<noteq> [] then
                            c2\<lparr>mc_EtcdEndpoints := split_on CHR '','' (EtcdEndpoints k),
                               mc_EtcdCAFile := EtcdCaFileName k,
                               mc_EtcdCertFile := EtcdClientCertFileName k,
                               mc_EtcdKeyFile := EtcdClientKeyFileName k\<rparr>
                          else c2);
                    c4 = (if KubeVersion k \<noteq> [] then c3\<lparr>mc_KubernetesVersion := KubeVersion k\<rparr> else c3)
                in (c4\<lparr>mc_CertificatesDir := KubernetesDir @ ''/pki'',
                       mc_CloudProvider := CloudProvider k,
                       mc_DNSDomain := DefaultServiceDNSDomain nc,
                       mc_ServiceSubnet := DefaultServicesSubnet nc,
                       mc_PodSubnet := PodNetworkCidr k,
                       mc_APIServerExtraArgs := APIServerExtraArgs k,
                       mc_ControllerManagerExtraArgs := ControllerManagerExtraArgs k,
                       mc_SchedulerExtraArgs := SchedulerExtraArgs k\<rparr>, None))))"

subsection \<open>Running kubeadm\<close>

text \<open>The environment of the wrapper: \<open>exec.Command("kubeadm", args).CombinedOutput()\<close>
  (\<open>runKubeadm\<close>, lines 257-266) as a function from the arguments to the output and the
  error, \<open>os.Hostname\<close>, \<open>ioutil.WriteFile\<close> by path, and
  \<open>master.WriteStaticPodManifests\<close>, with the constants package.\<close>

record kenv =
  kubeadm_run :: "string list \<Rightarrow> string \<times> error option"
  hostname :: "error + string"
  write_file :: "string \<Rightarrow> error option"
  static_pods :: "master_cfg \<Rightarrow> nat \<Rightarrow> error option"
  net_consts :: netconsts

datatype kev = Exec "string list" | Write write_op

definition cmdOptsCerts :: "string list" where
  "cmdOptsCerts = [''alpha'', ''phase'', ''certs'', ''selfsign'', ''--apiserver-advertise-address'',
                   ''0.0.0.0'', ''--cert-altnames'']"

definition cmdOptsKubeconfig :: "string list" where
  "cmdOptsKubeconfig = [''alpha'', ''phase'', ''kubeconfig'', ''client-certs'']"

text \<open>\<open>CreatePKI\<close> (lines 155-165).\<close>

definition kubeadm_CreatePKI :: "kenv \<Rightarrow> kcfg \<Rightarrow> error option \<times> kev list" where
  "kubeadm_CreatePKI env k =
     (case getHost (APIServer k) of
        Inl e \<Rightarrow> (Some e, [])
      | Inr h \<Rightarrow> (snd (kubeadm_run env (cmdOptsCerts @ [h])), [Exec (cmdOptsCerts @ [h])]))"

definition kubecfg_args :: "kcfg \<Rightarrow> string \<Rightarrow> string \<Rightarrow> string list" where
  "kubecfg_args k cn org =
     cmdOptsKubeconfig @ [''--client-name'', cn, ''--server'', url_String (APIServer k)]
     @ (if org \<noteq> [] then [''--organization'', org] else [])"

text \<open>\<open>createAKubeCfg\<close> (lines 237-255): run kubeadm, then save its output as the
  kubeconfig file with mode 0600.\<close>

definition createAKubeCfg :: "kenv \<Rightarrow> kcfg \<Rightarrow> string \<Rightarrow> string \<Rightarrow> string \<Rightarrow> error option \<times> kev list" where
  "createAKubeCfg env k file cn org =
     (let args = kubecfg_args k cn org;
          (out, err) = kubeadm_run env args
      in if err \<noteq> None then (Some (ErrMsg (''Error running kubeadm:'' @ out)), [Exec args])
         else (let w = \<lparr>wpath = KubernetesDir @ ''/'' @ file, wdata = out, wperm = 384\<rparr> in
               (write_file env (wpath w), [Exec args, Write w])))"

text \<open>The four kubeconfig files, with the kubeadm constant names and groups.\<close>

definition kubeconfigs :: "kcfg \<Rightarrow> (string \<times> string \<times> string) list" where
  "kubeconfigs k =
     [(''admin.conf'', ''kubernetes-admin'', ''system:masters''),
      (''kubelet.conf'', ''system:node:'' @ KubeletID k, ''system:nodes''),
      (''controller-manager.conf'', ''system:kube-controller-manager'', []),
      (''scheduler.conf'', ''system:kube-scheduler'', [])]"

fun create_all :: "kenv \<Rightarrow> kcfg \<Rightarrow> (string \<times> string \<times> string) list \<Rightarrow> error option \<times> kev list" where
  "create_all env k [] = (None, [])"
| "create_all env k ((f, cn, org) # rest) =
     (case createAKubeCfg env k f cn org of
        (Some e, ev) \<Rightarrow> (Some e, ev)
      | (None, ev) \<Rightarrow> (let (r, ev') = create_all env k rest in (r, ev @ ev')))"

text \<open>\<open>CreateKubeConfig\<close> (lines 168-194). The receiver is a pointer: the hostname it
  fills in for an empty \<open>KubeletID\<close> stays in the configuration, which is returned.\<close>

definition kubeadm_CreateKubeConfig :: "kenv \<Rightarrow> kcfg \<Rightarrow> kcfg \<times> error option \<times> kev list" where
  "kubeadm_CreateKubeConfig env k =
     (if KubeletID k = [] then
        (case hostname env of
           Inl e \<Rightarrow> (k, Some e, [])
         | Inr h \<Rightarrow> (let k' = k\<lparr>KubeletID := h\<rparr> in (k', create_all env k' (kubeconfigs k'))))
      else (k, create_all env k (kubeconfigs k)))"

text \<open>\<open>WriteManifests\<close> (\<open>manifests.go\<close>, lines 9-16).\<close>

definition kubeadm_WriteManifests :: "kenv \<Rightarrow> kcfg \<Rightarrow> error option" where
  "kubeadm_WriteManifests env k =
     (case GetKubeadmCfg (net_consts env) k of
        (c, Some e) \<Rightarrow> Some e
      | (c, None) \<Rightarrow> static_pods env c (MasterCount k))"

text \<open>\<open>net.JoinHostPort\<close>, the inverse the tests of a host:port split are stated with: a
  host with a colon (an IPv6 literal) is bracketed.\<close>

definition JoinHostPort :: "string \<Rightarrow> string \<Rightarrow> string" where
  "JoinHostPort h p = (if CHR '':'' \<in> set h then CHR ''['' # h @ '']:'' @ p else h @ CHR '':'' # p)"

text \<open>A configuration whose API server is \<open>https://\<close> followed by the given host, every
  other field empty; the witnesses below use it.\<close>

definition kcfg_with_host :: "string \<Rightarrow> kcfg" where
  "kcfg_with_host h =
     \<lparr>EtcdEndpoints = [], EtcdCaFileName = [], EtcdClientCertFileName = [], EtcdClientKeyFileName = [],
      CaCert = [], CaKey = [], APIServer = \<lparr>Scheme = ''https'', Host = h, Path = []\<rparr>, KubeletID = [],
      CloudProvider = [], KubeVersion = [], MasterCount = 1, PodNetworkCidr = [],
      APIServerExtraArgs = Map.empty, ControllerManagerExtraArgs = Map.empty,
      SchedulerExtraArgs = Map.empty\<rparr>"

subsection \<open>Lemmas\<close>

lemma ParseInt32_range: "ParseInt32 s = Inr i \<Longrightarrow> - (2 ^ 31) \<le> i \<and> i < 2 ^ 31"
  by (auto simp: ParseInt32_def Let_def split: if_splits sum.splits prod.splits)

lemma sint_int32: "- (2 ^ 31) \<le> i \<Longrightarrow> i < 2 ^ 31 \<Longrightarrow> sint (word_of_int i :: 32 word) = i"
  by (simp add: sint_sbintrunc' signed_take_bit_int_eq_self)

lemma GetKubeadmCfg_port:
  assumes "GetKubeadmCfg nc k = (c, None)"
  obtains i where "(if portOnly (Host (APIServer k)) = [] then Inr 443 else ParseInt32 (portOnly (Host (APIServer k)))) = Inr i"
    and "mc_BindPort c = word_of_int i"
  using assms by (auto simp: GetKubeadmCfg_def Let_def split: sum.splits if_splits)

lemma idx_None: "idx c s = None \<longleftrightarrow> c \<notin> set s"
  by (induction s) auto

lemma idx_append:
  "idx c (xs @ ys) = (if c \<in> set xs then idx c xs else map_option ((+) (length xs)) (idx c ys))"
proof (induction xs)
  case Nil
  show ?case by (cases "idx c ys") simp_all
next
  case (Cons x xs)
  then show ?case by (auto simp: option.map_comp comp_def)
qed

lemma lidx_snoc: "c \<notin> set ys \<Longrightarrow> lidx c (xs @ c # ys) = Some (length xs)"
  by (simp add: lidx_def idx_append idx_None)

lemma sidx_absent: "c \<notin> set s \<Longrightarrow> sidx (c # q) s = None"
  by (induction s) auto

lemma sidx_at:
  "c \<notin> set xs \<Longrightarrow> take (length q) ys = q \<Longrightarrow> sidx (c # q) (xs @ c # ys) = Some (length xs)"
  by (induction xs) auto

lemma digits_no_sep:
  "\<forall>c\<in>set p. is_digit c \<Longrightarrow> CHR '':'' \<notin> set p \<and> CHR ''['' \<notin> set p \<and> CHR '']'' \<notin> set p"
  by (auto simp: is_digit_def)

lemma split_join_plain:
  assumes "CHR '':'' \<notin> set h" "CHR ''['' \<notin> set h" "CHR '']'' \<notin> set h" "\<forall>c\<in>set p. is_digit c"
  shows "portOnly (h @ CHR '':'' # p) = p \<and> SplitHostPort (h @ CHR '':'' # p) = Inr (h, p)"
proof -
  from assms(4) have np: "CHR '':'' \<notin> set p" "CHR ''['' \<notin> set p" "CHR '']'' \<notin> set p"
    by (simp_all add: digits_no_sep)
  have "hd (h @ CHR '':'' # p) \<noteq> CHR ''[''" using assms(2) by (cases h) auto
  moreover have "idx CHR '':'' (h @ CHR '':'' # p) = Some (length h)"
    using assms(1) by (simp add: idx_append idx_None)
  moreover have "sidx '']:'' (h @ CHR '':'' # p) = None"
    using assms(3) np(3) by (simp add: sidx_absent)
  ultimately show ?thesis
    using assms(1-3) np by (simp add: portOnly_def SplitHostPort_def lidx_snoc)
qed

lemma split_join_bracketed:
  assumes "CHR ''['' \<notin> set h" "CHR '']'' \<notin> set h" "p \<noteq> []" "\<forall>c\<in>set p. is_digit c"
  shows "portOnly (CHR ''['' # h @ '']:'' @ p) = p \<and> SplitHostPort (CHR ''['' # h @ '']:'' @ p) = Inr (h, p)"
proof -
  let ?s = "CHR ''['' # h @ '']:'' @ p"
  from assms(4) have np: "CHR '':'' \<notin> set p" "CHR ''['' \<notin> set p" "CHR '']'' \<notin> set p"
    by (simp_all add: digits_no_sep)
  have s1: "?s = (CHR ''['' # h) @ CHR '']'' # CHR '':'' # p" by simp
  have s2: "?s = (CHR ''['' # h @ [CHR '']'']) @ CHR '':'' # p" by simp
  have "sidx '']:'' ?s = Some (Suc (length h))"
    using sidx_at [of "CHR '']''" "CHR ''['' # h" "'':''" "CHR '':'' # p"] assms(2) s1 by simp
  moreover have "lidx CHR '':'' ?s = Some (Suc (Suc (length h)))"
    using lidx_snoc [OF np(1), of "CHR ''['' # h @ [CHR '']'']"] s2 by simp
  moreover have "idx CHR '']'' ?s = Some (Suc (length h))"
    using assms(2) by (simp add: idx_append idx_None)
  moreover have "idx CHR '':'' ?s \<noteq> None"
    by (simp add: idx_None)
  ultimately show ?thesis
    using assms(1-3) np by (auto simp: portOnly_def SplitHostPort_def)
qed

lemma create_all_ok_iff:
  "fst (create_all env k cs) = None \<longleftrightarrow>
   (\<forall>(f, cn, org)\<in>set cs. snd (kubeadm_run env (kubecfg_args k cn org)) = None
                          \<and> write_file env (KubernetesDir @ ''/'' @ f) = None)"
proof (induction env k cs rule: create_all.induct)
  case (2 env k f cn org rest)
  then show ?case
    by (auto simp: createAKubeCfg_def Let_def split: prod.splits option.splits if_splits)
qed simp

lemma create_all_ok:
  assumes "\<forall>a. snd (kubeadm_run env a) = None" "\<forall>path. write_file env path = None"
  shows "create_all env k cs =
    (None, concat (map (\<lambda>(f, cn, org). [Exec (kubecfg_args k cn org),
       Write \<lparr>wpath = KubernetesDir @ ''/'' @ f, wdata = fst (kubeadm_run env (kubecfg_args k cn org)),
              wperm = 384\<rparr>]) cs))"
  using assms
proof (induction env k cs rule: create_all.induct)
  case (2 env k f cn org rest)
  obtain out where o: "kubeadm_run env (kubecfg_args k cn org) = (out, None)"
    using 2(2) by (metis prod.collapse)
  with 2 show ?case by (simp add: createAKubeCfg_def Let_def)
qed simp

subsection \<open>Properties of the wrapper\<close>

text \<open>
  C20. The API bind port never wraps: when \<open>GetKubeadmCfg\<close> succeeds, the \<open>int32\<close>
  \<open>BindPort\<close> read as a signed value is 443 when the URL has no port, and otherwise exactly
  the value \<open>strconv.ParseInt(port, 10, 32)\<close> returned, so the conversion \<open>int32(i64)\<close>
  of line 209 loses nothing. No other bound is applied: the witness accepts port 99999,
  beyond the TCP range.
\<close>

theorem bind_port_exact:
  assumes "GetKubeadmCfg nc k = (c, None)"
  shows "(portOnly (Host (APIServer k)) = [] \<and> sint (mc_BindPort c) = 443)
       \<or> (portOnly (Host (APIServer k)) \<noteq> [] \<and> ParseInt32 (portOnly (Host (APIServer k))) = Inr (sint (mc_BindPort c)))"
proof -
  from assms obtain i where i: "(if portOnly (Host (APIServer k)) = [] then Inr 443 else ParseInt32 (portOnly (Host (APIServer k)))) = Inr i"
    and b: "mc_BindPort c = word_of_int i" by (rule GetKubeadmCfg_port)
  show ?thesis
  proof (cases "portOnly (Host (APIServer k)) = []")
    case True
    with i b show ?thesis by simp
  next
    case False
    with i have p: "ParseInt32 (portOnly (Host (APIServer k))) = Inr i" by simp
    then have "sint (mc_BindPort c) = i" using b ParseInt32_range [OF p] by (simp add: sint_int32)
    with False p show ?thesis by simp
  qed
qed

theorem bind_port_exact_witness:
  "GetKubeadmCfg \<lparr>DefaultServiceDNSDomain = ''cluster.local'', DefaultServicesSubnet = ''10.96.0.0/12''\<rparr> (kcfg_with_host ''master:99999'') = (fst (GetKubeadmCfg \<lparr>DefaultServiceDNSDomain = ''cluster.local'', DefaultServicesSubnet = ''10.96.0.0/12''\<rparr> (kcfg_with_host ''master:99999'')), None)
   \<and> ParseInt32 ''99999'' = Inr (sint (mc_BindPort (fst (GetKubeadmCfg \<lparr>DefaultServiceDNSDomain = ''cluster.local'', DefaultServicesSubnet = ''10.96.0.0/12''\<rparr> (kcfg_with_host ''master:99999'')))))
   \<and> sint (mc_BindPort (fst (GetKubeadmCfg \<lparr>DefaultServiceDNSDomain = ''cluster.local'', DefaultServicesSubnet = ''10.96.0.0/12''\<rparr> (kcfg_with_host ''master:99999'')))) = 99999"
proof -
  have g: "GetKubeadmCfg \<lparr>DefaultServiceDNSDomain = ''cluster.local'', DefaultServicesSubnet = ''10.96.0.0/12''\<rparr> (kcfg_with_host ''master:99999'') = (fst (GetKubeadmCfg \<lparr>DefaultServiceDNSDomain = ''cluster.local'', DefaultServicesSubnet = ''10.96.0.0/12''\<rparr> (kcfg_with_host ''master:99999'')), None)"
    by (simp add: GetKubeadmCfg_def kcfg_with_host_def portOnly_def getHost_def SplitHostPort_def
                  lidx_def ParseInt32_def is_digit_def Let_def)
  have "portOnly ''master:99999'' = ''99999''" by (simp add: portOnly_def)
  moreover have "ParseInt32 ''99999'' = Inr 99999"
    by (simp add: ParseInt32_def is_digit_def)
  ultimately show ?thesis using bind_port_exact [OF g] g by (simp add: kcfg_with_host_def)
qed

text \<open>
  C21. \<open>getHost\<close> inverts \<open>net.JoinHostPort\<close>: for a host without brackets (a name, an
  IPv4 address or an IPv6 literal, which is bracketed) and a non-empty decimal port,
  \<open>URL.Port\<close> returns the port, \<open>SplitHostPort\<close> returns host and port, and \<open>getHost\<close>
  returns the host.
\<close>

theorem getHost_JoinHostPort:
  assumes "CHR ''['' \<notin> set h" "CHR '']'' \<notin> set h" "p \<noteq> []" "\<forall>c\<in>set p. is_digit c"
  shows "portOnly (JoinHostPort h p) = p \<and> SplitHostPort (JoinHostPort h p) = Inr (h, p)
       \<and> getHost (u\<lparr>Host := JoinHostPort h p\<rparr>) = Inr h"
proof -
  have "portOnly (JoinHostPort h p) = p \<and> SplitHostPort (JoinHostPort h p) = Inr (h, p)"
  proof (cases "CHR '':'' \<in> set h")
    case True
    with split_join_bracketed [OF assms] show ?thesis by (simp add: JoinHostPort_def)
  next
    case False
    with split_join_plain [OF False assms(1,2,4)] show ?thesis by (simp add: JoinHostPort_def)
  qed
  with assms(3) show ?thesis by (simp add: getHost_def)
qed

theorem getHost_JoinHostPort_witness:
  "portOnly (JoinHostPort ''fe80::1'' ''6443'') = ''6443''
   \<and> SplitHostPort (JoinHostPort ''fe80::1'' ''6443'') = Inr (''fe80::1'', ''6443'')
   \<and> getHost (\<lparr>Scheme = ''https'', Host = [], Path = []\<rparr>\<lparr>Host := JoinHostPort ''fe80::1'' ''6443''\<rparr>) = Inr ''fe80::1''"
  by (rule getHost_JoinHostPort) (simp_all add: is_digit_def)

text \<open>
  C22. \<open>CreateKubeConfig\<close> with an empty \<open>KubeletID\<close>, a hostname and every kubeadm run
  and write succeeding records the hostname in the configuration and, in order, runs
  \<open>kubeadm alpha phase kubeconfig client-certs\<close> for the admin, the kubelet
  (\<open>system:node:\<close> and the hostname, group \<open>system:nodes\<close>), the controller manager and the
  scheduler, each against the API server URL, and saves each output under
  \<open>/etc/kubernetes\<close> with mode 0600.
\<close>

theorem create_kubeconfig_identity:
  assumes "KubeletID k = []" "hostname env = Inr h"
    and "\<forall>a. snd (kubeadm_run env a) = None" "\<forall>path. write_file env path = None"
  shows "kubeadm_CreateKubeConfig env k =
    (k\<lparr>KubeletID := h\<rparr>, None,
     concat (map (\<lambda>(f, cn, org). [Exec (kubecfg_args k cn org),
       Write \<lparr>wpath = KubernetesDir @ ''/'' @ f, wdata = fst (kubeadm_run env (kubecfg_args k cn org)),
              wperm = 384\<rparr>])
       [(''admin.conf'', ''kubernetes-admin'', ''system:masters''),
        (''kubelet.conf'', ''system:node:'' @ h, ''system:nodes''),
        (''controller-manager.conf'', ''system:kube-controller-manager'', []),
        (''scheduler.conf'', ''system:kube-scheduler'', [])]))"
proof -
  have "kubecfg_args (k\<lparr>KubeletID := h\<rparr>) = kubecfg_args k"
    by (simp add: kubecfg_args_def fun_eq_iff)
  with assms show ?thesis
    by (simp add: kubeadm_CreateKubeConfig_def create_all_ok kubeconfigs_def del: create_all.simps)
qed

theorem create_kubeconfig_identity_witness:
  "kubeadm_CreateKubeConfig
     \<lparr>kubeadm_run = (\<lambda>a. (''cfg'', None)), hostname = Inr ''node1'', write_file = (\<lambda>_. None),
      static_pods = (\<lambda>_ _. None),
        net_consts = \<lparr>DefaultServiceDNSDomain = ''cluster.local'', DefaultServicesSubnet = ''10.96.0.0/12''\<rparr>\<rparr> (kcfg_with_host ''master:6443'') =
   ((kcfg_with_host ''master:6443'')\<lparr>KubeletID := ''node1''\<rparr>, None,
     concat (map (\<lambda>(f, cn, org). [Exec (kubecfg_args (kcfg_with_host ''master:6443'') cn org),
       Write \<lparr>wpath = KubernetesDir @ ''/'' @ f, wdata = ''cfg'', wperm = 384\<rparr>])
       [(''admin.conf'', ''kubernetes-admin'', ''system:masters''),
        (''kubelet.conf'', ''system:node:node1'', ''system:nodes''),
        (''controller-manager.conf'', ''system:kube-controller-manager'', []),
        (''scheduler.conf'', ''system:kube-scheduler'', [])]))"
  using create_kubeconfig_identity [of "kcfg_with_host ''master:6443''"
      "\<lparr>kubeadm_run = (\<lambda>a. (''cfg'', None)), hostname = Inr ''node1'', write_file = (\<lambda>_. None),
        static_pods = (\<lambda>_ _. None),
        net_consts = \<lparr>DefaultServiceDNSDomain = ''cluster.local'', DefaultServicesSubnet = ''10.96.0.0/12''\<rparr>\<rparr>" "''node1''"]
  by (simp add: kcfg_with_host_def)

text \<open>
  C23. Error behaviour of \<open>CreateKubeConfig\<close>: it succeeds exactly when the hostname is
  available (if it is needed) and every one of the four kubeadm runs and kubeconfig writes
  succeeds; the first failure ends it.
\<close>

theorem create_kubeconfig_ok_iff:
  "fst (snd (kubeadm_CreateKubeConfig env k)) = None \<longleftrightarrow>
   (KubeletID k = [] \<longrightarrow> (\<exists>h. hostname env = Inr h))
   \<and> (\<forall>(f, cn, org)\<in>set (kubeconfigs (fst (kubeadm_CreateKubeConfig env k))).
        snd (kubeadm_run env (kubecfg_args (fst (kubeadm_CreateKubeConfig env k)) cn org)) = None
        \<and> write_file env (KubernetesDir @ ''/'' @ f) = None)"
  by (auto simp: kubeadm_CreateKubeConfig_def Let_def create_all_ok_iff split: sum.splits)

theorem create_kubeconfig_ok_iff_witness:
  "fst (snd (kubeadm_CreateKubeConfig
     \<lparr>kubeadm_run = (\<lambda>a. (''boom'', Some ErrUnavailable)), hostname = Inr ''node1'',
      write_file = (\<lambda>_. None), static_pods = (\<lambda>_ _. None),
        net_consts = \<lparr>DefaultServiceDNSDomain = ''cluster.local'', DefaultServicesSubnet = ''10.96.0.0/12''\<rparr>\<rparr> (kcfg_with_host ''master:6443''))) \<noteq> None"
proof -
  let ?env = "\<lparr>kubeadm_run = (\<lambda>a. (''boom'', Some ErrUnavailable)), hostname = Inr ''node1'',
      write_file = (\<lambda>_. None), static_pods = (\<lambda>_ _. None),
        net_consts = \<lparr>DefaultServiceDNSDomain = ''cluster.local'', DefaultServicesSubnet = ''10.96.0.0/12''\<rparr>\<rparr>"
  let ?k = "kcfg_with_host ''master:6443''"
  have "\<not> (\<forall>(f, cn, org)\<in>set (kubeconfigs (fst (kubeadm_CreateKubeConfig ?env ?k))).
        snd (kubeadm_run ?env (kubecfg_args (fst (kubeadm_CreateKubeConfig ?env ?k)) cn org)) = None
        \<and> write_file ?env (KubernetesDir @ ''/'' @ f) = None)"
    by (simp add: kubeconfigs_def) blast
  then show ?thesis using create_kubeconfig_ok_iff [of ?env ?k] by blast
qed

text \<open>
  C34. \<open>GetKubeadmCfg\<close> succeeds exactly when the API server URL's port is absent or
  parses as an int32 and its host can be extracted. On success:
  \<^item> the advertise address is that host;
  \<^item> the etcd settings are copied only when endpoints are configured (split at commas);
  \<^item> version, certificate directory, cloud provider, pod subnet and extra arguments come
    from the configuration;
  \<^item> the DNS domain and service subnet are the constants package's defaults.
  On an error the partial configuration is returned without the networking defaults.
\<close>

theorem GetKubeadmCfg_ok_iff:
  "(snd (GetKubeadmCfg nc k) = None \<longleftrightarrow>
      (portOnly (Host (APIServer k)) = [] \<or> (\<exists>i. ParseInt32 (portOnly (Host (APIServer k))) = Inr i))
      \<and> (\<exists>h. getHost (APIServer k) = Inr h))
   \<and> (snd (GetKubeadmCfg nc k) = None \<longrightarrow>
        (let c = fst (GetKubeadmCfg nc k) in
         getHost (APIServer k) = Inr (mc_AdvertiseAddress c)
         \<and> mc_EtcdEndpoints c = (if EtcdEndpoints k = [] then [] else split_on CHR '','' (EtcdEndpoints k))
         \<and> mc_EtcdCAFile c = (if EtcdEndpoints k = [] then [] else EtcdCaFileName k)
         \<and> mc_KubernetesVersion c = KubeVersion k
         \<and> mc_CertificatesDir c = KubernetesDir @ ''/pki''
         \<and> mc_CloudProvider c = CloudProvider k
         \<and> mc_DNSDomain c = DefaultServiceDNSDomain nc
         \<and> mc_ServiceSubnet c = DefaultServicesSubnet nc
         \<and> mc_PodSubnet c = PodNetworkCidr k
         \<and> mc_APIServerExtraArgs c = APIServerExtraArgs k))
   \<and> (snd (GetKubeadmCfg nc k) \<noteq> None \<longrightarrow>
        mc_DNSDomain (fst (GetKubeadmCfg nc k)) = [] \<and> mc_ServiceSubnet (fst (GetKubeadmCfg nc k)) = [])"
  by (auto simp: GetKubeadmCfg_def Let_def empty_master_cfg_def split: sum.splits)

theorem GetKubeadmCfg_ok_iff_witness:
  "snd (GetKubeadmCfg \<lparr>DefaultServiceDNSDomain = ''cluster.local'', DefaultServicesSubnet = ''10.96.0.0/12''\<rparr> (kcfg_with_host ''master:6443'')) = None
   \<and> mc_AdvertiseAddress (fst (GetKubeadmCfg \<lparr>DefaultServiceDNSDomain = ''cluster.local'', DefaultServicesSubnet = ''10.96.0.0/12''\<rparr> (kcfg_with_host ''master:6443''))) = ''master''
   \<and> mc_DNSDomain (fst (GetKubeadmCfg \<lparr>DefaultServiceDNSDomain = ''cluster.local'', DefaultServicesSubnet = ''10.96.0.0/12''\<rparr> (kcfg_with_host ''master:6443''))) = ''cluster.local''"
proof -
  have p: "ParseInt32 (portOnly ''master:6443'') = Inr 6443"
    by (simp add: portOnly_def lidx_def ParseInt32_def is_digit_def)
  have h: "getHost (APIServer (kcfg_with_host ''master:6443'')) = Inr ''master''"
    by (simp add: getHost_def kcfg_with_host_def portOnly_def SplitHostPort_def lidx_def)
  show ?thesis
    using GetKubeadmCfg_ok_iff [of "\<lparr>DefaultServiceDNSDomain = ''cluster.local'', DefaultServicesSubnet = ''10.96.0.0/12''\<rparr>" "kcfg_with_host ''master:6443''"] p h
    by (simp add: kcfg_with_host_def Let_def)
qed

end
