(* ===== verification/Kmm.thy ===== *)
theory Kmm
  imports Kubeadm
begin

text \<open>
  The methods of \<open>Kmm\<close> and the compute-node entry point in \<open>src/unnamed/part_000\<close>:
  \<open>stringToMap\<close>, \<open>UpdateCloudCfg\<close>, \<open>InstallNetwork\<close>, \<open>CopyKubeCa\<close>,
  \<open>TokensDeploy\<close> and \<open>SetupCompute\<close>, with \<open>k8client.Create\<close> of
  \<open>src/pkg/k8client/client.go\<close>. The cloud provider, \<open>url.Parse\<close>, the network and token
  packages, the file system and the kubectl binary are oracles of an environment record.
  \<open>UpdateCloudCfg\<close> works on its view of the configuration, \<open>cloud_view\<close>, in which the
  API server is the \<open>*url.URL\<close> pointer of \<open>kubeadm.Config\<close> and may be nil.
\<close>

subsection \<open>\<open>stringToMap\<close>\<close>

text \<open>\<open>strings.FieldsFunc(s, f)\<close>: the maximal runs of characters not satisfying \<open>f\<close>.\<close>

fun fields_acc :: "(char \<Rightarrow> bool) \<Rightarrow> string \<Rightarrow> string \<Rightarrow> string list" where
  "fields_acc f cur [] = (if cur = [] then [] else [rev cur])"
| "fields_acc f cur (c # cs) =
     (if f c then (if cur = [] then fields_acc f [] cs else rev cur # fields_acc f [] cs)
      else fields_acc f (c # cur) cs)"

definition FieldsFunc :: "string \<Rightarrow> (char \<Rightarrow> bool) \<Rightarrow> string list" where
  "FieldsFunc s f = fields_acc f [] s"

definition arg_sep :: "char \<Rightarrow> bool" where
  "arg_sep c \<longleftrightarrow> c = CHR ''='' \<or> c = CHR '' ''"

text \<open>One element of the comma-separated list (lines 332-339).\<close>

definition add_arg :: "string \<Rightarrow> (string \<rightharpoonup> string) \<Rightarrow> (string \<rightharpoonup> string)" where
  "add_arg arg m =
     (case FieldsFunc arg arg_sep of
        [k, v] \<Rightarrow> m(k \<mapsto> v)
      | [k] \<Rightarrow> m(k \<mapsto> [])
      | _ \<Rightarrow> m)"

definition stringToMap :: "string \<Rightarrow> (string \<rightharpoonup> string)" where
  "stringToMap args = fold add_arg (split_on CHR '','' args) Map.empty"

text \<open>The comma-separated \<open>key=value\<close> text a cloud provider gives for a map of
  arguments (a key alone stands for an empty value); \<open>stringToMap\<close> reads it back.\<close>

definition arg_text :: "string \<times> string \<Rightarrow> string" where
  "arg_text kv = (if snd kv = [] then fst kv else fst kv @ CHR ''='' # snd kv)"

fun join_args :: "(string \<times> string) list \<Rightarrow> string" where
  "join_args [] = []"
| "join_args [kv] = arg_text kv"
| "join_args (kv # kvs) = arg_text kv @ CHR '','' # join_args kvs"

text \<open>A comma-separated list of raw arguments, as a cloud provider writes it.\<close>

fun join_commas :: "string list \<Rightarrow> string" where
  "join_commas [] = []"
| "join_commas [a] = a"
| "join_commas (a # as) = a @ CHR '','' # join_commas as"

definition arg_ok :: "string \<times> string \<Rightarrow> bool" where
  "arg_ok kv \<longleftrightarrow> fst kv \<noteq> [] \<and> (\<forall>c\<in>set (fst kv @ snd kv). c \<noteq> CHR '','' \<and> \<not> arg_sep c)"

subsection \<open>\<open>UpdateCloudCfg\<close>\<close>

text \<open>\<open>cloudprovider.NodeData\<close> as the cloud returns it.\<close>

record node_data =
  nd_ClusterName :: string
  nd_KubeAPIURL :: string
  nd_KubeVersion :: string
  nd_Labels :: "string \<rightharpoonup> string"
  nd_Taints :: "string \<rightharpoonup> string"
  nd_APIServerExtraArgs :: string
  nd_ControllerManagerExtraArgs :: string
  nd_SchedulerExtraArgs :: string
  nd_KubeletExtraArgs :: string

text \<open>The fields of \<open>ConfigType\<close> and of the shared \<open>kubeadm.Config\<close> that \<open>UpdateCloudCfg\<close>
  reads or writes.\<close>

record cloud_view =
  cv_CloudProvider :: string
  cv_ClusterName :: string
  cv_APIServer :: "url option"
  cv_KubeVersion :: string
  cv_NodeLabels :: "string \<rightharpoonup> string"
  cv_NodeTaints :: "string \<rightharpoonup> string"
  cv_APIServerExtraArgs :: "string \<rightharpoonup> string"
  cv_ControllerManagerExtraArgs :: "string \<rightharpoonup> string"
  cv_SchedulerExtraArgs :: "string \<rightharpoonup> string"
  cv_KubeletExtraArgs :: string

text \<open>The oracles: \<open>getNodeInterface\<close>, \<open>GetNodeData\<close>, \<open>url.Parse\<close>,
  \<open>tokens.WriteKetoTokenEnv\<close> and \<open>CreateAndStartKubelet\<close>.\<close>

record cloud_env =
  node_interface :: "string \<Rightarrow> error option"
  node_data_of :: "string \<Rightarrow> error + node_data"
  url_parse :: "string \<Rightarrow> error + url"
  write_token_env :: "string \<Rightarrow> string \<Rightarrow> error option"
  start_kubelet :: "bool \<Rightarrow> error option"

definition UpdateCloudCfg :: "cloud_env \<Rightarrow> cloud_view \<Rightarrow> cloud_view \<times> error option" where
  "UpdateCloudCfg ce v =
     (if cv_CloudProvider v = [] then (v, None)
      else
        (case node_interface ce (cv_CloudProvider v) of
           Some e \<Rightarrow> (v, Some e)
         | None \<Rightarrow>
             (case node_data_of ce (cv_CloudProvider v) of
                Inl e \<Rightarrow> (v, Some (ErrMsg ''error getting node data from cloud provider''))
              | Inr nd \<Rightarrow>
                  (let v1 = v\<lparr>cv_ClusterName := nd_ClusterName nd\<rparr> in
                   case url_parse ce (nd_KubeAPIURL nd) of
                     Inl e \<Rightarrow> (v1, Some (ErrMsg (''error parsing Api server '' @ nd_KubeAPIURL nd)))
                   | Inr u \<Rightarrow>
                       if nd_KubeAPIURL nd = [] then
                         (v1, Some (ErrMsg (''empty API server ['' @ nd_KubeAPIURL nd @ ''] obtained from cloud provider'')))
                       else
                         (let v2 = v1\<lparr>cv_APIServer := Some u, cv_KubeVersion := nd_KubeVersion nd\<rparr> in
                          if nd_KubeVersion nd = [] then
                            (v2, Some (ErrMsg (''error parsing kubeversion '' @ nd_KubeVersion nd)))
                          else
                            (v2\<lparr>cv_NodeLabels := nd_Labels nd, cv_NodeTaints := nd_Taints nd,
                                cv_APIServerExtraArgs := stringToMap (nd_APIServerExtraArgs nd),
                                cv_ControllerManagerExtraArgs := stringToMap (nd_ControllerManagerExtraArgs nd),
                                cv_SchedulerExtraArgs := stringToMap (nd_SchedulerExtraArgs nd),
                                cv_KubeletExtraArgs := nd_KubeletExtraArgs nd\<rparr>, None))))))"

subsection \<open>\<open>InstallNetwork\<close>, \<open>CopyKubeCa\<close>, \<open>TokensDeploy\<close>\<close>

text \<open>The host environment: \<open>network.CreateProvider\<close> and \<open>Provider.Create\<close>,
  \<open>tokens.Deploy\<close>, \<open>os.Stat\<close> read as \<open>os.IsNotExist\<close>, \<open>fileutil.CopyFile\<close> and
  \<open>fileutil.SymlinkFile\<close>.\<close>

record host_env =
  create_provider :: "string \<Rightarrow> error option"
  provider_create :: "string \<Rightarrow> error option"
  tokens_deploy :: "string \<Rightarrow> error option"
  stat_missing :: "string \<Rightarrow> bool"
  copy_file :: "string \<Rightarrow> string \<Rightarrow> error option"
  symlink_file :: "string \<Rightarrow> string \<Rightarrow> error option"

datatype fs_ev = Mkdir string | Copy string string | Symlink string string

definition InstallNetwork :: "host_env \<Rightarrow> string \<Rightarrow> error option" where
  "InstallNetwork he np =
     (case create_provider he np of Some e \<Rightarrow> Some e | None \<Rightarrow> provider_create he np)"

definition TokensDeploy :: "host_env \<Rightarrow> string \<Rightarrow> error option" where
  "TokensDeploy he clusterName = tokens_deploy he clusterName"

text \<open>\<open>CaCertFile\<close> and \<open>CaKeyFile\<close> of the kubeadm package (lines 38-42).\<close>

definition CaCertFile :: string where "CaCertFile = KubernetesDir @ ''/pki/ca.crt''"

definition CaKeyFile :: string where "CaKeyFile = KubernetesDir @ ''/pki/ca.key''"

text \<open>\<open>CopyKubeCa\<close> (lines 255-276): the result of \<open>os.Mkdir\<close> is not checked, and a
  \<open>Stat\<close> error other than not-exist lets the copy go ahead.\<close>

definition CopyKubeCa :: "host_env \<Rightarrow> string \<Rightarrow> string \<Rightarrow> error option \<times> fs_ev list" where
  "CopyKubeCa he caCert caKey =
     (if stat_missing he caCert then (Some (ErrMsg (''kube CA cert not found at: '' @ caCert)), [])
      else if stat_missing he caKey then (Some (ErrMsg (''kube CA key not found at: '' @ caKey)), [])
      else
        (let ev0 = (if stat_missing he PkiDir then [Mkdir PkiDir] else []) in
         case copy_file he caCert CaCertFile of
           Some e \<Rightarrow> (Some e, ev0 @ [Copy caCert CaCertFile])
         | None \<Rightarrow> (symlink_file he caKey CaKeyFile, ev0 @ [Copy caCert CaCertFile, Symlink caKey CaKeyFile])))"

subsection \<open>\<open>SetupCompute\<close>\<close>

text \<open>How the compute entry point ends: it returns, a Go runtime panic aborts it, or it
  parks in \<open>for true {}\<close>.\<close>

datatype compute_outcome = Compute_Returns "error option" | Compute_Panics string | Compute_Parks

datatype compute_ev = WriteTokenEnv string string | StartKubelet bool

definition empty_view :: cloud_view where
  "empty_view =
     \<lparr>cv_CloudProvider = [], cv_ClusterName = [], cv_APIServer = None, cv_KubeVersion = [],
      cv_NodeLabels = Map.empty, cv_NodeTaints = Map.empty, cv_APIServerExtraArgs = Map.empty,
      cv_ControllerManagerExtraArgs = Map.empty, cv_SchedulerExtraArgs = Map.empty,
      cv_KubeletExtraArgs = []\<rparr>"

definition nil_deref :: string where
  "nil_deref = ''runtime error: invalid memory address or nil pointer dereference''"

text \<open>\<open>SetupCompute\<close> (lines 65-89): the configuration holds only the cloud provider, so
  the API server pointer is nil unless \<open>UpdateCloudCfg\<close> set it; \<open>String()\<close> on a nil
  \<open>*url.URL\<close> panics. The error of \<open>CreateAndStartKubelet(false)\<close> is discarded.\<close>

definition SetupCompute :: "cloud_env \<Rightarrow> string \<Rightarrow> bool \<Rightarrow> compute_outcome \<times> compute_ev list" where
  "SetupCompute ce cloud exitOnCompletion =
     (case UpdateCloudCfg ce (empty_view\<lparr>cv_CloudProvider := cloud\<rparr>) of
        (v, Some e) \<Rightarrow> (Compute_Returns (Some e), [])
      | (v, None) \<Rightarrow>
          (case cv_APIServer v of
             None \<Rightarrow> (Compute_Panics nil_deref, [])
           | Some u \<Rightarrow>
               (case write_token_env ce cloud (url_String u) of
                  Some e \<Rightarrow> (Compute_Returns (Some (ErrMsg ''error saving KetoTokenEnv'')),
                             [WriteTokenEnv cloud (url_String u)])
                | None \<Rightarrow>
                    (let r = start_kubelet ce False in
                     (if exitOnCompletion then Compute_Returns None else Compute_Parks,
                      [WriteTokenEnv cloud (url_String u), StartKubelet False])))))"

subsection \<open>\<open>k8client.Create\<close>\<close>

definition CmdKubectl :: string where "CmdKubectl = ''kubectl''"

text \<open>\<open>Create\<close> and \<open>runKubectl\<close> (\<open>client.go\<close>, lines 11-40): \<open>kubectl create -f -\<close> with
  the resource on standard input; \<open>kubectl\<close> gives the combined output and the error.\<close>

definition k8client_Create :: "(string list \<Rightarrow> string \<Rightarrow> string \<times> error option) \<Rightarrow> string \<Rightarrow> error option" where
  "k8client_Create kubectl resource =
     (case kubectl [''create'', ''-f'', ''-''] resource of
        (out, Some e) \<Rightarrow> Some (ErrMsg (''Error running kubectl:'' @ out))
      | (out, None) \<Rightarrow> None)"

subsection \<open>Lemmas\<close>

lemma split_on_no_sep: "c \<notin> set xs \<Longrightarrow> split_on c xs = [xs]"
  by (induction xs) auto

lemma split_on_sep: "c \<notin> set xs \<Longrightarrow> split_on c (xs @ c # ys) = xs # split_on c ys"
  by (induction xs) (auto split: list.splits)

lemma fields_acc_run:
  "\<forall>c\<in>set xs. \<not> f c \<Longrightarrow> fields_acc f cur (xs @ rest) = fields_acc f (rev xs @ cur) rest"
  by (induction xs arbitrary: cur) auto

lemma add_arg_text: "arg_ok kv \<Longrightarrow> add_arg (arg_text kv) m = m(fst kv \<mapsto> snd kv)"
proof -
  assume ok: "arg_ok kv"
  obtain k v where kv: "kv = (k, v)" by (cases kv)
  show ?thesis
  proof (cases "v = []")
    case True
    with ok kv have "FieldsFunc (arg_text kv) arg_sep = [k]"
      using fields_acc_run [of k arg_sep "[]" "[]"] by (auto simp: arg_ok_def arg_text_def FieldsFunc_def)
    with kv True show ?thesis by (simp add: add_arg_def)
  next
    case False
    from ok kv have "fields_acc arg_sep [] (k @ CHR ''='' # v) = fields_acc arg_sep (rev k) (CHR ''='' # v)"
      using fields_acc_run [of k arg_sep "[]"] by (simp add: arg_ok_def)
    also have "\<dots> = k # fields_acc arg_sep [] v"
      using ok kv by (simp add: arg_ok_def arg_sep_def)
    also have "\<dots> = [k, v]"
      using fields_acc_run [of v arg_sep "[]" "[]"] ok kv False by (simp add: arg_ok_def)
    finally show ?thesis using kv False by (simp add: add_arg_def FieldsFunc_def arg_text_def)
  qed
qed

lemma split_join_args:
  "kvs \<noteq> [] \<Longrightarrow> \<forall>kv\<in>set kvs. arg_ok kv \<Longrightarrow> split_on CHR '','' (join_args kvs) = map arg_text kvs"
proof (induction kvs rule: join_args.induct)
  case (2 kv)
  then have "CHR '','' \<notin> set (arg_text kv)" by (auto simp: arg_ok_def arg_text_def)
  then show ?case by (simp add: split_on_no_sep)
next
  case (3 kv kv' kvs)
  then have "CHR '','' \<notin> set (arg_text kv)" by (auto simp: arg_ok_def arg_text_def)
  with 3 show ?case by (simp add: split_on_sep)
qed simp

lemma fold_upd: "fold (\<lambda>kv m. m(fst kv \<mapsto> snd kv)) kvs m0 = m0 ++ map_of (rev kvs)"
  by (induction kvs arbitrary: m0) (auto simp: map_add_upd_left)

lemma fold_add_arg:
  "\<forall>kv\<in>set kvs. arg_ok kv \<Longrightarrow> fold add_arg (map arg_text kvs) m0 = m0 ++ map_of (rev kvs)"
proof -
  assume ok: "\<forall>kv\<in>set kvs. arg_ok kv"
  then have "fold add_arg (map arg_text kvs) m0 = fold (\<lambda>kv m. m(fst kv \<mapsto> snd kv)) kvs m0"
    by (induction kvs arbitrary: m0) (simp_all add: add_arg_text)
  then show ?thesis by (simp add: fold_upd)
qed

lemma split_join_commas:
  "as \<noteq> [] \<Longrightarrow> \<forall>a\<in>set as. CHR '','' \<notin> set a \<Longrightarrow> split_on CHR '','' (join_commas as) = as"
  by (induction as rule: join_commas.induct) (simp_all add: split_on_no_sep split_on_sep)

lemma add_arg_nested:
  assumes "arg_ok (k, v1)" "arg_ok (v2, [])" "v1 \<noteq> []"
  shows "add_arg (k @ CHR ''='' # v1 @ CHR ''='' # v2) = id"
proof -
  have "FieldsFunc (k @ CHR ''='' # v1 @ CHR ''='' # v2) arg_sep = [k, v1, v2]"
    using assms fields_acc_run [of k arg_sep "[]"] fields_acc_run [of v1 arg_sep "[]"]
      fields_acc_run [of v2 arg_sep "[]" "[]"]
    by (auto simp: FieldsFunc_def arg_ok_def arg_sep_def)
  then show ?thesis by (simp add: add_arg_def fun_eq_iff)
qed

subsection \<open>Properties\<close>

text \<open>
  C24. Round trip of \<open>stringToMap\<close>: the comma-separated \<open>key=value\<close> text of a list of
  arguments whose keys are non-empty and whose keys and values contain no comma, equals
  sign or space is read back as the map of those arguments, a later duplicate key winning.
\<close>

theorem stringToMap_roundtrip:
  assumes "\<forall>kv\<in>set kvs. arg_ok kv"
  shows "stringToMap (join_args kvs) = map_of (rev kvs)"
proof (cases "kvs = []")
  case True
  then show ?thesis by (simp add: stringToMap_def add_arg_def FieldsFunc_def)
next
  case False
  with assms show ?thesis by (simp add: stringToMap_def split_join_args fold_add_arg)
qed

theorem stringToMap_roundtrip_witness:
  "stringToMap (join_args [(''v'', ''2''), (''profiling'', []), (''v'', ''4'')])
     = map_of (rev [(''v'', ''2''), (''profiling'', []), (''v'', ''4'')])"
  by (rule stringToMap_roundtrip) (simp add: arg_ok_def arg_sep_def)

text \<open>
  C25. An argument whose value itself contains an equals sign, such as
  \<open>feature-gates=A=true\<close>, is dropped without an error wherever it stands in the list.
  \<open>strings.FieldsFunc\<close> splits it into three fields, and \<open>stringToMap\<close> keeps only
  arguments with one or two. The map is the one the other arguments give.
\<close>

theorem stringToMap_drops_nested:
  assumes commas: "\<forall>a\<in>set (xs @ ys). CHR '','' \<notin> set a"
    and ok: "arg_ok (k, v1)" "arg_ok (v2, [])" "v1 \<noteq> []"
  shows "stringToMap (join_commas (xs @ (k @ CHR ''='' # v1 @ CHR ''='' # v2) # ys))
         = stringToMap (join_commas (xs @ ys))"
proof -
  let ?a = "k @ CHR ''='' # v1 @ CHR ''='' # v2"
  have a: "CHR '','' \<notin> set ?a" using ok by (auto simp: arg_ok_def arg_sep_def)
  have id: "add_arg ?a = id" by (rule add_arg_nested [OF ok])
  have l: "split_on CHR '','' (join_commas (xs @ ?a # ys)) = xs @ ?a # ys"
    using commas a by (intro split_join_commas) auto
  show ?thesis
  proof (cases "xs @ ys = []")
    case True
    then show ?thesis using l id by (simp add: stringToMap_def add_arg_def FieldsFunc_def)
  next
    case False
    then have "split_on CHR '','' (join_commas (xs @ ys)) = xs @ ys"
      using commas by (intro split_join_commas) auto
    then show ?thesis using l id by (simp add: stringToMap_def)
  qed
qed

theorem stringToMap_drops_nested_witness:
  "stringToMap (join_commas [''feature-gates=A=true'', ''v=2'']) = stringToMap (join_commas [''v=2''])
   \<and> stringToMap (join_commas [''v=2'']) = [''v'' \<mapsto> ''2'']"
proof -
  have "stringToMap (join_commas ([] @ (''feature-gates'' @ CHR ''='' # ''A'' @ CHR ''='' # ''true'') # [''v=2'']))
        = stringToMap (join_commas ([] @ [''v=2'']))"
    by (rule stringToMap_drops_nested) (simp_all add: arg_ok_def arg_sep_def)
  then show ?thesis by (simp add: stringToMap_def add_arg_def FieldsFunc_def arg_sep_def)
qed

text \<open>
  C26. \<open>SetupCompute\<close> without a cloud provider panics: \<open>UpdateCloudCfg\<close> leaves the API
  server pointer nil and \<open>APIServer.String()\<close> dereferences it, whatever the environment
  and the completion mode.
\<close>

theorem setup_compute_without_cloud_panics:
  "SetupCompute ce [] exitOnCompletion = (Compute_Panics nil_deref, [])"
  by (simp add: SetupCompute_def UpdateCloudCfg_def empty_view_def)

text \<open>
  C27. \<open>SetupCompute\<close> ignores the kubelet: when the cloud configuration and the token
  environment file succeed, a one-shot compute setup reports success even though
  \<open>CreateAndStartKubelet(false)\<close> failed.
\<close>

theorem setup_compute_ignores_kubelet:
  assumes "UpdateCloudCfg ce (empty_view\<lparr>cv_CloudProvider := cloud\<rparr>) = (v, None)"
    and "cv_APIServer v = Some u" and "write_token_env ce cloud (url_String u) = None"
    and "start_kubelet ce False = Some e"
  shows "SetupCompute ce cloud True =
           (Compute_Returns None, [WriteTokenEnv cloud (url_String u), StartKubelet False])"
  using assms by (simp add: SetupCompute_def)

theorem setup_compute_ignores_kubelet_witness:
  "SetupCompute
     \<lparr>node_interface = (\<lambda>_. None),
      node_data_of = (\<lambda>_. Inr \<lparr>nd_ClusterName = ''c'', nd_KubeAPIURL = ''https://api'', nd_KubeVersion = ''v1.7'',
         nd_Labels = Map.empty, nd_Taints = Map.empty, nd_APIServerExtraArgs = [],
         nd_ControllerManagerExtraArgs = [], nd_SchedulerExtraArgs = [], nd_KubeletExtraArgs = []\<rparr>),
      url_parse = (\<lambda>_. Inr \<lparr>Scheme = ''https'', Host = ''api'', Path = []\<rparr>),
      write_token_env = (\<lambda>_ _. None), start_kubelet = (\<lambda>_. Some ErrUnavailable)\<rparr> ''aws'' True =
   (Compute_Returns None, [WriteTokenEnv ''aws'' ''https://api'', StartKubelet False])"
proof -
  let ?ce = "\<lparr>node_interface = (\<lambda>_. None),
      node_data_of = (\<lambda>_. Inr \<lparr>nd_ClusterName = ''c'', nd_KubeAPIURL = ''https://api'', nd_KubeVersion = ''v1.7'',
         nd_Labels = Map.empty, nd_Taints = Map.empty, nd_APIServerExtraArgs = [],
         nd_ControllerManagerExtraArgs = [], nd_SchedulerExtraArgs = [], nd_KubeletExtraArgs = []\<rparr>),
      url_parse = (\<lambda>_. Inr \<lparr>Scheme = ''https'', Host = ''api'', Path = []\<rparr>),
      write_token_env = (\<lambda>_ _. None), start_kubelet = (\<lambda>_. Some ErrUnavailable)\<rparr>"
  let ?u = "\<lparr>Scheme = ''https'', Host = ''api'', Path = []\<rparr>"
  have "UpdateCloudCfg ?ce (empty_view\<lparr>cv_CloudProvider := ''aws''\<rparr>)
        = (fst (UpdateCloudCfg ?ce (empty_view\<lparr>cv_CloudProvider := ''aws''\<rparr>)), None)"
    by (simp add: UpdateCloudCfg_def empty_view_def)
  moreover have "cv_APIServer (fst (UpdateCloudCfg ?ce (empty_view\<lparr>cv_CloudProvider := ''aws''\<rparr>))) = Some ?u"
    by (simp add: UpdateCloudCfg_def empty_view_def)
  ultimately have "SetupCompute ?ce ''aws'' True
      = (Compute_Returns None, [WriteTokenEnv ''aws'' (url_String ?u), StartKubelet False])"
    by (rule setup_compute_ignores_kubelet) simp_all
  then show ?thesis by (simp add: url_String_def)
qed

text \<open>
  C28. Error behaviour of \<open>UpdateCloudCfg\<close> with a cloud provider named: it succeeds
  exactly when the provider interface and its node data are obtained, the API URL parses
  and is non-empty, and the Kubernetes version is non-empty; on success the API server
  pointer is set, so the nil dereference of C26 cannot follow.
\<close>

theorem update_cloud_cfg_ok_iff:
  assumes "cv_CloudProvider v \<noteq> []"
  shows "(snd (UpdateCloudCfg ce v) = None \<longleftrightarrow>
           node_interface ce (cv_CloudProvider v) = None
           \<and> (\<exists>nd u. node_data_of ce (cv_CloudProvider v) = Inr nd \<and> url_parse ce (nd_KubeAPIURL nd) = Inr u
                    \<and> nd_KubeAPIURL nd \<noteq> [] \<and> nd_KubeVersion nd \<noteq> []))
       \<and> (snd (UpdateCloudCfg ce v) = None \<longrightarrow> cv_APIServer (fst (UpdateCloudCfg ce v)) \<noteq> None)"
  using assms by (auto simp: UpdateCloudCfg_def Let_def split: option.splits sum.splits)

theorem update_cloud_cfg_ok_iff_witness:
  "snd (UpdateCloudCfg
     \<lparr>node_interface = (\<lambda>_. None), node_data_of = (\<lambda>_. Inl ErrUnavailable),
      url_parse = (\<lambda>_. Inl ErrUnavailable), write_token_env = (\<lambda>_ _. None), start_kubelet = (\<lambda>_. None)\<rparr>
     (empty_view\<lparr>cv_CloudProvider := ''aws''\<rparr>)) \<noteq> None"
  using update_cloud_cfg_ok_iff [of "empty_view\<lparr>cv_CloudProvider := ''aws''\<rparr>"
      "\<lparr>node_interface = (\<lambda>_. None), node_data_of = (\<lambda>_. Inl ErrUnavailable),
        url_parse = (\<lambda>_. Inl ErrUnavailable), write_token_env = (\<lambda>_ _. None), start_kubelet = (\<lambda>_. None)\<rparr>"]
  by simp

text \<open>
  C29. \<open>CopyKubeCa\<close> succeeds exactly when the persistent CA certificate and key exist and
  the copy of the certificate and the symlink of the key succeed; then it has created the
  PKI directory if it was missing, copied the certificate to \<open>ca.crt\<close> and linked the key
  as \<open>ca.key\<close>, in that order.
\<close>

theorem copy_kube_ca_ok_iff:
  "(fst (CopyKubeCa he caCert caKey) = None \<longleftrightarrow>
     \<not> stat_missing he caCert \<and> \<not> stat_missing he caKey
     \<and> copy_file he caCert CaCertFile = None \<and> symlink_file he caKey CaKeyFile = None)
   \<and> (fst (CopyKubeCa he caCert caKey) = None \<longrightarrow>
       snd (CopyKubeCa he caCert caKey) =
         (if stat_missing he PkiDir then [Mkdir PkiDir] else []) @ [Copy caCert CaCertFile, Symlink caKey CaKeyFile])"
  by (auto simp: CopyKubeCa_def Let_def split: option.splits)

theorem copy_kube_ca_ok_iff_witness:
  "snd (CopyKubeCa
     \<lparr>create_provider = (\<lambda>_. None), provider_create = (\<lambda>_. None), tokens_deploy = (\<lambda>_. None),
      stat_missing = (\<lambda>p. p = PkiDir), copy_file = (\<lambda>_ _. None), symlink_file = (\<lambda>_ _. None)\<rparr>
     ''/srv/ca.crt'' ''/srv/ca.key'') = [Mkdir PkiDir, Copy ''/srv/ca.crt'' CaCertFile, Symlink ''/srv/ca.key'' CaKeyFile]"
proof -
  let ?he = "\<lparr>create_provider = (\<lambda>_. None), provider_create = (\<lambda>_. None), tokens_deploy = (\<lambda>_. None),
      stat_missing = (\<lambda>p. p = PkiDir), copy_file = (\<lambda>_ _. None), symlink_file = (\<lambda>_ _. None)\<rparr>"
  have "''/srv/ca.crt'' \<noteq> PkiDir" "''/srv/ca.key'' \<noteq> PkiDir"
    by (simp_all add: PkiDir_def KubernetesDir_def)
  with copy_kube_ca_ok_iff [of ?he "''/srv/ca.crt''" "''/srv/ca.key''"] show ?thesis by simp
qed

end
