(* ===== verification/Wiring.thy ===== *)
theory Wiring
  imports Kmm Coordinator
begin

text \<open>
  The Go value and pointer structure that \<open>New\<close> (\<open>src/unnamed/part_000\<close>, lines 92-104)
  sets up: \<open>Config\<close> and the \<open>Kmm\<close> it creates each hold their own copy of
  \<open>ConfigType\<close>, but both copies hold the same \<open>*kubeadm.Config\<close> pointer, which is also
  the \<open>Kubeadmer\<close> of the \<open>Config\<close>. An explicit heap maps addresses to the
  \<open>kubeadm.Config\<close> objects and to the \<open>Kmm\<close> objects. \<open>UpdateCloudCfg\<close> of \<open>Kmm\<close>
  writes the cluster name into the \<open>Kmm\<close>'s copy and the API server, version and extra
  arguments into the shared object. \<open>SetupCompute\<close> is modelled again at this level, reading
  the API server through its local \<open>cfg\<close>, and proved equal to the model of \<open>Kmm\<close>.
  The start of the master's \<open>CreateOrGetSharedAssets\<close> (\<open>Start_w\<close>) is modelled on the
  same heap. It is proved to refine the coordinator's \<open>run_seq\<close> abstraction, and its
  panic is characterised.
\<close>

type_synonym addr = nat

datatype ptr = NilPtr | Ptr addr

text \<open>A \<open>kubeadm.Config\<close> object. Its \<open>APIServer\<close> field is a \<open>*url.URL\<close> that may be nil:
  \<open>ko_api_nil\<close>; when it is not, the URL is the one in \<open>ko_cfg\<close>.\<close>

record kobj =
  ko_cfg :: kcfg
  ko_api_nil :: bool

text \<open>\<open>ConfigType\<close> (lines 36-50), embedded by \<open>Config\<close> and \<open>Kmm\<close> (lines 55-62). The
  etcd client \<open>Etcd\<close> is not represented (the store is a separate model); \<open>Kubeadm\<close> and
  \<open>Kmm\<close> are interface values holding pointers.\<close>

record ctype =
  ct_KubeadmCfg :: ptr
  ct_KubePersistentCaCert :: string
  ct_KubePersistentCaKey :: string
  ct_ClusterName :: string
  ct_NetworkProvider :: string
  ct_MasterBackOffTime :: time
  ct_ExitOnCompletion :: bool
  ct_Kubeadm :: ptr
  ct_Kmm :: ptr
  ct_KubeletExtraArgs :: string
  ct_NodeLabels :: "string \<rightharpoonup> string"
  ct_NodeTaints :: "string \<rightharpoonup> string"

record heap =
  kobjs :: "addr \<rightharpoonup> kobj"
  kmms :: "addr \<rightharpoonup> ctype"
  next_addr :: addr

definition zero_ctype :: ctype where
  "zero_ctype =
     \<lparr>ct_KubeadmCfg = NilPtr, ct_KubePersistentCaCert = [], ct_KubePersistentCaKey = [],
      ct_ClusterName = [], ct_NetworkProvider = [], ct_MasterBackOffTime = 0,
      ct_ExitOnCompletion = False, ct_Kubeadm = NilPtr, ct_Kmm = NilPtr, ct_KubeletExtraArgs = [],
      ct_NodeLabels = Map.empty, ct_NodeTaints = Map.empty\<rparr>"

text \<open>\<open>New(cfg)\<close>: \<open>cfg\<close> is a copy; its back-off is overwritten, the etcd client is
  built from \<open>cfg.KubeadmCfg.EtcdClientConfig\<close> (a nil \<open>KubeadmCfg\<close> panics there; the
  client itself belongs to the store model), its \<open>Kubeadm\<close> becomes its \<open>KubeadmCfg\<close>
  pointer, a \<open>Kmm\<close> is allocated holding a copy of the \<open>ConfigType\<close> taken before
  \<open>cfg.Kmm\<close> is set, and \<open>cfg.Kmm\<close> then points to it.\<close>

definition New_w :: "ctype \<Rightarrow> heap \<Rightarrow> string + ctype \<times> heap" where
  "New_w cfg h =
     (case ct_KubeadmCfg cfg of
        NilPtr \<Rightarrow> Inl nil_deref
      | Ptr _ \<Rightarrow>
          (let cfg1 = cfg\<lparr>ct_MasterBackOffTime := defaultBackOff, ct_Kubeadm := ct_KubeadmCfg cfg\<rparr>;
               a = next_addr h
           in Inr (cfg1\<lparr>ct_Kmm := Ptr a\<rparr>, h\<lparr>kmms := (kmms h)(a \<mapsto> cfg1), next_addr := Suc a\<rparr>)))"

text \<open>The fields \<open>UpdateCloudCfg\<close> reads, gathered from the \<open>Kmm\<close> object and the
  \<open>kubeadm.Config\<close> object it points to, and the writes it makes back to each.\<close>

definition view_of :: "ctype \<Rightarrow> kobj \<Rightarrow> cloud_view" where
  "view_of km ko =
     \<lparr>cv_CloudProvider = CloudProvider (ko_cfg ko), cv_ClusterName = ct_ClusterName km,
      cv_APIServer = (if ko_api_nil ko then None else Some (APIServer (ko_cfg ko))),
      cv_KubeVersion = KubeVersion (ko_cfg ko), cv_NodeLabels = ct_NodeLabels km,
      cv_NodeTaints = ct_NodeTaints km, cv_APIServerExtraArgs = APIServerExtraArgs (ko_cfg ko),
      cv_ControllerManagerExtraArgs = ControllerManagerExtraArgs (ko_cfg ko),
      cv_SchedulerExtraArgs = SchedulerExtraArgs (ko_cfg ko),
      cv_KubeletExtraArgs = ct_KubeletExtraArgs km\<rparr>"

definition write_ct :: "ctype \<Rightarrow> cloud_view \<Rightarrow> ctype" where
  "write_ct km v =
     km\<lparr>ct_ClusterName := cv_ClusterName v, ct_NodeLabels := cv_NodeLabels v,
        ct_NodeTaints := cv_NodeTaints v, ct_KubeletExtraArgs := cv_KubeletExtraArgs v\<rparr>"

definition write_ko :: "kobj \<Rightarrow> cloud_view \<Rightarrow> kobj" where
  "write_ko ko v =
     \<lparr>ko_cfg = (ko_cfg ko)\<lparr>
        APIServer := (case cv_APIServer v of Some u \<Rightarrow> u | None \<Rightarrow> APIServer (ko_cfg ko)),
        KubeVersion := cv_KubeVersion v, APIServerExtraArgs := cv_APIServerExtraArgs v,
        ControllerManagerExtraArgs := cv_ControllerManagerExtraArgs v,
        SchedulerExtraArgs := cv_SchedulerExtraArgs v\<rparr>,
      ko_api_nil = (cv_APIServer v = None)\<rparr>"

text \<open>\<open>k.Kmm.UpdateCloudCfg()\<close> for the \<open>Kmm\<close> at address \<open>a\<close>: \<open>Inl\<close> is a panic on a
  nil pointer.\<close>

definition UpdateCloudCfg_w :: "cloud_env \<Rightarrow> addr \<Rightarrow> heap \<Rightarrow> string + error option \<times> heap" where
  "UpdateCloudCfg_w ce a h =
     (case kmms h a of
        None \<Rightarrow> Inl nil_deref
      | Some km \<Rightarrow>
          (case ct_KubeadmCfg km of
             NilPtr \<Rightarrow> Inl nil_deref
           | Ptr b \<Rightarrow>
               (case kobjs h b of
                  None \<Rightarrow> Inl nil_deref
                | Some ko \<Rightarrow>
                    (let (v, e) = UpdateCloudCfg ce (view_of km ko)
                     in Inr (e, h\<lparr>kmms := (kmms h)(a \<mapsto> write_ct km v),
                                  kobjs := (kobjs h)(b \<mapsto> write_ko ko v)\<rparr>)))))"

text \<open>The master's calls through the two interfaces: \<open>k.Kubeadm.CreatePKI()\<close> (lines
  177, 199) runs on the object \<open>Kubeadm\<close> points to, and \<open>getHost\<close> reads its
  \<open>APIServer\<close>, which panics when nil (\<open>src/unnamed/part_001\<close>, lines 155-165, 268-279);
  \<open>k.Kmm.TokensDeploy()\<close> (line 219) deploys the tokens for the cluster name of the
  \<open>Kmm\<close>'s copy (lines 280-282).\<close>

definition CreatePKI_w :: "kenv \<Rightarrow> ctype \<Rightarrow> heap \<Rightarrow> string + error option \<times> kev list" where
  "CreatePKI_w env k h =
     (case ct_Kubeadm k of
        NilPtr \<Rightarrow> Inl nil_deref
      | Ptr b \<Rightarrow>
          (case kobjs h b of
             None \<Rightarrow> Inl nil_deref
           | Some ko \<Rightarrow> if ko_api_nil ko then Inl nil_deref else Inr (kubeadm_CreatePKI env (ko_cfg ko))))"

definition TokensDeploy_w :: "host_env \<Rightarrow> ctype \<Rightarrow> heap \<Rightarrow> string + error option" where
  "TokensDeploy_w he k h =
     (case ct_Kmm k of
        NilPtr \<Rightarrow> Inl nil_deref
      | Ptr a \<Rightarrow>
          (case kmms h a of
             None \<Rightarrow> Inl nil_deref
           | Some km \<Rightarrow> Inr (TokensDeploy he (ct_ClusterName km))))"

text \<open>\<open>k.Kubeadm.WriteManifests()\<close> on the shared object: \<open>WriteManifests\<close>
  (\<open>manifests.go\<close>, lines 9-16) starts with \<open>GetKubeadmCfg\<close>, whose first act is
  \<open>kmmCfg.APIServer.Port()\<close> (\<open>part_001\<close>, line 200), a panic when the pointer is nil.\<close>

definition WriteManifests_w :: "kenv \<Rightarrow> ctype \<Rightarrow> heap \<Rightarrow> string + error option" where
  "WriteManifests_w env k h =
     (case ct_Kubeadm k of
        NilPtr \<Rightarrow> Inl nil_deref
      | Ptr b \<Rightarrow>
          (case kobjs h b of
             None \<Rightarrow> Inl nil_deref
           | Some ko \<Rightarrow> if ko_api_nil ko then Inl nil_deref else Inr (kubeadm_WriteManifests env (ko_cfg ko))))"

text \<open>The start of \<open>CreateOrGetSharedAssets\<close> (lines 110-118) on the heap:
  \<open>k.Kmm.UpdateCloudCfg()\<close>, \<open>k.Kmm.CopyKubeCa()\<close> with the CA paths of the \<open>Kmm\<close>'s
  copy, \<open>k.Kubeadm.WriteManifests()\<close>, each returning its error at once. The result is the
  error, the file-system events of \<open>CopyKubeCa\<close> and the heap; \<open>Inl\<close> is a panic.\<close>

definition Start_w :: "cloud_env \<Rightarrow> host_env \<Rightarrow> kenv \<Rightarrow> ctype \<Rightarrow> heap \<Rightarrow> string + error option \<times> fs_ev list \<times> heap" where
  "Start_w ce he env k h =
     (case ct_Kmm k of
        NilPtr \<Rightarrow> Inl nil_deref
      | Ptr a \<Rightarrow>
          (case UpdateCloudCfg_w ce a h of
             Inl p \<Rightarrow> Inl p
           | Inr (Some e, h1) \<Rightarrow> Inr (Some e, [], h1)
           | Inr (None, h1) \<Rightarrow>
               (case kmms h1 a of
                  None \<Rightarrow> Inl nil_deref
                | Some km \<Rightarrow>
                    (case CopyKubeCa he (ct_KubePersistentCaCert km) (ct_KubePersistentCaKey km) of
                       (Some e, fs) \<Rightarrow> Inr (Some e, fs, h1)
                     | (None, fs) \<Rightarrow>
                         (case WriteManifests_w env k h1 of
                            Inl p \<Rightarrow> Inl p
                          | Inr r \<Rightarrow> Inr (r, fs, h1))))))"

text \<open>The \<open>kubeadm.Config{CloudProvider: cloud}\<close> that \<open>SetupCompute\<close> allocates.\<close>

definition compute_kobj :: "string \<Rightarrow> kobj" where
  "compute_kobj cloud =
     \<lparr>ko_cfg = \<lparr>EtcdEndpoints = [], EtcdCaFileName = [], EtcdClientCertFileName = [],
                EtcdClientKeyFileName = [], CaCert = [], CaKey = [],
                APIServer = \<lparr>Scheme = [], Host = [], Path = []\<rparr>, KubeletID = [],
                CloudProvider = cloud, KubeVersion = [], MasterCount = 0, PodNetworkCidr = [],
                APIServerExtraArgs = Map.empty, ControllerManagerExtraArgs = Map.empty,
                SchedulerExtraArgs = Map.empty\<rparr>,
      ko_api_nil = True\<rparr>"

text \<open>\<open>SetupCompute\<close> (lines 65-89) on the heap: the token file gets the API server read
  through the local \<open>cfg.KubeadmCfg\<close>, not through the \<open>Kmm\<close>.\<close>

definition SetupCompute_w :: "cloud_env \<Rightarrow> string \<Rightarrow> bool \<Rightarrow> compute_outcome \<times> compute_ev list" where
  "SetupCompute_w ce cloud exitOnCompletion =
     (let h0 = \<lparr>kobjs = [0 \<mapsto> compute_kobj cloud], kmms = Map.empty, next_addr = 1\<rparr>;
          cfg = zero_ctype\<lparr>ct_ExitOnCompletion := exitOnCompletion, ct_KubeadmCfg := Ptr 0\<rparr>
      in case New_w cfg h0 of
           Inl p \<Rightarrow> (Compute_Panics p, [])
         | Inr (k, h1) \<Rightarrow>
             (case ct_Kmm k of
                NilPtr \<Rightarrow> (Compute_Panics nil_deref, [])
              | Ptr a \<Rightarrow>
                  (case UpdateCloudCfg_w ce a h1 of
                     Inl p \<Rightarrow> (Compute_Panics p, [])
                   | Inr (Some e, h2) \<Rightarrow> (Compute_Returns (Some e), [])
                   | Inr (None, h2) \<Rightarrow>
                       (case ct_KubeadmCfg cfg of
                          NilPtr \<Rightarrow> (Compute_Panics nil_deref, [])
                        | Ptr b \<Rightarrow>
                            (case kobjs h2 b of
                               None \<Rightarrow> (Compute_Panics nil_deref, [])
                             | Some ko \<Rightarrow>
                                 if ko_api_nil ko then (Compute_Panics nil_deref, [])
                                 else
                                   (let url = url_String (APIServer (ko_cfg ko)) in
                                    case write_token_env ce cloud url of
                                      Some e \<Rightarrow>
                                        (Compute_Returns (Some (ErrMsg ''error saving KetoTokenEnv'')),
                                         [WriteTokenEnv cloud url])
                                    | None \<Rightarrow>
                                        (let r = start_kubelet ce False in
                                         (if ct_ExitOnCompletion k then Compute_Returns None
                                          else Compute_Parks,
                                          [WriteTokenEnv cloud url, StartKubelet False]))))))))"

subsection \<open>The wiring\<close>

lemma New_w_Ptr:
  "ct_KubeadmCfg cfg = Ptr b \<Longrightarrow>
   New_w cfg h = Inr (cfg\<lparr>ct_MasterBackOffTime := defaultBackOff, ct_Kubeadm := Ptr b, ct_Kmm := Ptr (next_addr h)\<rparr>,
     h\<lparr>kmms := (kmms h)(next_addr h \<mapsto> cfg\<lparr>ct_MasterBackOffTime := defaultBackOff, ct_Kubeadm := Ptr b\<rparr>),
       next_addr := Suc (next_addr h)\<rparr>)"
  by (simp add: New_w_def Let_def)

lemma view_of_compute:
  "view_of km (compute_kobj cloud) = empty_view\<lparr>cv_CloudProvider := cloud, cv_ClusterName := ct_ClusterName km,
     cv_NodeLabels := ct_NodeLabels km, cv_NodeTaints := ct_NodeTaints km, cv_KubeletExtraArgs := ct_KubeletExtraArgs km\<rparr>"
  by (simp add: view_of_def compute_kobj_def empty_view_def)

lemma view_of_New_fields:
  "view_of (km\<lparr>ct_MasterBackOffTime := t, ct_Kubeadm := q\<rparr>) ko = view_of km ko"
  by (simp add: view_of_def)

lemma start_after_new:
  assumes new: "New_w cfg h = Inr (k, h1)" and b: "ct_KubeadmCfg cfg = Ptr b" and ko: "kobjs h b = Some ko"
    and u: "UpdateCloudCfg ce (view_of cfg ko) = (v, e1)"
  shows "Start_w ce he env k h1 =
     (case e1 of
        Some e \<Rightarrow> Inr (Some e, [], h1\<lparr>kmms := (kmms h1)(next_addr h \<mapsto> write_ct (cfg\<lparr>ct_MasterBackOffTime := defaultBackOff, ct_Kubeadm := Ptr b\<rparr>) v), kobjs := (kobjs h1)(b \<mapsto> write_ko ko v)\<rparr>)
      | None \<Rightarrow>
          (case CopyKubeCa he (ct_KubePersistentCaCert cfg) (ct_KubePersistentCaKey cfg) of
             (Some e, fs) \<Rightarrow> Inr (Some e, fs, h1\<lparr>kmms := (kmms h1)(next_addr h \<mapsto> write_ct (cfg\<lparr>ct_MasterBackOffTime := defaultBackOff, ct_Kubeadm := Ptr b\<rparr>) v), kobjs := (kobjs h1)(b \<mapsto> write_ko ko v)\<rparr>)
           | (None, fs) \<Rightarrow>
               if cv_APIServer v = None then Inl nil_deref
               else Inr (kubeadm_WriteManifests env (ko_cfg (write_ko ko v)), fs,
                         h1\<lparr>kmms := (kmms h1)(next_addr h \<mapsto> write_ct (cfg\<lparr>ct_MasterBackOffTime := defaultBackOff, ct_Kubeadm := Ptr b\<rparr>) v), kobjs := (kobjs h1)(b \<mapsto> write_ko ko v)\<rparr>)))"
proof -
  from new b have k: "k = cfg\<lparr>ct_MasterBackOffTime := defaultBackOff, ct_Kubeadm := Ptr b, ct_Kmm := Ptr (next_addr h)\<rparr>"
    and h1: "h1 = h\<lparr>kmms := (kmms h)(next_addr h \<mapsto> cfg\<lparr>ct_MasterBackOffTime := defaultBackOff, ct_Kubeadm := Ptr b\<rparr>),
       next_addr := Suc (next_addr h)\<rparr>"
    by (simp_all add: New_w_Ptr)
  show ?thesis
    using b ko u
    by (cases e1; cases "CopyKubeCa he (ct_KubePersistentCaCert cfg) (ct_KubePersistentCaKey cfg)")
       (auto simp: Start_w_def k h1 UpdateCloudCfg_w_def WriteManifests_w_def write_ct_def write_ko_def view_of_New_fields
          split: option.splits)
qed

lemma UpdateCloudCfg_no_cloud:
  "cv_CloudProvider v = [] \<Longrightarrow> UpdateCloudCfg ce v = (v, None)"
  by (simp add: UpdateCloudCfg_def)

lemma UpdateCloudCfg_sets_api:
  "UpdateCloudCfg ce v = (v', None) \<Longrightarrow> cv_CloudProvider v \<noteq> [] \<Longrightarrow> cv_APIServer v' \<noteq> None"
  by (auto simp: UpdateCloudCfg_def Let_def split: option.splits sum.splits if_splits)

text \<open>
  C30. \<open>SetupCompute\<close> on the heap, with \<open>New\<close>'s copies and the shared
  \<open>*kubeadm.Config\<close>, behaves exactly as the field-level model of \<open>Kmm.SetupCompute\<close>: the
  API server \<open>UpdateCloudCfg\<close> stores through \<open>k.Kmm\<close> is the one \<open>SetupCompute\<close> reads
  through its local \<open>cfg\<close>, because both copies of \<open>ConfigType\<close> hold the same pointer.
\<close>

theorem setup_compute_heap_refines:
  "SetupCompute_w ce cloud exitOnCompletion = SetupCompute ce cloud exitOnCompletion"
proof -
  let ?v0 = "empty_view\<lparr>cv_CloudProvider := cloud\<rparr>"
  have v: "view_of (zero_ctype\<lparr>ct_ExitOnCompletion := exitOnCompletion, ct_KubeadmCfg := Ptr 0,
              ct_MasterBackOffTime := defaultBackOff, ct_Kubeadm := Ptr 0\<rparr>) (compute_kobj cloud) = ?v0"
    by (simp add: view_of_compute zero_ctype_def empty_view_def)
  obtain v e where r: "UpdateCloudCfg ce ?v0 = (v, e)" by fastforce
  show ?thesis
    by (cases e; cases "cv_APIServer v"; cases "write_token_env ce cloud (url_String (the (cv_APIServer v)))")
       (simp_all add: SetupCompute_w_def SetupCompute_def New_w_Ptr UpdateCloudCfg_w_def v r write_ko_def)
qed

text \<open>
  C31. After \<open>New\<close> and a successful \<open>k.Kmm.UpdateCloudCfg()\<close>, the master's
  \<open>k.Kubeadm.CreatePKI()\<close> runs kubeadm for the API server the cloud reported (the update
  is visible through the \<open>Kubeadm\<close> interface), and \<open>k.Kmm.TokensDeploy()\<close> deploys the
  tokens for the cloud's cluster name, while the \<open>Config\<close>'s own copy of the cluster name
  is left unchanged.
\<close>

theorem cloud_data_reaches_collaborators:
  assumes new: "New_w cfg h = Inr (k, h1)" and b: "ct_KubeadmCfg cfg = Ptr b" and ko: "kobjs h b = Some ko"
    and cp: "CloudProvider (ko_cfg ko) \<noteq> []"
    and ni: "node_interface ce (CloudProvider (ko_cfg ko)) = None"
    and nd: "node_data_of ce (CloudProvider (ko_cfg ko)) = Inr nd"
    and u: "url_parse ce (nd_KubeAPIURL nd) = Inr u"
    and ne: "nd_KubeAPIURL nd \<noteq> []" "nd_KubeVersion nd \<noteq> []"
  shows "\<exists>a h2. ct_Kmm k = Ptr a \<and> UpdateCloudCfg_w ce a h1 = Inr (None, h2)
           \<and> CreatePKI_w env k h2 = Inr (kubeadm_CreatePKI env ((ko_cfg ko)\<lparr>APIServer := u\<rparr>))
           \<and> TokensDeploy_w he k h2 = Inr (TokensDeploy he (nd_ClusterName nd))
           \<and> ct_ClusterName k = ct_ClusterName cfg"
proof -
  from new b have k: "k = cfg\<lparr>ct_MasterBackOffTime := defaultBackOff, ct_Kubeadm := Ptr b, ct_Kmm := Ptr (next_addr h)\<rparr>"
    and h1: "h1 = h\<lparr>kmms := (kmms h)(next_addr h \<mapsto> cfg\<lparr>ct_MasterBackOffTime := defaultBackOff, ct_Kubeadm := Ptr b\<rparr>),
       next_addr := Suc (next_addr h)\<rparr>"
    by (simp_all add: New_w_Ptr)
  show ?thesis
    using b ko cp ni nd u ne
    by (simp add: k h1 UpdateCloudCfg_w_def UpdateCloudCfg_def view_of_def Let_def write_ko_def write_ct_def
        CreatePKI_w_def TokensDeploy_w_def kubeadm_CreatePKI_def)
qed

theorem cloud_data_reaches_collaborators_witness:
  "\<exists>k h1 a h2. New_w (zero_ctype\<lparr>ct_KubeadmCfg := Ptr 0\<rparr>) \<lparr>kobjs = [0 \<mapsto> compute_kobj ''aws''], kmms = Map.empty, next_addr = 1\<rparr> = Inr (k, h1)
     \<and> ct_Kmm k = Ptr a
     \<and> UpdateCloudCfg_w \<lparr>node_interface = (\<lambda>_. None),
       node_data_of = (\<lambda>_. Inr \<lparr>nd_ClusterName = ''prod'', nd_KubeAPIURL = ''https://10.0.0.1:6443'',
         nd_KubeVersion = ''v1.8.4'', nd_Labels = Map.empty, nd_Taints = Map.empty,
         nd_APIServerExtraArgs = [], nd_ControllerManagerExtraArgs = [], nd_SchedulerExtraArgs = [],
         nd_KubeletExtraArgs = []\<rparr>),
       url_parse = (\<lambda>_. Inr \<lparr>Scheme = ''https'', Host = ''10.0.0.1:6443'', Path = []\<rparr>),
       write_token_env = (\<lambda>_ _. None), start_kubelet = (\<lambda>_. None)\<rparr> a h1 = Inr (None, h2)
     \<and> CreatePKI_w \<lparr>kubeadm_run = (\<lambda>args. ([], Some (ErrMsg (last args)))), hostname = Inr ''m0'',
       write_file = (\<lambda>_. None), static_pods = (\<lambda>_ _. None),
        net_consts = \<lparr>DefaultServiceDNSDomain = ''cluster.local'', DefaultServicesSubnet = ''10.96.0.0/12''\<rparr>\<rparr> k h2 = Inr (Some (ErrMsg ''10.0.0.1''), [Exec (cmdOptsCerts @ [''10.0.0.1''])])
     \<and> TokensDeploy_w \<lparr>create_provider = (\<lambda>_. None), provider_create = (\<lambda>_. None),
       tokens_deploy = (\<lambda>c. Some (ErrMsg c)), stat_missing = (\<lambda>_. False),
       copy_file = (\<lambda>_ _. None), symlink_file = (\<lambda>_ _. None)\<rparr> k h2 = Inr (Some (ErrMsg ''prod''))"
proof -
  obtain k h1 where n: "New_w (zero_ctype\<lparr>ct_KubeadmCfg := Ptr 0\<rparr>) \<lparr>kobjs = [0 \<mapsto> compute_kobj ''aws''], kmms = Map.empty, next_addr = 1\<rparr> = Inr (k, h1)"
    by (simp add: New_w_def Let_def)
  have g: "getHost \<lparr>Scheme = ''https'', Host = ''10.0.0.1:6443'', Path = []\<rparr> = Inr ''10.0.0.1''"
    by code_simp
  show ?thesis
    using cloud_data_reaches_collaborators [OF n, where b = 0 and ko = "compute_kobj ''aws''"
        and ce = "\<lparr>node_interface = (\<lambda>_. None),
       node_data_of = (\<lambda>_. Inr \<lparr>nd_ClusterName = ''prod'', nd_KubeAPIURL = ''https://10.0.0.1:6443'',
         nd_KubeVersion = ''v1.8.4'', nd_Labels = Map.empty, nd_Taints = Map.empty,
         nd_APIServerExtraArgs = [], nd_ControllerManagerExtraArgs = [], nd_SchedulerExtraArgs = [],
         nd_KubeletExtraArgs = []\<rparr>),
       url_parse = (\<lambda>_. Inr \<lparr>Scheme = ''https'', Host = ''10.0.0.1:6443'', Path = []\<rparr>),
       write_token_env = (\<lambda>_ _. None), start_kubelet = (\<lambda>_. None)\<rparr>" and nd = "\<lparr>nd_ClusterName = ''prod'', nd_KubeAPIURL = ''https://10.0.0.1:6443'',
         nd_KubeVersion = ''v1.8.4'', nd_Labels = Map.empty, nd_Taints = Map.empty,
         nd_APIServerExtraArgs = [], nd_ControllerManagerExtraArgs = [], nd_SchedulerExtraArgs = [],
         nd_KubeletExtraArgs = []\<rparr>" and u = "\<lparr>Scheme = ''https'', Host = ''10.0.0.1:6443'', Path = []\<rparr>"
        and env = "\<lparr>kubeadm_run = (\<lambda>args. ([], Some (ErrMsg (last args)))), hostname = Inr ''m0'',
       write_file = (\<lambda>_. None), static_pods = (\<lambda>_ _. None),
        net_consts = \<lparr>DefaultServiceDNSDomain = ''cluster.local'', DefaultServicesSubnet = ''10.96.0.0/12''\<rparr>\<rparr>" and he = "\<lparr>create_provider = (\<lambda>_. None), provider_create = (\<lambda>_. None),
       tokens_deploy = (\<lambda>c. Some (ErrMsg c)), stat_missing = (\<lambda>_. False),
       copy_file = (\<lambda>_ _. None), symlink_file = (\<lambda>_ _. None)\<rparr>"]
    using n by (simp add: compute_kobj_def kubeadm_CreatePKI_def TokensDeploy_def g) blast
qed


text \<open>
  C32. The coordinator's abstraction of the start of \<open>CreateOrGetSharedAssets\<close>
  (\<open>run_seq\<close> over \<open>[UpdateCloudCfg, CopyKubeCa, WriteManifests]\<close> with one answer per
  call) is faithful to the heap-level code after \<open>New\<close>. When the start returns, its error
  is the one \<open>run_seq\<close> gives with these answers: \<open>UpdateCloudCfg\<close>'s error, \<open>CopyKubeCa\<close>
  on the configured CA paths (which \<open>UpdateCloudCfg\<close> does not touch), and
  \<open>WriteManifests\<close> on the shared object as \<open>UpdateCloudCfg\<close> left it, which is also what
  remains on the heap.
\<close>

theorem start_heap_refines:
  assumes new: "New_w cfg h = Inr (k, h1)" and b: "ct_KubeadmCfg cfg = Ptr b" and ko: "kobjs h b = Some ko"
    and u: "UpdateCloudCfg ce (view_of cfg ko) = (v, e1)"
    and s: "Start_w ce he env k h1 = Inr (r, fs, h2)"
  shows "r = fst (run_seq
             \<lparr>outcome = (\<lambda>c. case c of
                  call.UpdateCloudCfg \<Rightarrow> e1
                | call.CopyKubeCa \<Rightarrow> fst (CopyKubeCa he (ct_KubePersistentCaCert cfg) (ct_KubePersistentCaKey cfg))
                | call.WriteManifests \<Rightarrow> kubeadm_WriteManifests env (ko_cfg (write_ko ko v))
                | _ \<Rightarrow> None),
              serialized = []\<rparr>
             [call.UpdateCloudCfg, call.CopyKubeCa, call.WriteManifests])
         \<and> kobjs h2 b = Some (write_ko ko v)"
  using s start_after_new [OF new b ko u]
  by (cases e1; cases "CopyKubeCa he (ct_KubePersistentCaCert cfg) (ct_KubePersistentCaKey cfg)")
     (auto split: option.splits if_splits)

text \<open>
  C33. After \<open>New\<close>, the start of \<open>CreateOrGetSharedAssets\<close> panics exactly when all
  three of the following hold: the configuration has no API server, no cloud provider
  supplies one, and the CA copy succeeds. The panic comes from the nil
  \<open>APIServer.Port()\<close> in \<open>WriteManifests\<close>; it is never returned as an error.
\<close>

theorem start_panics_iff:
  assumes new: "New_w cfg h = Inr (k, h1)" and b: "ct_KubeadmCfg cfg = Ptr b" and ko: "kobjs h b = Some ko"
  shows "(\<exists>p. Start_w ce he env k h1 = Inl p) \<longleftrightarrow>
           ko_api_nil ko \<and> CloudProvider (ko_cfg ko) = []
           \<and> fst (CopyKubeCa he (ct_KubePersistentCaCert cfg) (ct_KubePersistentCaKey cfg)) = None"
proof -
  obtain v e1 where u: "UpdateCloudCfg ce (view_of cfg ko) = (v, e1)" by fastforce
  show ?thesis
  proof (cases "CloudProvider (ko_cfg ko) = []")
    case True
    then have "v = view_of cfg ko" "e1 = None"
      using u UpdateCloudCfg_no_cloud [of "view_of cfg ko" ce] by (simp_all add: view_of_def)
    then show ?thesis
      using start_after_new [OF new b ko u] True
      by (cases "CopyKubeCa he (ct_KubePersistentCaCert cfg) (ct_KubePersistentCaKey cfg)")
         (auto simp: view_of_def split: option.splits)
  next
    case False
    then have "e1 = None \<Longrightarrow> cv_APIServer v \<noteq> None"
      using u UpdateCloudCfg_sets_api [of ce "view_of cfg ko" v] by (simp add: view_of_def)
    then show ?thesis
      using start_after_new [OF new b ko u] False
      by (cases e1; cases "CopyKubeCa he (ct_KubePersistentCaCert cfg) (ct_KubePersistentCaKey cfg)")
         (auto split: option.splits)
  qed
qed

theorem start_heap_refines_witness:
  "\<exists>k h1 fs h2. New_w (zero_ctype\<lparr>ct_KubeadmCfg := Ptr 0, ct_KubePersistentCaCert := ''/ca.crt''\<rparr>) \<lparr>kobjs = [0 \<mapsto> compute_kobj ''aws''], kmms = Map.empty, next_addr = 1\<rparr> = Inr (k, h1)
     \<and> Start_w \<lparr>node_interface = (\<lambda>_. None),
       node_data_of = (\<lambda>_. Inr \<lparr>nd_ClusterName = ''prod'', nd_KubeAPIURL = ''https://10.0.0.1'',
         nd_KubeVersion = ''v1.8.4'', nd_Labels = Map.empty, nd_Taints = Map.empty,
         nd_APIServerExtraArgs = [], nd_ControllerManagerExtraArgs = [], nd_SchedulerExtraArgs = [],
         nd_KubeletExtraArgs = []\<rparr>),
       url_parse = (\<lambda>_. Inr \<lparr>Scheme = ''https'', Host = ''10.0.0.1'', Path = []\<rparr>),
       write_token_env = (\<lambda>_ _. None), start_kubelet = (\<lambda>_. None)\<rparr> \<lparr>create_provider = (\<lambda>_. None), provider_create = (\<lambda>_. None),
       tokens_deploy = (\<lambda>_. None), stat_missing = (\<lambda>_. True),
       copy_file = (\<lambda>_ _. None), symlink_file = (\<lambda>_ _. None)\<rparr> \<lparr>kubeadm_run = (\<lambda>_. ([], None)), hostname = Inr ''m0'',
       write_file = (\<lambda>_. None), static_pods = (\<lambda>_ _. None),
        net_consts = \<lparr>DefaultServiceDNSDomain = ''cluster.local'', DefaultServicesSubnet = ''10.96.0.0/12''\<rparr>\<rparr> k h1 = Inr (Some (ErrMsg ''kube CA cert not found at: /ca.crt''), fs, h2)
     \<and> \<not> ko_api_nil (the (kobjs h2 0))"
proof -
  obtain k h1 where n: "New_w (zero_ctype\<lparr>ct_KubeadmCfg := Ptr 0, ct_KubePersistentCaCert := ''/ca.crt''\<rparr>) \<lparr>kobjs = [0 \<mapsto> compute_kobj ''aws''], kmms = Map.empty, next_addr = 1\<rparr> = Inr (k, h1)"
    by (simp add: New_w_def Let_def)
  obtain v e1 where u: "UpdateCloudCfg \<lparr>node_interface = (\<lambda>_. None),
       node_data_of = (\<lambda>_. Inr \<lparr>nd_ClusterName = ''prod'', nd_KubeAPIURL = ''https://10.0.0.1'',
         nd_KubeVersion = ''v1.8.4'', nd_Labels = Map.empty, nd_Taints = Map.empty,
         nd_APIServerExtraArgs = [], nd_ControllerManagerExtraArgs = [], nd_SchedulerExtraArgs = [],
         nd_KubeletExtraArgs = []\<rparr>),
       url_parse = (\<lambda>_. Inr \<lparr>Scheme = ''https'', Host = ''10.0.0.1'', Path = []\<rparr>),
       write_token_env = (\<lambda>_ _. None), start_kubelet = (\<lambda>_. None)\<rparr> (view_of (zero_ctype\<lparr>ct_KubeadmCfg := Ptr 0, ct_KubePersistentCaCert := ''/ca.crt''\<rparr>) (compute_kobj ''aws'')) = (v, e1)"
    by fastforce
  have e1: "e1 = None" and api: "cv_APIServer v \<noteq> None"
    using u by (auto simp: UpdateCloudCfg_def view_of_def compute_kobj_def zero_ctype_def Let_def)
  have ko: "kobjs \<lparr>kobjs = [0 \<mapsto> compute_kobj ''aws''], kmms = Map.empty, next_addr = 1\<rparr> 0 = Some (compute_kobj ''aws'')" by simp
  obtain r fs h2 where st: "Start_w \<lparr>node_interface = (\<lambda>_. None),
       node_data_of = (\<lambda>_. Inr \<lparr>nd_ClusterName = ''prod'', nd_KubeAPIURL = ''https://10.0.0.1'',
         nd_KubeVersion = ''v1.8.4'', nd_Labels = Map.empty, nd_Taints = Map.empty,
         nd_APIServerExtraArgs = [], nd_ControllerManagerExtraArgs = [], nd_SchedulerExtraArgs = [],
         nd_KubeletExtraArgs = []\<rparr>),
       url_parse = (\<lambda>_. Inr \<lparr>Scheme = ''https'', Host = ''10.0.0.1'', Path = []\<rparr>),
       write_token_env = (\<lambda>_ _. None), start_kubelet = (\<lambda>_. None)\<rparr> \<lparr>create_provider = (\<lambda>_. None), provider_create = (\<lambda>_. None),
       tokens_deploy = (\<lambda>_. None), stat_missing = (\<lambda>_. True),
       copy_file = (\<lambda>_ _. None), symlink_file = (\<lambda>_ _. None)\<rparr> \<lparr>kubeadm_run = (\<lambda>_. ([], None)), hostname = Inr ''m0'',
       write_file = (\<lambda>_. None), static_pods = (\<lambda>_ _. None),
        net_consts = \<lparr>DefaultServiceDNSDomain = ''cluster.local'', DefaultServicesSubnet = ''10.96.0.0/12''\<rparr>\<rparr> k h1 = Inr (r, fs, h2)"
    using start_after_new [OF n _ ko u] e1 by (simp add: CopyKubeCa_def zero_ctype_def)
  show ?thesis
    using start_heap_refines [OF n _ ko u st] n st e1 api
    by (simp add: CopyKubeCa_def zero_ctype_def write_ko_def)
qed

theorem start_panics_iff_witness:
  "\<exists>k h1 p. New_w (zero_ctype\<lparr>ct_KubeadmCfg := Ptr 0, ct_KubePersistentCaCert := ''/ca.crt''\<rparr>) \<lparr>kobjs = [0 \<mapsto> compute_kobj ''''], kmms = Map.empty, next_addr = 1\<rparr> = Inr (k, h1)
     \<and> Start_w \<lparr>node_interface = (\<lambda>_. None), node_data_of = (\<lambda>_. Inl ErrUnavailable),
       url_parse = (\<lambda>_. Inl ErrUnavailable), write_token_env = (\<lambda>_ _. None),
       start_kubelet = (\<lambda>_. None)\<rparr> \<lparr>create_provider = (\<lambda>_. None), provider_create = (\<lambda>_. None),
       tokens_deploy = (\<lambda>_. None), stat_missing = (\<lambda>_. False),
       copy_file = (\<lambda>_ _. None), symlink_file = (\<lambda>_ _. None)\<rparr> \<lparr>kubeadm_run = (\<lambda>_. ([], None)), hostname = Inr ''m0'',
       write_file = (\<lambda>_. None), static_pods = (\<lambda>_ _. None),
        net_consts = \<lparr>DefaultServiceDNSDomain = ''cluster.local'', DefaultServicesSubnet = ''10.96.0.0/12''\<rparr>\<rparr> k h1 = Inl p"
proof -
  obtain k h1 where n: "New_w (zero_ctype\<lparr>ct_KubeadmCfg := Ptr 0, ct_KubePersistentCaCert := ''/ca.crt''\<rparr>) \<lparr>kobjs = [0 \<mapsto> compute_kobj ''''], kmms = Map.empty, next_addr = 1\<rparr> = Inr (k, h1)"
    by (simp add: New_w_def Let_def)
  have ko: "kobjs \<lparr>kobjs = [0 \<mapsto> compute_kobj ''''], kmms = Map.empty, next_addr = 1\<rparr> 0 = Some (compute_kobj [])" by simp
  show ?thesis
    using start_panics_iff [OF n _ ko, where ce = "\<lparr>node_interface = (\<lambda>_. None), node_data_of = (\<lambda>_. Inl ErrUnavailable),
       url_parse = (\<lambda>_. Inl ErrUnavailable), write_token_env = (\<lambda>_ _. None),
       start_kubelet = (\<lambda>_. None)\<rparr>" and he = "\<lparr>create_provider = (\<lambda>_. None), provider_create = (\<lambda>_. None),
       tokens_deploy = (\<lambda>_. None), stat_missing = (\<lambda>_. False),
       copy_file = (\<lambda>_ _. None), symlink_file = (\<lambda>_ _. None)\<rparr>" and env = "\<lparr>kubeadm_run = (\<lambda>_. ([], None)), hostname = Inr ''m0'',
       write_file = (\<lambda>_. None), static_pods = (\<lambda>_ _. None),
        net_consts = \<lparr>DefaultServiceDNSDomain = ''cluster.local'', DefaultServicesSubnet = ''10.96.0.0/12''\<rparr>\<rparr>"] n
    by (simp add: CopyKubeCa_def compute_kobj_def zero_ctype_def)
qed

end
