(* ===== verification/Spec2Isabelle.thy ===== *)
theory Spec2Isabelle
  imports Scenarios Process Node_Logs Assets Kubeadm Kmm Wiring
begin

text \<open>
  Verification development of keto-k8's master bootstrap (\<open>src/unnamed/part_000\<close>, package
  kmm, and \<open>src/unnamed/part_001\<close> with \<open>src/pkg/kubeadm/manifests.go\<close>, package kubeadm).
  Several control-plane nodes race through \<open>CreateOrGetSharedAssets\<close>: each reads the asset
  key from etcd; if it is missing, the node takes a TTL lock, runs the primary sequence
  \<open>BootstrapOnce\<close>, which generates the PKI and serialises the shared keys with
  \<open>LoadAndSerializeAssets\<close>, and publishes the bundle with a create-if-absent
  \<open>PutTx\<close>; a node that sees the key runs \<open>BootstrapSecondaryMaster\<close>, whose first step
  \<open>SaveAssets\<close> writes the bundle's keys to disk; a node refused the lock sleeps
  \<open>MasterBackOffTime\<close> and retries; a failing primary runs \<open>CleanUp\<close>.

  \<^bold>\<open>Theories.\<close>
  \<^item> \<open>Prelude\<close>: errors (\<open>error\<close>), time, rule collections.
  \<^item> \<open>Etcd\<close>: the store of the etcd client (spec-modelled, the client is not in the
    repository): \<open>etcd_get\<close>, \<open>etcd_get_or_create_lock\<close>, \<open>etcd_put_tx\<close>,
    \<open>etcd_delete\<close> over a map of entries with optional expiry; \<open>up\<close> models an outage.
  \<^item> \<open>Collaborators\<close>: the \<open>Kubeadmer\<close> and \<open>kmm.Interface\<close> calls as the datatype
    \<open>call\<close>, answered by a \<open>provider\<close>; \<open>run_seq\<close> is the if-err-return chain.
  \<^item> \<open>Coordinator\<close>: constants, \<open>config\<close> and \<open>New\<close>, \<open>BootstrapOnce\<close>,
    \<open>BootstrapSecondaryMaster\<close>, \<open>CleanUp\<close>, and the loop of
    \<open>CreateOrGetSharedAssets\<close> cut at each store operation into \<open>node_step\<close> over a
    program counter \<open>pc\<close>; the process run alone is \<open>CreateOrGetSharedAssets\<close>, a
    \<open>partial_function (option)\<close> whose \<open>None\<close> is a run that never returns (the
    \<open>for true {}\<close> of the completion gate, or endless contention).
  \<^item> \<open>Cluster\<close>: several nodes and one store as the inductive step relation \<open>cstep\<close>
    (a node's step, a clock tick, an outage, a recovery) and \<open>reachable\<close>; the flag
    \<open>bounded\<close> restricts ticks to those that do not expire the lock of a node inside its
    primary section. Safety invariants are proved by rule induction.
  \<^item> \<open>Node_Logs\<close>: per-node invariants of the action log (back-off, order of publication),
    lifted to every reachable cluster by \<open>node_local_reachable\<close>.
  \<^item> \<open>Process\<close>: one process alone: termination, the completion gate, cleanup, error
    classification and the ignored error of \<open>LoadAndSerializeAssets\<close>.
  \<^item> \<open>Scenarios\<close>: executable schedules (\<open>run_sched\<close>) for the spec's example
    scenarios and the race witnesses.
  \<^item> \<open>Json\<close>: Go's \<open>encoding/json\<close> as far as the codec uses it (spec-modelled): the
    HTML-safe string encoder, the struct encoder, and a decoder of the whole JSON grammar.
    The decoder spends one unit of fuel per nested call; \<open>json_fuel s = 2 |s| + 2\<close> is
    enough, since any successful parse gives the same result with fuel \<open>2 |s| + 1\<close> or more
    (\<open>parse_fuel_bound\<close>, \<open>json_fuel_adequate\<close>).
  \<^item> \<open>Assets\<close>: \<open>SharedAssets\<close>, \<open>json.Unmarshal\<close> into it, \<open>LoadAndSerializeAssets\<close>
    over an abstract PKI disk, \<open>SaveAssets\<close> with its four ordered writes, and
    \<open>kubeadm_provider\<close>, which plugs both into the coordinator's provider.
  \<^item> \<open>Kubeadm\<close>: \<open>kubeadm.Config\<close>, \<open>getHost\<close> (with Go 1.8 \<open>URL.Port\<close> and
    \<open>net.SplitHostPort\<close>), \<open>GetKubeadmCfg\<close> with the API port parsed by
    \<open>strconv.ParseInt(port, 10, 32)\<close> into a \<open>32 word\<close>, \<open>CreatePKI\<close>,
    \<open>createAKubeCfg\<close>, \<open>CreateKubeConfig\<close> and \<open>WriteManifests\<close>, against an
    environment of oracles (the kubeadm binary, hostname, file writes). The environment also
    carries the two networking defaults of the keto-k8 constants package (\<open>netconsts\<close>),
    which is not under \<open>src/\<close>.
  \<^item> \<open>Kmm\<close>: \<open>stringToMap\<close> (with \<open>strings.FieldsFunc\<close>), \<open>UpdateCloudCfg\<close> over its view
    of the configuration in which the API server is a possibly nil pointer,
    \<open>InstallNetwork\<close>, \<open>CopyKubeCa\<close>, \<open>TokensDeploy\<close>, \<open>SetupCompute\<close> (whose outcome
    is a return, a Go panic or parking) and \<open>k8client.Create\<close>, against oracles for the
    cloud provider, \<open>url.Parse\<close>, the file system and the kubectl binary.
  \<^item> \<open>Wiring\<close>: Go's values and pointers around \<open>New\<close>. An explicit heap maps
    addresses to \<open>kubeadm.Config\<close> objects (\<open>kobj\<close>, whose \<open>APIServer\<close> may be nil)
    and to \<open>Kmm\<close> objects (\<open>ctype\<close>, the \<open>ConfigType\<close> struct). \<open>New_w\<close> copies the
    configuration, allocates the \<open>Kmm\<close> copy and shares the kubeadm pointer.
    \<open>UpdateCloudCfg_w\<close>, \<open>CreatePKI_w\<close>, \<open>TokensDeploy_w\<close> and \<open>WriteManifests_w\<close>
    dispatch the calls through the pointers. \<open>SetupCompute_w\<close> is \<open>SetupCompute\<close> on that
    heap, and \<open>Start_w\<close> is the start of \<open>CreateOrGetSharedAssets\<close> (lines 110-118).

  \<^bold>\<open>What is proved.\<close> Across nodes (this theory, C1-C6, C13, C14, C19):
  \<^item> at most one writer, immutability of the published record, secondaries only after
    publication, and mutual exclusion of primaries while leases are respected;
  \<^item> two reachable hazards when leases are not respected, or when the asset key is not
    re-read after locking;
  \<^item> back-off fidelity, and publication only after the complete primary sequence;
  \<^item> a corrupted asset record accepted by a secondary (C19, composing the codec with the
    secondary sequence).
  For one process (\<open>Process\<close>, C7-C12): termination on every input, the completion gate,
  cleanup on failure, terminal store errors, the ignored load error, and scenario 1.
  For the codec (\<open>Assets\<close>, C15-C18): the round trip of ASCII bundles, that a secondary
  writes what the primary loaded, and the error behaviour of both routines.
  For the wrapper (\<open>Kubeadm\<close>, C20-C23, C34):
  \<^item> the int32 bind port never wraps, and no other bound is applied;
  \<^item> \<open>getHost\<close> inverts \<open>JoinHostPort\<close>;
  \<^item> the kubeconfig sequence and its errors;
  \<^item> when \<open>GetKubeadmCfg\<close> succeeds, and every field it sets.
  For the host actions (\<open>Kmm\<close>, C24-C29):
  \<^item> the round trip of \<open>stringToMap\<close>, and that it silently drops every argument whose
    value contains a separator;
  \<^item> the panic of \<open>SetupCompute\<close> without a cloud provider, and the kubelet error it
    discards;
  \<^item> the error behaviour of \<open>UpdateCloudCfg\<close> and \<open>CopyKubeCa\<close>.
  For the wiring (\<open>Wiring\<close>, C30-C33):
  \<^item> the heap-level \<open>SetupCompute\<close> equals the field-level one;
  \<^item> after \<open>New\<close>, the cloud's API server reaches \<open>CreatePKI\<close> through the shared
    object, and its cluster name reaches \<open>TokensDeploy\<close> through the \<open>Kmm\<close> copy;
  \<^item> the coordinator's \<open>run_seq\<close> abstraction of the master's start is faithful to the
    heap-level code;
  \<^item> that start panics in \<open>WriteManifests\<close> exactly when no API server is configured or
    supplied by a cloud provider and the CA copy succeeds.

  \<^bold>\<open>Not modelled.\<close> The cryptography and PEM encoding (pkiutil, certutil): the disk holds
  the re-encoded PEM texts. UTF-8 validation of \<open>encoding/json\<close> (bytes of 0x80 and up
  are copied), and the Unicode case folding of JSON keys beyond ASCII. The values of the two
  networking defaults of the keto-k8 constants package, which is not in the repository:
  they are a parameter of the kubeadm environment. In the coordinator, the provider answers each call independently.
  The state that \<open>UpdateCloudCfg\<close> leaves in the shared configuration is modelled in
  \<open>Wiring\<close> for \<open>CreatePKI\<close> and \<open>TokensDeploy\<close>, not for the whole master sequence.
  The etcd client that \<open>New\<close> builds belongs to the store model of \<open>Etcd\<close>. The
  external collaborators themselves (kubeadm, kubectl, the cloud
  provider, the network and token packages), which are oracles; logging.
\<close>

section \<open>Properties of the coordinator across nodes\<close>

text \<open>
  C1. At most one writer: in every reachable state of a cluster of any size, with or without
  the lease-timing assumption, at most one node has ever published the shared asset record
  with a successful \<open>PutTx\<close>, and the store holds exactly what it published.
\<close>

theorem at_most_one_writer:
  assumes "reachable cfgs bounded c" "i < length (nodes c)" "j < length (nodes c)"
    and "published (nodes c ! i) a" "published (nodes c ! j) b"
  shows "i = j \<and> a = b \<and> asset_is (store c) a"
proof -
  from assms(1) have inv: "safety_inv c" by (rule reachable_safety_inv)
  then have "i = j" using assms(2-5) by (auto simp: safety_inv_def single_writer_def)
  moreover have "asset_is (store c) a" "asset_is (store c) b"
    using inv assms(2-5) nth_mem by (fastforce simp: safety_inv_def writers_agree_def)+
  ultimately show ?thesis by (simp add: asset_is_def)
qed

theorem at_most_one_writer_witness:
  "reachable ok_cfgs True race_state \<and> published (nodes race_state ! 0) ''A''
   \<and> asset_is (store race_state) ''A''"
proof -
  have p: "published (nodes race_state ! 0) ''A''"
    by (simp add: race_state_def published_def)
  have l: "0 < length (nodes race_state)" by (simp add: race_state_def)
  from at_most_one_writer [OF race_reachable l l p p] p race_reachable show ?thesis by simp
qed


text \<open>
  C2. Immutability of the published record: once the asset key holds a record in a
  reachable state, every later state of the run holds the same record; no step of any node,
  of the clock or of the store's availability changes or removes it.
\<close>

theorem asset_record_immutable:
  assumes "reachable cfgs bounded c" "(cstep cfgs bounded)\<^sup>*\<^sup>* c c'"
    and "kv (store c) assetKey = Some e"
  shows "kv (store c') assetKey = Some e"
proof -
  from reachable_safety_inv [OF assms(1)] assms(3) have exp: "expires e = None"
    by (simp add: safety_inv_def leaseless_asset_def)
  from assms(2) show ?thesis
  proof (induction rule: rtranclp_induct)
    case base
    from assms(3) show ?case .
  next
    case (step y z)
    from step.hyps(2) step.IH exp show ?case by (rule cstep_asset_kept)
  qed
qed

theorem asset_record_immutable_witness:
  "kv (store (race_state\<lparr>clock := clock race_state + 1000\<rparr>)) assetKey
     = Some \<lparr>data = ''A'', expires = None\<rparr>"
proof -
  have "lease_ok race_state (clock race_state + 1000)"
    by (simp add: lease_ok_def race_state_def)
  then have "cstep ok_cfgs True race_state (race_state\<lparr>clock := clock race_state + 1000\<rparr>)"
    by (intro cstep.tick) simp
  then have run: "(cstep ok_cfgs True)\<^sup>*\<^sup>* race_state (race_state\<lparr>clock := clock race_state + 1000\<rparr>)"
    by (rule r_into_rtranclp)
  have "kv (store race_state) assetKey = Some \<lparr>data = ''A'', expires = None\<rparr>"
    by (simp add: race_state_def)
  from asset_record_immutable [OF race_reachable run this] show ?thesis .
qed

text \<open>
  C3. No premature secondary action: a node that is on the secondary path, or has already
  saved assets to disk, does so only with the bundle the store holds, and that bundle was
  published by a node of the cluster through a successful \<open>PutTx\<close>.
\<close>

theorem secondary_only_after_publication:
  assumes "reachable cfgs bounded c" "n \<in> set (nodes c)" "consumes n a"
  shows "asset_is (store c) a \<and> (\<exists>m \<in> set (nodes c). published m a)"
proof -
  from reachable_safety_inv [OF assms(1)]
  have "consumers_agree c" "record_has_writer c" by (simp_all add: safety_inv_def)
  with assms(2,3) show ?thesis
    by (fastforce simp: consumers_agree_def record_has_writer_def asset_is_def)
qed

theorem secondary_only_after_publication_witness:
  "consumes (nodes race_state ! 1) ''A'' \<and> asset_is (store race_state) ''A''
   \<and> (\<exists>m \<in> set (nodes race_state). published m ''A'')"
proof -
  have n: "nodes race_state ! 1 \<in> set (nodes race_state)" by (simp add: race_state_def)
  have cons: "consumes (nodes race_state ! 1) ''A''"
    by (simp add: race_state_def consumes_def prelude_log_def image_iff)
  from secondary_only_after_publication [OF race_reachable n cons] cons show ?thesis by simp
qed

text \<open>
  C4. Mutual exclusion of lock holders: if no lease runs out while its holder is still in
  the primary section (\<open>BootstrapOnce\<close> and the publication end within the lock TTL), at most
  one node is ever between a granted \<open>GetOrCreateLock\<close> and its return.
\<close>

theorem primary_mutual_exclusion:
  assumes "reachable cfgs True c" "i < length (nodes c)" "j < length (nodes c)"
    and "in_primary (pc (nodes c ! i))" "in_primary (pc (nodes c ! j))"
  shows "i = j"
  using reachable_lock_holders_ok [OF assms(1)] assms(2-5) by (simp add: lock_holders_ok_def)

theorem primary_mutual_exclusion_witness:
  "in_primary (pc (nodes holder_state ! 0)) \<and> (0::nat) = 0"
proof -
  have l: "0 < length (nodes holder_state)" by (simp add: holder_state_def)
  have p: "in_primary (pc (nodes holder_state ! 0))" by (simp add: holder_state_def)
  from primary_mutual_exclusion [OF holder_reachable l l p p] p show ?thesis by simp
qed

text \<open>
  C5. Without the timing assumption the lock does not exclude: the lease of a node that is
  still bootstrapping can run out after \<open>defaultLockTTL\<close>, and a second node is then granted
  the lock while the first still holds it in its primary section.
\<close>

theorem lease_expiry_two_lock_holders:
  "\<exists>c. reachable ok_cfgs False c \<and> in_primary (pc (nodes c ! 0)) \<and> in_primary (pc (nodes c ! 1))"
proof (rule run_sched_exists [where es = "[Run 0, Run 0, Run 0, Tick 120, Run 1, Run 1, Run 1]"])
  show "reachable ok_cfgs False (initial empty_store 0 2)"
    by (rule reachable.init) (simp add: empty_store_def)
qed (simp add: scenario_simps)

text \<open>
  C6. Even when every lease holds, a node can run the whole primary sequence after the
  record was published: it reads "missing" before the publication, the winner publishes and
  returns without releasing its lock, the lock expires, and the late node's
  \<open>GetOrCreateLock\<close> is granted. It generates fresh PKI, starts its control plane with it,
  and only then fails on \<open>PutTx\<close> with \<open>ErrKeyExists\<close>.
\<close>

theorem stale_read_second_bootstrap:
  "\<exists>c. reachable ok_cfgs True c \<and> asset_is (store c) ''A''
       \<and> set (primary_log 120) \<subseteq> set (log (nodes c ! 1))
       \<and> pc (nodes c ! 1) = Returned (Some ErrKeyExists)"
proof (rule run_sched_exists
    [where es = "[Run 0, Run 0, Run 0, Run 1, Run 1, Run 0, Run 0, Run 0, Tick 120, Run 1, Run 1,
                  Run 1, Run 1]"])
  show "reachable ok_cfgs True (initial empty_store 0 2)"
    by (rule reachable.init) (simp add: empty_store_def)
qed (simp add: scenario_simps asset_is_def primary_log_def)


section \<open>Order of each node's actions\<close>

text \<open>
  C13. Back-off fidelity: in every reachable cluster, after a refused lock attempt at time
  \<open>t\<close>, every later read of the store by the same node happens at time
  \<open>t + MasterBackOffTime\<close> or later.
\<close>

theorem backoff_fidelity:
  assumes "reachable cfgs bounded c" "i < length (nodes c)"
    and "log (nodes c ! i) = xs @ (t, StoreLock assetLockKey (Inr False)) # ys"
    and "(t', StoreGet k r) \<in> set ys"
  shows "t + MasterBackOffTime (cfgs i) \<le> t'"
proof -
  let ?b = "MasterBackOffTime (cfgs i)"
  from reachable_bo_inv [OF assms(1)] assms(2) have inv: "bo_inv (cfgs i) (clock c) (nodes c ! i)"
    by blast
  from inv assms(3) have ok: "bo_ok ?b (t + ?b) ys"
    by (simp add: bo_inv_def bo_ok_append refused_def)
  from inv assms(3) have "sorted (map fst ys)" "\<forall>x \<in> set ys. t \<le> fst x"
    by (simp_all add: bo_inv_def sorted_append)
  with ok assms(4) show ?thesis
    by (intro bo_ok_gets [of ?b "t + ?b" ys t' "StoreGet k r"]) (auto simp: is_get_def)
qed

theorem backoff_fidelity_witness:
  "0 + MasterBackOffTime (ok_cfgs 1) \<le> (20::time)"
proof -
  have l: "1 < length (nodes race_state)" by (simp add: race_state_def)
  have lg: "log (nodes race_state ! 1) = prelude_log @ (0, StoreLock assetLockKey (Inr False))
     # [(20, StoreGet assetKey (Inr ''A'')), (20, Ext (SaveAssets ''A'') None), (20, Ext CreatePKI None),
        (20, Ext CreateKubeConfig None), (20, Ext (CreateAndStartKubelet True) None),
        (20, Ext UpdateMasterRoleLabelsAndTaints None)]"
    by (simp add: race_state_def)
  show ?thesis
    by (rule backoff_fidelity [OF race_reachable l lg]) simp
qed

text \<open>
  C14. Publication only after generation: in every reachable cluster, a node that has
  published the asset record did so after its log shows the complete primary sequence
  (\<open>CreatePKI\<close>, \<open>LoadAndSerializeAssets\<close>, \<open>CreateKubeConfig\<close>, \<open>CreateAndStartKubelet\<close>,
  \<open>Addons\<close>, \<open>InstallNetwork\<close>, \<open>TokensDeploy\<close>) in this order, every step but
  \<open>LoadAndSerializeAssets\<close> successful, and the published bundle is what
  \<open>LoadAndSerializeAssets\<close> returned.
\<close>

theorem publication_after_generation:
  assumes "reachable cfgs bounded c" "i < length (nodes c)" "published (nodes c ! i) a"
  shows "(\<exists>pre t1 t2 post. t1 \<le> t2 \<and> log (nodes c ! i) =
            pre @ ext_log t1 (prov (cfgs i)) primary_seq @ [(t2, StorePut assetKey a None)] @ post)
         \<and> a = fst (load_and_serialize_assets (prov (cfgs i)))
         \<and> (\<forall>call \<in> set primary_seq - {LoadAndSerializeAssets}. outcome (prov (cfgs i)) call = None)"
proof -
  from reachable_pub_inv [OF assms(1)] assms(2) have "pub_inv (cfgs i) (clock c) (nodes c ! i)"
    by blast
  with assms(3) have "\<exists>pre t1 t2 post. t1 \<le> t2 \<and> log (nodes c ! i) =
            pre @ ext_log t1 (prov (cfgs i)) primary_seq @ [(t2, StorePut assetKey a None)] @ post"
    and "fst (BootstrapOnce (prov (cfgs i))) = Inr a"
    by (simp_all add: pub_inv_def)
  with BootstrapOnce_success show ?thesis by blast
qed

theorem publication_after_generation_witness:
  "(\<exists>pre t1 t2 post. t1 \<le> t2 \<and> log (nodes race_state ! 0) =
      pre @ ext_log t1 (prov (ok_cfgs 0)) primary_seq @ [(t2, StorePut assetKey ''A'' None)] @ post)
   \<and> ''A'' = fst (load_and_serialize_assets (prov (ok_cfgs 0)))"
proof -
  have l: "0 < length (nodes race_state)" by (simp add: race_state_def)
  have p: "published (nodes race_state ! 0) ''A''" by (simp add: race_state_def published_def)
  from publication_after_generation [OF race_reachable l p] show ?thesis by blast
qed

section \<open>The coordinator with the kubeadm asset codec\<close>

text \<open>
  C19. A corrupted asset record is accepted: when the published record is not JSON at all,
  a secondary whose collaborators otherwise succeed runs \<open>BootstrapSecondaryMaster\<close> to
  the end and reports success, because \<open>SaveAssets\<close> discards the error of
  \<open>json.Unmarshal\<close> and writes the four key files with empty contents.
\<close>

theorem corrupted_record_accepted:
  assumes "json_parse s = None" and "\<forall>path. wr path = None"
  shows "BootstrapSecondaryMaster (kubeadm_provider d wr (all_ok a)) s =
           (None, [SaveAssets s, CreatePKI, CreateKubeConfig, CreateAndStartKubelet True,
                   UpdateMasterRoleLabelsAndTaints])
         \<and> snd (kubeadm_SaveAssets wr s) = map fst (save_plan empty_assets)
         \<and> (\<forall>w\<in>set (snd (kubeadm_SaveAssets wr s)). wdata w = [])"
proof -
  from assms have sv: "kubeadm_SaveAssets wr s = (None, map fst (save_plan empty_assets))"
    by (rule save_malformed)
  then have "BootstrapSecondaryMaster (kubeadm_provider d wr (all_ok a)) s =
           (None, [SaveAssets s, CreatePKI, CreateKubeConfig, CreateAndStartKubelet True,
                   UpdateMasterRoleLabelsAndTaints])"
    unfolding BootstrapSecondaryMaster_def
    by (intro run_seq_all_ok) (simp add: kubeadm_provider_def all_ok_def)
  with sv show ?thesis by (simp add: save_plan_def empty_assets_def)
qed

theorem corrupted_record_accepted_witness:
  "BootstrapSecondaryMaster (kubeadm_provider \<lparr>sa_key = None, sa_pub = None, front_proxy = None\<rparr>
       (\<lambda>_. None) (all_ok [])) ''garbage'' =
     (None, [SaveAssets ''garbage'', CreatePKI, CreateKubeConfig, CreateAndStartKubelet True,
             UpdateMasterRoleLabelsAndTaints])
   \<and> map wdata (snd (kubeadm_SaveAssets (\<lambda>_. None) ''garbage'')) = ['''', '''', '''', '''']"
proof -
  have "json_parse ''garbage'' = None"
    by (simp add: json_parse_def json_fuel_def numeral_eq_Suc is_ws_def skip_ws_def pnumber_def pint_def digits1_def is_digit_def)
  from corrupted_record_accepted [OF this, of "\<lambda>_. None"] show ?thesis
    by (simp add: save_plan_def empty_assets_def)
qed
end
